(* ===== verification/Prelude.thy ===== *)
theory Prelude
  imports Complex_Main "HOL-Library.Sublist"
begin

text \<open>
  Shared vocabulary of the development: the error values the Python program can raise
  (\<open>py_error\<close>), the sequencing of fallible computations (\<open>err_bind\<close>, \<open>map_err\<close>),
  and the Python string primitives the program calls on column headers: \<open>str.lower\<close>,
  \<open>str.strip\<close>, the substring test \<open>in\<close> and string repetition \<open>s * n\<close>.
  Strings are Isabelle \<open>string\<close>s whose characters are read as Latin-1 code points
  (\<open>of_char c\<close> is the code point): every header pattern of the program, with its
  accented letters, lies in that range. The Unicode case and whitespace tables beyond
  Latin-1 are not modelled.
\<close>

named_theorems py_simps "evaluation rules of the Python primitives"
named_theorems err_simps "rules for sequencing fallible computations"

section \<open>Errors and their sequencing\<close>

text \<open>
  An exception of the program is a value \<open>Inl e\<close>; a normal result is \<open>Inr x\<close>.
  \<open>FileLoadError\<close> is what \<open>pd.read_excel\<close> raises for a missing or unreadable file,
  \<open>TypeError\<close> what pandas raises when a comparison or arithmetic meets a string cell,
  \<open>DuplicateLabel\<close> the failure of an operation on a label that names several columns,
  \<open>KeyError\<close> a missing column label, \<open>IndexError\<close> an index past the end of a list.
\<close>

datatype py_error = FileLoadError string | TypeError | DuplicateLabel string | KeyError string
  | IndexError

type_synonym 'a result = "py_error + 'a"

definition err_bind :: "'e + 'a \<Rightarrow> ('a \<Rightarrow> 'e + 'b) \<Rightarrow> 'e + 'b" where
  "err_bind m f = (case m of Inl e \<Rightarrow> Inl e | Inr a \<Rightarrow> f a)"

lemma err_bind_Inl [simp, err_simps]: "err_bind (Inl e) f = Inl e"
  by (simp add: err_bind_def)

lemma err_bind_Inr [simp, err_simps]: "err_bind (Inr a) f = f a"
  by (simp add: err_bind_def)

lemma err_bind_eq_Inr [err_simps]:
  "err_bind m f = Inr b \<longleftrightarrow> (\<exists>a. m = Inr a \<and> f a = Inr b)"
  by (cases m) simp_all

lemma err_bind_eq_Inl [err_simps]:
  "err_bind m f = Inl e \<longleftrightarrow> m = Inl e \<or> (\<exists>a. m = Inr a \<and> f a = Inl e)"
  by (cases m) simp_all

text \<open>
  An element-wise operation over a column evaluated eagerly: the first cell whose
  operation raises makes the whole column operation raise.
\<close>

fun map_err :: "('a \<Rightarrow> 'e + 'b) \<Rightarrow> 'a list \<Rightarrow> 'e + 'b list" where
  "map_err f [] = Inr []"
| "map_err f (x # xs) = err_bind (f x) (\<lambda>y. err_bind (map_err f xs) (\<lambda>ys. Inr (y # ys)))"

lemma map_err_map [err_simps]:
  "(\<And>x. x \<in> set xs \<Longrightarrow> f x = Inr (g x)) \<Longrightarrow> map_err f xs = Inr (map g xs)"
  by (induction xs) simp_all

lemma map_err_Inr_length:
  "map_err f xs = Inr ys \<Longrightarrow> length ys = length xs"
  by (induction xs arbitrary: ys) (auto simp: err_bind_eq_Inr)

lemma map_err_Inr_nth:
  "map_err f xs = Inr ys \<Longrightarrow> i < length xs \<Longrightarrow> f (xs ! i) = Inr (ys ! i)"
proof (induction xs arbitrary: ys i)
  case Nil
  then show ?case by simp
next
  case (Cons x xs)
  then obtain y ys' where "f x = Inr y" "map_err f xs = Inr ys'" "ys = y # ys'"
    by (auto simp: err_bind_eq_Inr)
  with Cons show ?case by (cases i) auto
qed

lemma map_err_Inr_iff:
  "(\<exists>ys. map_err f xs = Inr ys) \<longleftrightarrow> (\<forall>x\<in>set xs. \<exists>y. f x = Inr y)"
  by (induction xs) (auto simp: err_bind_eq_Inr)

lemma map_err_Inl_iff:
  "(\<exists>e. map_err f xs = Inl e) \<longleftrightarrow> (\<exists>x\<in>set xs. \<exists>e. f x = Inl e)"
proof -
  have "(\<exists>e. map_err f xs = Inl e) \<longleftrightarrow> \<not> (\<exists>ys. map_err f xs = Inr ys)"
    by (cases "map_err f xs") auto
  also have "\<dots> \<longleftrightarrow> (\<exists>x\<in>set xs. \<exists>e. f x = Inl e)"
    unfolding map_err_Inr_iff by (metis sum.exhaust_sel sum.disc(2) isl_def)
  finally show ?thesis .
qed

lemma map_err_Inl_from:
  "map_err f xs = Inl e \<Longrightarrow> \<exists>x\<in>set xs. f x = Inl e"
  by (induction xs) (auto simp: err_bind_eq_Inl)

text \<open>When every failing element fails with the same error, that error is the result.\<close>

lemma map_err_Inl_same:
  assumes "\<forall>x\<in>set xs. \<forall>e. f x = Inl e \<longrightarrow> e = E" "\<exists>x\<in>set xs. \<exists>e. f x = Inl e"
  shows "map_err f xs = Inl E"
proof -
  have "\<exists>e. map_err f xs = Inl e" using assms(2) by (simp only: map_err_Inl_iff)
  then obtain e where e: "map_err f xs = Inl e" ..
  then obtain x where x: "x \<in> set xs" "f x = Inl e" using map_err_Inl_from by metis
  from assms(1) x have "e = E" by simp
  with e show ?thesis by simp
qed

section \<open>Python string primitives\<close>

subsection \<open>str.lower\<close>

text \<open>
  Lower-casing of a Latin-1 code point: \<open>A\<close>..\<open>Z\<close> (65..90) and the accented
  capitals 192..222 except the multiplication sign 215 map to the code point 32 above,
  that is, bit 5 of the byte is set. Every other code point of the range is its own
  lower case.
\<close>

fun py_lower_char :: "char \<Rightarrow> char" where
  "py_lower_char (Char b0 b1 b2 b3 b4 b5 b6 b7) =
     (let n = (of_char (Char b0 b1 b2 b3 b4 b5 b6 b7) :: nat) in
      if (65 \<le> n \<and> n \<le> 90) \<or> (192 \<le> n \<and> n \<le> 222 \<and> n \<noteq> 215)
      then Char b0 b1 b2 b3 b4 True b6 b7 else Char b0 b1 b2 b3 b4 b5 b6 b7)"

definition py_lower :: "string \<Rightarrow> string" where
  "py_lower s = map py_lower_char s"

lemma length_py_lower [simp]: "length (py_lower s) = length s"
  by (simp add: py_lower_def)

lemma py_lower_Nil [simp]: "py_lower [] = []"
  by (simp add: py_lower_def)

lemma py_lower_Nil_iff [simp]: "py_lower s = [] \<longleftrightarrow> s = []"
  by (simp add: py_lower_def)

subsection \<open>str.strip\<close>

text \<open>
  \<open>str.isspace\<close> on Latin-1: the controls 9..13 and 28..31, the space 32, the
  next-line control 133 and the no-break space 160. \<open>str.strip()\<close> removes the
  longest run of such characters at either end.
\<close>

definition py_isspace :: "char \<Rightarrow> bool" where
  "py_isspace c =
     (let n = (of_char c :: nat) in (9 \<le> n \<and> n \<le> 13) \<or> (28 \<le> n \<and> n \<le> 32) \<or> n = 133 \<or> n = 160)"

definition py_strip :: "string \<Rightarrow> string" where
  "py_strip s = rev (dropWhile py_isspace (rev (dropWhile py_isspace s)))"

lemma rev_dropWhile_rev_split:
  "ys = rev (dropWhile P (rev ys)) @ rev (takeWhile P (rev ys))"
  by (metis rev_append rev_rev_ident takeWhile_dropWhile_id)

lemma dropWhile_rev_dropWhile_keep:
  assumes "ys = [] \<or> \<not> P (hd ys)"
  shows "dropWhile P (rev (dropWhile P (rev ys))) = rev (dropWhile P (rev ys))"
proof (cases "rev (dropWhile P (rev ys))")
  case Nil
  then show ?thesis by (simp only: dropWhile.simps(1))
next
  case (Cons z zs)
  from rev_dropWhile_rev_split [of ys P] Cons
  have "ys = (z # zs) @ rev (takeWhile P (rev ys))" by (simp only:)
  then have "hd ys = z" by (metis append_Cons list.sel(1))
  with assms Cons show ?thesis by auto
qed

text \<open>The two ends of a stripped string are not white space.\<close>

lemma py_strip_no_leading:
  "py_strip s = c # r \<Longrightarrow> \<not> py_isspace c"
  unfolding py_strip_def
  by (metis dropWhile_rev_dropWhile_keep hd_dropWhile list.sel(1) list.distinct(1))

lemma py_strip_no_trailing:
  "py_strip s = r @ [c] \<Longrightarrow> \<not> py_isspace c"
  unfolding py_strip_def
  by (metis hd_dropWhile list.sel(1) list.distinct(1) rev_eq_Cons_iff rev_rev_ident)

lemma py_strip_idem [simp]: "py_strip (py_strip s) = py_strip s"
proof -
  let ?u = "dropWhile py_isspace s"
  have "?u = [] \<or> \<not> py_isspace (hd ?u)" using hd_dropWhile by blast
  then have "dropWhile py_isspace (py_strip s) = py_strip s"
    unfolding py_strip_def by (rule dropWhile_rev_dropWhile_keep)
  then show ?thesis by (simp add: py_strip_def)
qed

lemma py_strip_sublist: "sublist (py_strip s) s"
proof -
  let ?u = "dropWhile py_isspace s"
  have "s = takeWhile py_isspace s @ ?u" by simp
  moreover have "?u = py_strip s @ rev (takeWhile py_isspace (rev ?u))"
    unfolding py_strip_def by (rule rev_dropWhile_rev_split)
  ultimately have "s = takeWhile py_isspace s @ py_strip s @ rev (takeWhile py_isspace (rev ?u))"
    by simp
  then show ?thesis by (metis sublist_appendI)
qed

subsection \<open>Truthiness of an optional string\<close>

text \<open>\<open>if x:\<close> on a value that is \<open>None\<close> or a \<open>str\<close>: false for \<open>None\<close> and the empty string.\<close>

fun py_truthy :: "string option \<Rightarrow> bool" where
  "py_truthy None = False"
| "py_truthy (Some s) = (s \<noteq> [])"

subsection \<open>Dictionaries\<close>

text \<open>
  A Python \<open>dict\<close> as the list of its items in iteration order. Storing a key that is
  present replaces its value in place; a new key goes to the end. A comprehension
  \<open>{k: v for ...}\<close> stores its items in the order they are produced.
\<close>

fun dict_set :: "('k \<times> 'v) list \<Rightarrow> 'k \<Rightarrow> 'v \<Rightarrow> ('k \<times> 'v) list" where
  "dict_set [] k v = [(k, v)]"
| "dict_set ((k', v') # ps) k v = (if k' = k then (k, v) # ps else (k', v') # dict_set ps k v)"

definition dict_of :: "('k \<times> 'v) list \<Rightarrow> ('k \<times> 'v) list" where
  "dict_of ps = fold (\<lambda>(k, v) d. dict_set d k v) ps []"

lemma dict_of_Nil [simp]: "dict_of [] = []"
  by (simp add: dict_of_def)

lemma dict_of_snoc: "dict_of (ps @ [(k, v)]) = dict_set (dict_of ps) k v"
  by (simp add: dict_of_def)

lemma map_of_dict_set [simp]: "map_of (dict_set d k v) = (map_of d)(k \<mapsto> v)"
  by (induction d) (auto simp: fun_eq_iff)

lemma keys_dict_set:
  "map fst (dict_set d k v) = (if k \<in> set (map fst d) then map fst d else map fst d @ [k])"
proof (induction d)
  case Nil
  then show ?case by simp
next
  case (Cons p d)
  obtain a b where "p = (a, b)" by fastforce
  with Cons show ?case by (cases "a = k") auto
qed

lemma set_keys_dict_set [simp]: "fst ` set (dict_set d k v) = insert k (fst ` set d)"
proof (induction d)
  case Nil
  then show ?case by simp
next
  case (Cons p d)
  then show ?case by (cases p) auto
qed

lemma find_Some_holds: "find Q xs = Some x \<Longrightarrow> Q x"
  by (induction xs) (auto split: if_splits)

lemma find_Some_in_set: "find Q xs = Some x \<Longrightarrow> x \<in> set xs"
  by (induction xs) (auto split: if_splits)

text \<open>Scanning the items for the first key with a property finds that key's value.\<close>

lemma find_items_by_key:
  "find (\<lambda>p. Q (fst p)) d = map_option (\<lambda>k. (k, the (map_of d k))) (find Q (map fst d))"
  by (induction d) (auto intro!: option.map_cong dest: find_Some_holds)

lemma find_snoc:
  "find Q (xs @ [x]) = (case find Q xs of None \<Rightarrow> (if Q x then Some x else None) | r \<Rightarrow> r)"
  by (induction xs) auto

lemma find_None_notin: "find Q xs = None \<Longrightarrow> x \<in> set xs \<Longrightarrow> \<not> Q x"
  by (simp add: find_None_iff)

lemma map_of_dict_of: "map_of (dict_of ps) = map_of (rev ps)"
  by (induction ps rule: rev_induct) (auto simp: dict_of_snoc)

lemma set_keys_dict_of: "set (map fst (dict_of ps)) = set (map fst ps)"
proof (induction ps rule: rev_induct)
  case Nil
  then show ?case by simp
next
  case (snoc p ps)
  then show ?case by (cases p) (simp add: dict_of_snoc)
qed

lemma keys_dict_of_find:
  "find Q (map fst (dict_of ps)) = find Q (map fst ps)"
proof (induction ps rule: rev_induct)
  case Nil
  then show ?case by (simp add: dict_of_def)
next
  case (snoc p ps)
  obtain k v where p: "p = (k, v)" by fastforce
  show ?case
  proof (cases "k \<in> set (map fst (dict_of ps))")
    case True
    then show ?thesis
      using snoc p set_keys_dict_of [of ps]
      by (auto simp: dict_of_snoc keys_dict_set find_snoc find_None_iff image_iff
          split: option.splits)
  next
    case False
    then show ?thesis
      using snoc p by (simp add: dict_of_snoc keys_dict_set find_snoc)
  qed
qed

end
