(* ===== verification/Frame.thy ===== *)
theory Frame
  imports Prelude
begin

text \<open>
  The part of pandas the program uses, at the level of values: a cell of a column, a
  data frame as its row count and its labelled columns, reading a column by label
  (\<open>df[c]\<close>), assigning one (\<open>df[c] = values\<close>), and the element-wise operations of
  \<open>src/app.py\<close> lines 47--61: comparison with 0, \<open>notna\<close>, division, subtraction,
  multiplication, \<open>between(0, 1)\<close>, \<open>mean\<close> of a boolean column and \<open>np.where\<close>.
  Numbers are real numbers: rounding of IEEE doubles is not modelled (the program's
  test values \<open>150/100\<close> and \<open>200000/1000\<close> are exact in both). A string cell in an
  arithmetic or order comparison raises \<open>TypeError\<close>, as it does in pandas on an
  object column; a string multiplied by an integer is repeated, as in Python.
\<close>

section \<open>Cells and frames\<close>

datatype cell = Num real | Txt string | NA

record frame =
  nrows :: nat
  cols :: "(string \<times> cell list) list"

definition col_names :: "frame \<Rightarrow> string list" where
  "col_names df = map fst (cols df)"

text \<open>Every column of a frame has one cell per row.\<close>

definition wf_frame :: "frame \<Rightarrow> bool" where
  "wf_frame df \<longleftrightarrow> list_all (\<lambda>c. length (snd c) = nrows df) (cols df)"

text \<open>
  \<open>df[c]\<close>: the column's cells; a label that is absent raises \<open>KeyError\<close>, a label
  that names several columns gives a frame that the program's element-wise code cannot
  use, modelled as \<open>DuplicateLabel\<close>.
\<close>

definition get_column :: "frame \<Rightarrow> string \<Rightarrow> cell list result" where
  "get_column df c =
     (case filter (\<lambda>p. fst p = c) (cols df) of
        [] \<Rightarrow> Inl (KeyError c)
      | [p] \<Rightarrow> Inr (snd p)
      | _ \<Rightarrow> Inl (DuplicateLabel c))"

text \<open>\<open>df[c] = values\<close>: replaces the cells of every column labelled \<open>c\<close>, or appends
  a new last column.\<close>

definition set_column :: "frame \<Rightarrow> string \<Rightarrow> cell list \<Rightarrow> frame" where
  "set_column df c vs =
     (if c \<in> set (col_names df)
      then df\<lparr>cols := map (\<lambda>p. if fst p = c then (c, vs) else p) (cols df)\<rparr>
      else df\<lparr>cols := cols df @ [(c, vs)]\<rparr>)"

section \<open>Element-wise operations\<close>

fun cell_notna :: "cell \<Rightarrow> bool" where
  "cell_notna NA = False"
| "cell_notna (Num x) = True"
| "cell_notna (Txt s) = True"

text \<open>\<open>s > 0\<close>: a missing value compares false.\<close>

fun cell_gt0 :: "cell \<Rightarrow> bool result" where
  "cell_gt0 (Num x) = Inr (0 < x)"
| "cell_gt0 NA = Inr False"
| "cell_gt0 (Txt s) = Inl TypeError"

text \<open>
  \<open>a / b\<close>. A zero divisor gives \<open>\<plusminus>inf\<close> or \<open>nan\<close> in numpy; the model gives the
  missing value \<open>NA\<close> there. The program masks every such cell with a guard \<open>b > 0\<close>
  (lemmas \<open>growth_values_nth\<close> and \<open>percap_values_nth\<close> of \<open>Deriver\<close>), so the choice
  never reaches a result.
\<close>

fun cell_div :: "cell \<Rightarrow> cell \<Rightarrow> cell result" where
  "cell_div (Txt s) b = Inl TypeError"
| "cell_div a (Txt s) = Inl TypeError"
| "cell_div (Num a) (Num b) = Inr (if b = 0 then NA else Num (a / b))"
| "cell_div a b = Inr NA"

text \<open>\<open>a - k\<close> for a number \<open>k\<close>.\<close>

fun cell_sub :: "cell \<Rightarrow> real \<Rightarrow> cell result" where
  "cell_sub (Num x) k = Inr (Num (x - k))"
| "cell_sub NA k = Inr NA"
| "cell_sub (Txt s) k = Inl TypeError"

text \<open>\<open>a * n\<close> for an integer \<open>n\<close>: a string is repeated \<open>n\<close> times.\<close>

fun cell_mul :: "cell \<Rightarrow> nat \<Rightarrow> cell" where
  "cell_mul (Num x) n = Num (x * of_nat n)"
| "cell_mul NA n = NA"
| "cell_mul (Txt s) n = Txt (concat (replicate n s))"

text \<open>\<open>s.between(0, 1)\<close>: \<open>(s >= 0) & (s <= 1)\<close>.\<close>

fun cell_between01 :: "cell \<Rightarrow> bool result" where
  "cell_between01 (Num x) = Inr (0 \<le> x \<and> x \<le> 1)"
| "cell_between01 NA = Inr False"
| "cell_between01 (Txt s) = Inl TypeError"

text \<open>
  \<open>bools.mean() > t\<close>: the share of true values; the mean of an empty column is
  \<open>nan\<close>, which compares false.
\<close>

definition mean_gt :: "bool list \<Rightarrow> real \<Rightarrow> bool" where
  "mean_gt bs t \<longleftrightarrow> bs \<noteq> [] \<and> t < real (length (filter id bs)) / real (length bs)"

text \<open>\<open>np.where(cond, values, np.nan)\<close>.\<close>

definition np_where :: "bool list \<Rightarrow> cell list \<Rightarrow> cell list" where
  "np_where cs vs = map2 (\<lambda>c v. if c then v else NA) cs vs"

section \<open>Lemmas\<close>

lemma col_names_set_column [simp]:
  "col_names (set_column df c vs) =
     (if c \<in> set (col_names df) then col_names df else col_names df @ [c])"
  by (auto simp: set_column_def col_names_def comp_def)

lemma nrows_set_column [simp]: "nrows (set_column df c vs) = nrows df"
  by (simp add: set_column_def)

lemma wf_set_column [intro]:
  "wf_frame df \<Longrightarrow> length vs = nrows df \<Longrightarrow> wf_frame (set_column df c vs)"
  by (auto simp: set_column_def wf_frame_def list_all_iff)

lemma get_column_Inr_iff:
  "get_column df c = Inr vs \<longleftrightarrow> filter (\<lambda>p. fst p = c) (cols df) = [(c, vs)]"
proof
  assume "get_column df c = Inr vs"
  then obtain p where f: "filter (\<lambda>p. fst p = c) (cols df) = [p]" and "snd p = vs"
    by (auto simp: get_column_def split: list.splits)
  from f have "p \<in> set (filter (\<lambda>p. fst p = c) (cols df))" by simp
  then have "fst p = c" by simp
  with f \<open>snd p = vs\<close> show "filter (\<lambda>p. fst p = c) (cols df) = [(c, vs)]"
    by (cases p) simp
next
  assume "filter (\<lambda>p. fst p = c) (cols df) = [(c, vs)]"
  then show "get_column df c = Inr vs" by (simp add: get_column_def)
qed

lemma get_column_in_cols: "get_column df c = Inr vs \<Longrightarrow> (c, vs) \<in> set (cols df)"
proof -
  assume "get_column df c = Inr vs"
  then have "(c, vs) \<in> set (filter (\<lambda>p. fst p = c) (cols df))"
    by (simp add: get_column_Inr_iff)
  then show ?thesis by simp
qed

lemma get_column_length:
  "wf_frame df \<Longrightarrow> get_column df c = Inr vs \<Longrightarrow> length vs = nrows df"
  by (auto simp: wf_frame_def list_all_iff dest!: get_column_in_cols)

lemma filter_map_replace:
  "filter (\<lambda>p. fst p = c) (map (\<lambda>p. if fst p = c then (c, ws) else p) xs)
     = map (\<lambda>p. (c, ws)) (filter (\<lambda>p. fst p = c) xs)"
  by (induction xs) auto

lemma get_column_set_column_same:
  "get_column df c = Inr vs \<Longrightarrow> get_column (set_column df c ws) c = Inr ws"
proof -
  assume g: "get_column df c = Inr vs"
  then have f: "filter (\<lambda>p. fst p = c) (cols df) = [(c, vs)]"
    by (simp add: get_column_Inr_iff)
  from g have "(c, vs) \<in> set (cols df)" by (rule get_column_in_cols)
  then have "c \<in> set (col_names df)"
    by (force simp: col_names_def)
  with f show ?thesis by (simp add: set_column_def get_column_def filter_map_replace)
qed

lemma get_column_set_column_new:
  "c \<notin> set (col_names df) \<Longrightarrow> get_column (set_column df c vs) c = Inr vs"
proof -
  assume c: "c \<notin> set (col_names df)"
  then have "filter (\<lambda>p. fst p = c) (cols df) = []"
    by (auto simp: filter_empty_conv col_names_def)
  with c show ?thesis by (simp add: set_column_def get_column_def)
qed

lemma get_column_set_column_other:
  "c' \<noteq> c \<Longrightarrow> get_column (set_column df c vs) c' = get_column df c'"
proof -
  assume ne: "c' \<noteq> c"
  have "filter (\<lambda>p. fst p = c') (map (\<lambda>p. if fst p = c then (c, vs) else p) xs) = filter (\<lambda>p. fst p = c') xs" for xs
    using ne by (induction xs) auto
  with ne show ?thesis by (simp add: set_column_def get_column_def)
qed

lemma length_np_where [simp]: "length (np_where cs vs) = min (length cs) (length vs)"
  by (simp add: np_where_def)

lemma np_where_nth:
  "i < length cs \<Longrightarrow> i < length vs \<Longrightarrow> np_where cs vs ! i = (if cs ! i then vs ! i else NA)"
  by (simp add: np_where_def)

end
