(* ===== verification/Loader.thy ===== *)
theory Loader
  imports Frame "HOL-Library.While_Combinator"
begin

text \<open>
  The loader of \<open>src/app.py\<close> lines 18--30. A file system maps each path to the frame
  \<open>pd.read_excel\<close> parses from it, or to nothing when the file is missing or not a
  readable spreadsheet (\<open>read_excel\<close>; parsing itself is not modelled, and the parsed
  headers are taken as strings, so \<open>str(c)\<close> is the identity). \<open>load_data\<close> strips
  every header (line 21). The decorator \<open>@st.cache_data\<close> keeps, across reruns of the
  script, a map from the argument (the path) to the returned frame: \<open>load_data_cached\<close>
  threads that cache as explicit state. A cached frame is returned as stored (Streamlit
  hands out a copy, which value semantics makes implicit); a call that raises stores
  nothing.
\<close>

type_synonym path = string

type_synonym file_system = "path \<rightharpoonup> frame"

type_synonym data_cache = "path \<rightharpoonup> frame"

definition read_excel :: "file_system \<Rightarrow> path \<Rightarrow> frame result" where
  "read_excel fs p = (case fs p of None \<Rightarrow> Inl (FileLoadError p) | Some df \<Rightarrow> Inr df)"

definition strip_headers :: "frame \<Rightarrow> frame" where
  "strip_headers df = df\<lparr>cols := map (\<lambda>(c, vs). (py_strip c, vs)) (cols df)\<rparr>"

definition load_data :: "file_system \<Rightarrow> path \<Rightarrow> frame result" where
  "load_data fs p = err_bind (read_excel fs p) (\<lambda>df. Inr (strip_headers df))"

definition load_data_cached :: "file_system \<Rightarrow> data_cache \<Rightarrow> path \<Rightarrow> (frame \<times> data_cache) result" where
  "load_data_cached fs cache p =
     (case cache p of
        Some df \<Rightarrow> Inr (df, cache)
      | None \<Rightarrow> err_bind (load_data fs p) (\<lambda>df. Inr (df, cache(p \<mapsto> df))))"

definition DATA_PATH :: path where
  "DATA_PATH = ''data/basededatos.xlsx''"

text \<open>\<open>str.strip()\<close> as CPython's \<open>do_strip\<close> computes it: an index \<open>i\<close> moves right
  over leading white space, then an index \<open>j\<close> moves left from the end while the
  character before it is white space and \<open>j > i\<close> (the C loop runs \<open>j\<close> one lower,
  \<open>j--; while (j >= i && ISSPACE(s[j])) j--; j++\<close>); the result is \<open>s[i:j]\<close>. Both loops are
  kept as loops (\<open>while_option\<close>, \<open>None\<close> if one never stopped).\<close>

definition strip_left :: "string \<Rightarrow> nat option" where
  "strip_left s = while_option (\<lambda>i. i < length s \<and> py_isspace (s ! i)) Suc 0"

definition strip_right :: "string \<Rightarrow> nat \<Rightarrow> nat option" where
  "strip_right s i = while_option (\<lambda>j. i < j \<and> py_isspace (s ! (j - 1))) (\<lambda>j. j - 1) (length s)"

definition py_strip_loop :: "string \<Rightarrow> string option" where
  "py_strip_loop s =
     (case strip_left s of
        None \<Rightarrow> None
      | Some i \<Rightarrow> (case strip_right s i of None \<Rightarrow> None | Some j \<Rightarrow> Some (take (j - i) (drop i s))))"

section \<open>Lemmas\<close>

lemma col_names_strip_headers [simp]:
  "col_names (strip_headers df) = map py_strip (col_names df)"
  by (simp add: strip_headers_def col_names_def case_prod_beta comp_def)

lemma cells_strip_headers [simp]: "map snd (cols (strip_headers df)) = map snd (cols df)"
  by (simp add: strip_headers_def case_prod_beta comp_def)

lemma nrows_strip_headers [simp]: "nrows (strip_headers df) = nrows df"
  by (simp add: strip_headers_def)

lemma wf_strip_headers: "wf_frame df \<Longrightarrow> wf_frame (strip_headers df)"
  by (simp add: strip_headers_def wf_frame_def list_all_iff case_prod_beta)

lemma load_data_Inr_iff: "load_data fs p = Inr df \<longleftrightarrow> (\<exists>raw. fs p = Some raw \<and> df = strip_headers raw)"
  by (auto simp: load_data_def read_excel_def err_bind_eq_Inr split: option.splits)

lemma load_data_cached_Inr:
  "load_data_cached fs cache p = Inr (df, cache') \<Longrightarrow> cache' p = Some df \<and> (\<forall>q. q \<noteq> p \<longrightarrow> cache' q = cache q)"
  by (auto simp: load_data_cached_def err_bind_eq_Inr split: option.splits)

section \<open>Properties of the loader\<close>

lemma left_loop_n:
  "length s - i = n \<Longrightarrow> while_option (\<lambda>i. i < length s \<and> P (s ! i)) Suc i = Some (i + length (takeWhile P (drop i s)))"
proof (induction n arbitrary: i)
  case 0
  then show ?case by (simp add: while_option_unfold [of _ _ i])
next
  case (Suc n)
  then have i: "i < length s" by simp
  then have d: "drop i s = s ! i # drop (Suc i) s" by (rule Cons_nth_drop_Suc [symmetric])
  show ?case
  proof (cases "P (s ! i)")
    case True
    from Suc.prems have "length s - Suc i = n" by simp
    from Suc.IH [OF this] i True d show ?thesis by (simp add: while_option_unfold [of _ _ i])
  next
    case False
    with i d show ?thesis by (simp add: while_option_unfold [of _ _ i])
  qed
qed

lemma right_loop_n:
  "j - i = n \<Longrightarrow> j \<le> length s \<Longrightarrow>
   while_option (\<lambda>j. i < j \<and> P (s ! (j - 1))) (\<lambda>j. j - 1) j
   = Some (j - length (takeWhile P (rev (drop i (take j s)))))"
proof (induction n arbitrary: j)
  case 0
  then show ?case by (simp add: while_option_unfold [of _ _ j])
next
  case (Suc n)
  then have ij: "i < j" and j: "j \<le> length s" by simp_all
  have r: "rev (drop i (take j s)) = s ! (j - 1) # rev (drop i (take (j - 1) s))"
  proof -
    from ij j have "take j s = take (j - 1) s @ [s ! (j - 1)]"
      by (metis Suc_diff_1 Suc_le_eq gr_implies_not0 not_gr_zero take_Suc_conv_app_nth)
    moreover from ij j have "i \<le> length (take (j - 1) s)" by simp
    ultimately show ?thesis by simp
  qed
  show ?case
  proof (cases "P (s ! (j - 1))")
    case True
    from Suc.prems have "(j - 1) - i = n" by simp
    from Suc.IH [OF this] j have "while_option (\<lambda>j. i < j \<and> P (s ! (j - 1))) (\<lambda>j. j - 1) (j - 1)
      = Some (j - 1 - length (takeWhile P (rev (drop i (take (j - 1) s)))))" by simp
    moreover have "length (takeWhile P (rev (drop i (take (j - 1) s)))) \<le> j - 1 - i"
      using length_takeWhile_le [of P "rev (drop i (take (j - 1) s))"] j by simp
    ultimately show ?thesis using ij True r by (simp add: while_option_unfold [of _ _ j])
  next
    case False
    with ij r show ?thesis by (simp add: while_option_unfold [of _ _ j])
  qed
qed

lemma rev_dropWhile_rev:
  "rev (dropWhile P (rev u)) = take (length u - length (takeWhile P (rev u))) u"
proof -
  have "dropWhile P (rev u) = drop (length (takeWhile P (rev u))) (rev u)"
    by (metis append_eq_conv_conj takeWhile_dropWhile_id)
  then show ?thesis by (simp add: rev_drop)
qed

text \<open>
  C22. A successful load returns the file's frame with every header stripped: the
  headers carry no surrounding white space, the cells and the row count are those
  parsed from the file.
\<close>

theorem load_data_strips_headers:
  assumes "load_data fs p = Inr df"
  shows "(\<exists>raw. fs p = Some raw \<and> col_names df = map py_strip (col_names raw)
            \<and> map snd (cols df) = map snd (cols raw) \<and> nrows df = nrows raw)
         \<and> (\<forall>h\<in>set (col_names df). py_strip h = h)"
proof -
  from assms obtain raw where fs: "fs p = Some raw" and df: "df = strip_headers raw"
    by (auto simp: load_data_Inr_iff)
  have "col_names df = map py_strip (col_names raw) \<and> map snd (cols df) = map snd (cols raw)
      \<and> nrows df = nrows raw"
    by (simp add: df)
  with fs have "\<exists>raw. fs p = Some raw \<and> col_names df = map py_strip (col_names raw)
      \<and> map snd (cols df) = map snd (cols raw) \<and> nrows df = nrows raw" by blast
  moreover have "\<forall>h\<in>set (col_names df). py_strip h = h" by (simp add: df)
  ultimately show ?thesis ..
qed

theorem load_data_strips_headers_witness:
  "load_data [''data.xlsx'' \<mapsto> \<lparr>nrows = 0, cols = [('' PIA '', [])]\<rparr>] ''data.xlsx''
     = Inr \<lparr>nrows = 0, cols = [(''PIA'', [])]\<rparr>
   \<and> map py_strip (col_names \<lparr>nrows = 0, cols = [(''PIA'', [])]\<rparr>)
     = col_names \<lparr>nrows = 0, cols = [(''PIA'', [])]\<rparr>"
proof -
  have l: "load_data [''data.xlsx'' \<mapsto> \<lparr>nrows = 0, cols = [('' PIA '', [])]\<rparr>] ''data.xlsx''
     = Inr \<lparr>nrows = 0, cols = [(''PIA'', [])]\<rparr>"
    by (simp add: load_data_def read_excel_def strip_headers_def py_strip_def py_isspace_def)
  from load_data_strips_headers [OF l]
  have "\<forall>h\<in>set (col_names \<lparr>nrows = 0, cols = [(''PIA'', [])]\<rparr>). py_strip h = h" by (rule conjunct2)
  then have "map py_strip (col_names \<lparr>nrows = 0, cols = [(''PIA'', [])]\<rparr>)
     = col_names \<lparr>nrows = 0, cols = [(''PIA'', [])]\<rparr>" by (intro map_idI) blast
  with l show ?thesis by (rule conjI)
qed



text \<open>
  The cache is keyed by the path alone: once a load succeeded, every later call
  with that path returns the same frame and leaves the cache unchanged, whatever the
  file system holds by then (a changed file is not reread).
\<close>

lemma load_cached_memo:
  assumes "load_data_cached fs cache p = Inr (df, cache')"
  shows "load_data_cached fs' cache' p = Inr (df, cache')"
proof -
  from load_data_cached_Inr [OF assms] have "cache' p = Some df" by simp
  then show ?thesis by (simp add: load_data_cached_def)
qed


end
