(* ===== verification/Resolver.thy ===== *)
theory Resolver
  imports Frame
begin

text \<open>
  The column resolver of \<open>src/app.py\<close>: \<open>find_col\<close> (lines 10--16) and the eleven
  calls that bind the canonical fields (lines 32--42). \<open>find_col\<close> builds the dictionary
  \<open>{str(c).lower(): c for c in df.columns}\<close> (\<open>lower_dict\<close>), then for each pattern in
  priority order scans the dictionary's items in iteration order (\<open>scan_patterns\<close>,
  \<open>scan_items\<close>). The abstract specification \<open>find_col_spec\<close> says the same without
  the dictionary: the first pattern that occurs in some lower-cased header selects the
  first such header in column order, and the dictionary returns the last header with
  that header's lower-cased text.
\<close>

section \<open>find_col\<close>

definition lower_dict :: "string list \<Rightarrow> (string \<times> string) list" where
  "lower_dict hs = dict_of (map (\<lambda>c. (py_lower c, c)) hs)"

fun scan_items :: "string \<Rightarrow> (string \<times> string) list \<Rightarrow> string option" where
  "scan_items p [] = None"
| "scan_items p ((k, orig) # items) =
     (if k = p \<or> sublist p k then Some orig else scan_items p items)"

fun scan_patterns :: "(string \<times> string) list \<Rightarrow> string list \<Rightarrow> string option" where
  "scan_patterns lcols [] = None"
| "scan_patterns lcols (pat # pats) =
     (case scan_items (py_lower pat) lcols of
        Some orig \<Rightarrow> Some orig
      | None \<Rightarrow> scan_patterns lcols pats)"

definition find_col :: "frame \<Rightarrow> string list \<Rightarrow> string option" where
  "find_col df candidates = scan_patterns (lower_dict (col_names df)) candidates"

section \<open>The canonical fields\<close>

abbreviation o_acute :: char where
  "o_acute \<equiv> CHR 0xF3"

definition entidad_patterns :: "string list" where
  "entidad_patterns = [''gobierno'', ''entidad'', ''municipalidad'', ''gobierno local'', ''nombre'',
     ''region'', ''unidad'']"

definition tipo_patterns :: "string list" where
  "tipo_patterns = [''tipo'', ''nivel de gobierno'', ''tipo gobierno'', ''gobierno regional'',
     ''gobierno local'']"

definition pia_patterns :: "string list" where
  "pia_patterns = [''pia'', ''presupuesto inicial de apertura'']"

definition pim_patterns :: "string list" where
  "pim_patterns = [''pim'', ''presupuesto institucional modificado'']"

definition avance_patterns :: "string list" where
  "avance_patterns = [''avance %'', ''avance%'', ''avance'', ''ejecuci'' @ [o_acute] @ ''n'', ''ejecucion'']"

definition poblacion_patterns :: "string list" where
  "poblacion_patterns = [''poblaci'' @ [o_acute] @ ''n'', ''poblacion'', ''hab'', ''habitantes'']"

definition punt_pim_patterns :: "string list" where
  "punt_pim_patterns = [''puntaje pim'', ''punt pim'', ''score pim'']"

definition punt_av_patterns :: "string list" where
  "punt_av_patterns = [''puntaje avance'', ''punt avance'', ''score avance'']"

definition punt_pop_patterns :: "string list" where
  "punt_pop_patterns = [''puntaje poblaci'' @ [o_acute] @ ''n'', ''punt poblacion'', ''score poblacion'']"

definition total_patterns :: "string list" where
  "total_patterns = [''total'', ''puntaje total'', ''score total'', ''orden presupuestal total'']"

definition orden_patterns :: "string list" where
  "orden_patterns = [''orden presupuestal'', ''ranking'', ''posicion'', ''posici'' @ [o_acute] @ ''n'']"

text \<open>The module-level variables \<open>col_entidad\<close> .. \<open>col_orden\<close>: the resolution map.\<close>

record resolution =
  col_entidad :: "string option"
  col_tipo :: "string option"
  col_pia :: "string option"
  col_pim :: "string option"
  col_avance :: "string option"
  col_poblacion :: "string option"
  col_punt_pim :: "string option"
  col_punt_av :: "string option"
  col_punt_pop :: "string option"
  col_total :: "string option"
  col_orden :: "string option"

definition resolve_columns :: "frame \<Rightarrow> resolution" where
  "resolve_columns df =
     \<lparr>col_entidad = find_col df entidad_patterns,
      col_tipo = find_col df tipo_patterns,
      col_pia = find_col df pia_patterns,
      col_pim = find_col df pim_patterns,
      col_avance = find_col df avance_patterns,
      col_poblacion = find_col df poblacion_patterns,
      col_punt_pim = find_col df punt_pim_patterns,
      col_punt_av = find_col df punt_av_patterns,
      col_punt_pop = find_col df punt_pop_patterns,
      col_total = find_col df total_patterns,
      col_orden = find_col df orden_patterns\<rparr>"

definition resolution_fields :: "resolution \<Rightarrow> string option list" where
  "resolution_fields r = [col_entidad r, col_tipo r, col_pia r, col_pim r, col_avance r,
     col_poblacion r, col_punt_pim r, col_punt_av r, col_punt_pop r, col_total r, col_orden r]"

definition all_patterns :: "string list list" where
  "all_patterns = [entidad_patterns, tipo_patterns, pia_patterns, pim_patterns, avance_patterns,
     poblacion_patterns, punt_pim_patterns, punt_av_patterns, punt_pop_patterns, total_patterns,
     orden_patterns]"

lemmas pattern_defs = entidad_patterns_def tipo_patterns_def pia_patterns_def pim_patterns_def
  avance_patterns_def poblacion_patterns_def punt_pim_patterns_def punt_av_patterns_def
  punt_pop_patterns_def total_patterns_def orden_patterns_def

section \<open>Abstract specification\<close>

definition header_matches :: "string \<Rightarrow> string \<Rightarrow> bool" where
  "header_matches p h \<longleftrightarrow> sublist (py_lower p) (py_lower h)"

definition last_same_lower :: "string list \<Rightarrow> string \<Rightarrow> string" where
  "last_same_lower hs h = last (filter (\<lambda>h'. py_lower h' = py_lower h) hs)"

definition find_col_spec :: "string list \<Rightarrow> string list \<Rightarrow> string option" where
  "find_col_spec hs cands =
     (case find (\<lambda>p. list_ex (header_matches p) hs) cands of
        None \<Rightarrow> None
      | Some p \<Rightarrow> map_option (last_same_lower hs) (find (header_matches p) hs))"

section \<open>Lemmas\<close>

lemma scan_items_find:
  "scan_items p d = map_option snd (find (\<lambda>kv. sublist p (fst kv)) d)"
  by (induction p d rule: scan_items.induct) auto

lemma find_map_conv: "find Q (map f xs) = map_option f (find (Q \<circ> f) xs)"
  by (induction xs) auto

lemma map_of_rev_keyed:
  "h \<in> set hs \<Longrightarrow>
   map_of (rev (map (\<lambda>c. (f c, c)) hs)) (f h) = Some (last (filter (\<lambda>c. f c = f h) hs))"
proof (induction hs rule: rev_induct)
  case Nil
  then show ?case by simp
next
  case (snoc x hs)
  show ?case
  proof (cases "f x = f h")
    case True
    then show ?thesis by simp
  next
    case False
    with snoc.prems have "h \<in> set hs" by auto
    with False snoc.IH show ?thesis by simp
  qed
qed

lemma scan_items_lower_dict:
  "scan_items p (lower_dict hs) =
     map_option (last_same_lower hs) (find (\<lambda>h. sublist p (py_lower h)) hs)"
proof -
  let ?ps = "map (\<lambda>c. (py_lower c, c)) hs"
  have "scan_items p (lower_dict hs)
      = map_option (\<lambda>k. the (map_of (rev ?ps) k)) (find (sublist p) (map py_lower hs))"
    by (simp add: scan_items_find lower_dict_def find_items_by_key keys_dict_of_find
        map_of_dict_of option.map_comp comp_def)
  also have "\<dots> = map_option (\<lambda>h. the (map_of (rev ?ps) (py_lower h)))
      (find (\<lambda>h. sublist p (py_lower h)) hs)"
    by (simp add: find_map_conv option.map_comp comp_def)
  also have "\<dots> = map_option (last_same_lower hs) (find (\<lambda>h. sublist p (py_lower h)) hs)"
    by (rule option.map_cong)
       (auto simp: last_same_lower_def map_of_rev_keyed find_Some_iff)
  finally show ?thesis .
qed

lemma find_Some_list_ex: "find Q xs = None \<longleftrightarrow> \<not> list_ex Q xs"
  by (auto simp: find_None_iff list_ex_iff)

lemma scan_patterns_spec:
  "scan_patterns (lower_dict hs) cands = find_col_spec hs cands"
proof (induction cands)
  case Nil
  then show ?case by (simp add: find_col_spec_def)
next
  case (Cons p ps)
  have m: "(\<lambda>h. sublist (py_lower p) (py_lower h)) = header_matches p"
    by (simp add: header_matches_def fun_eq_iff)
  show ?case
  proof (cases "list_ex (header_matches p) hs")
    case True
    then obtain h where "find (header_matches p) hs = Some h"
      using find_Some_list_ex by fastforce
    with True show ?thesis by (simp add: scan_items_lower_dict m find_col_spec_def)
  next
    case False
    then have "find (header_matches p) hs = None" by (simp add: find_Some_list_ex)
    with False Cons.IH show ?thesis by (simp add: scan_items_lower_dict m find_col_spec_def)
  qed
qed

lemma last_same_lower_in:
  "h \<in> set hs \<Longrightarrow> last_same_lower hs h \<in> set hs"
proof -
  assume "h \<in> set hs"
  then have "filter (\<lambda>h'. py_lower h' = py_lower h) hs \<noteq> []" by (auto simp: filter_empty_conv)
  then have "last_same_lower hs h \<in> set (filter (\<lambda>h'. py_lower h' = py_lower h) hs)"
    unfolding last_same_lower_def by (rule last_in_set)
  then show ?thesis by simp
qed

lemma last_same_lower_lower:
  "h \<in> set hs \<Longrightarrow> py_lower (last_same_lower hs h) = py_lower h"
proof -
  assume "h \<in> set hs"
  then have "filter (\<lambda>h'. py_lower h' = py_lower h) hs \<noteq> []" by (auto simp: filter_empty_conv)
  then have "last_same_lower hs h \<in> set (filter (\<lambda>h'. py_lower h' = py_lower h) hs)"
    unfolding last_same_lower_def by (rule last_in_set)
  then show ?thesis by simp
qed

lemma find_col_spec_SomeE:
  assumes "find_col_spec hs cands = Some c"
  obtains p h where "p \<in> set cands" "h \<in> set hs" "header_matches p h" "c = last_same_lower hs h"
    "find (\<lambda>p. list_ex (header_matches p) hs) cands = Some p"
    "find (header_matches p) hs = Some h"
proof -
  from assms obtain p where fp: "find (\<lambda>p. list_ex (header_matches p) hs) cands = Some p"
    and m: "map_option (last_same_lower hs) (find (header_matches p) hs) = Some c"
    by (auto simp: find_col_spec_def split: option.splits)
  from m obtain h where fh: "find (header_matches p) hs = Some h" and "c = last_same_lower hs h"
    by auto
  moreover from fp have "p \<in> set cands" by (rule find_Some_in_set)
  moreover from fh have "h \<in> set hs" by (rule find_Some_in_set)
  moreover from fh have "header_matches p h" by (rule find_Some_holds)
  ultimately show ?thesis using that fp by blast
qed

lemma find_col_spec_None_iff:
  "find_col_spec hs cands = None \<longleftrightarrow> (\<forall>p\<in>set cands. \<forall>h\<in>set hs. \<not> header_matches p h)"
  by (auto simp: find_col_spec_def find_None_iff list_ex_iff split: option.splits
      dest: find_Some_holds find_Some_in_set)

lemma find_col_spec_in: "find_col_spec hs cands = Some c \<Longrightarrow> c \<in> set hs"
  by (erule find_col_spec_SomeE) (simp add: last_same_lower_in)

lemma find_col_spec_nonempty:
  assumes "find_col_spec hs cands = Some c" "\<forall>p\<in>set cands. p \<noteq> []"
  shows "c \<noteq> []"
proof -
  obtain p h where p: "p \<in> set cands" and h: "h \<in> set hs" and m: "header_matches p h"
    and c: "c = last_same_lower hs h"
    using assms(1) by (rule find_col_spec_SomeE)
  from p assms(2) have "py_lower p \<noteq> []" by simp
  with m have "py_lower h \<noteq> []" by (auto simp: header_matches_def)
  with h c have "py_lower c \<noteq> []" by (simp add: last_same_lower_lower)
  then show ?thesis by simp
qed

lemma patterns_nonempty: "\<forall>cs\<in>set all_patterns. \<forall>p\<in>set cs. p \<noteq> []"
  by (simp add: all_patterns_def pattern_defs)

lemma resolution_fields_find_col:
  "resolution_fields (resolve_columns df) = map (find_col df) all_patterns"
  by (simp add: resolution_fields_def resolve_columns_def all_patterns_def)

lemma resolve_columns_sel [simp]:
  "col_entidad (resolve_columns df) = find_col df entidad_patterns"
  "col_tipo (resolve_columns df) = find_col df tipo_patterns"
  "col_pia (resolve_columns df) = find_col df pia_patterns"
  "col_pim (resolve_columns df) = find_col df pim_patterns"
  "col_avance (resolve_columns df) = find_col df avance_patterns"
  "col_poblacion (resolve_columns df) = find_col df poblacion_patterns"
  "col_punt_pim (resolve_columns df) = find_col df punt_pim_patterns"
  "col_punt_av (resolve_columns df) = find_col df punt_av_patterns"
  "col_punt_pop (resolve_columns df) = find_col df punt_pop_patterns"
  "col_total (resolve_columns df) = find_col df total_patterns"
  "col_orden (resolve_columns df) = find_col df orden_patterns"
  by (simp_all add: resolve_columns_def)

lemma find_col_header: "find_col df cands = Some c \<Longrightarrow> c \<in> set (col_names df)"
  by (simp add: find_col_def scan_patterns_spec find_col_spec_in)

lemmas find_col_eval = find_col_def col_names_def lower_dict_def dict_of_def py_lower_def
  sublist_code pattern_defs

section \<open>Properties of the resolver\<close>

text \<open>
  C1. \<open>find_col\<close> never returns a name that is not a header of the table: whatever
  it returns is one of the frame's column labels (spec section 8).
\<close>

theorem find_col_returns_header:
  "find_col df cands = Some c \<Longrightarrow> c \<in> set (col_names df)"
  by (simp add: find_col_def scan_patterns_spec find_col_spec_in)

theorem find_col_returns_header_witness:
  "find_col \<lparr>nrows = 0, cols = [(''Entidad'', []), (''PIM'', [])]\<rparr> pim_patterns = Some ''PIM''
   \<and> ''PIM'' \<in> set (col_names \<lparr>nrows = 0, cols = [(''Entidad'', []), (''PIM'', [])]\<rparr>)"
proof -
  have h: "find_col \<lparr>nrows = 0, cols = [(''Entidad'', []), (''PIM'', [])]\<rparr> pim_patterns = Some ''PIM''"
    by (simp add: find_col_eval)
  show ?thesis using find_col_returns_header [OF h] h by simp
qed

text \<open>
  C2. \<open>find_col\<close> refines its abstract specification: the first candidate pattern (in
  priority order) that occurs case-insensitively in some header selects the first such
  header in column order, and the result is the last header whose lower-cased text
  equals that header's (the dictionary keeps the last value stored under a key).
\<close>

theorem find_col_refines_spec:
  "find_col df cands = find_col_spec (col_names df) cands"
  by (simp add: find_col_def scan_patterns_spec)

text \<open>
  C10. \<open>find_col\<close> returns \<open>None\<close> exactly when no candidate pattern, lower-cased, is a
  substring of any lower-cased header.
\<close>

theorem find_col_None_iff:
  "find_col df cands = None \<longleftrightarrow>
     (\<forall>p\<in>set cands. \<forall>h\<in>set (col_names df). \<not> sublist (py_lower p) (py_lower h))"
  by (simp add: find_col_def scan_patterns_spec find_col_spec_None_iff header_matches_def)

theorem find_col_None_iff_witness:
  "find_col \<lparr>nrows = 0, cols = [(''Entidad'', [])]\<rparr> pim_patterns = None"
proof -
  have "\<forall>p\<in>set pim_patterns. \<forall>h\<in>set (col_names \<lparr>nrows = 0, cols = [(''Entidad'', [])]\<rparr>).
      \<not> sublist (py_lower p) (py_lower h)"
    by (simp add: find_col_eval)
  then show ?thesis by (simp only: find_col_None_iff)
qed



text \<open>
  The program tests a resolved name with \<open>if col_x:\<close>. Since every pattern is
  non-empty, a resolved name is never the empty string, so the test is true exactly
  when the field was resolved.
\<close>

lemma resolution_truthy:
  "x \<in> set (resolution_fields (resolve_columns df)) \<Longrightarrow> py_truthy x \<longleftrightarrow> x \<noteq> None"
proof -
  assume "x \<in> set (resolution_fields (resolve_columns df))"
  then have "x \<in> find_col df ` set all_patterns"
    by (simp only: resolution_fields_find_col set_map)
  then obtain cs where cs: "cs \<in> set all_patterns" and x: "x = find_col df cs"
    by (rule imageE)
  from patterns_nonempty cs have ne: "\<forall>p\<in>set cs. p \<noteq> []" by (rule bspec)
  show ?thesis
  proof (cases x)
    case (Some c)
    with x have "find_col_spec (col_names df) cs = Some c"
      by (simp only: find_col_def scan_patterns_spec)
    from this ne have "c \<noteq> []" by (rule find_col_spec_nonempty)
    with Some show ?thesis by simp
  qed simp
qed

end
