(* ===== verification/Deriver.thy ===== *)
theory Deriver
  imports Resolver
begin

text \<open>
  The metric deriver of \<open>src/app.py\<close> lines 44--61. \<open>df_work = df.copy()\<close> is the
  identity on values. \<open>add_growth\<close> (lines 46--50) appends \<open>Crec_PIM_vs_PIA_%\<close>,
  computed by \<open>growth_column\<close> (lines 47--48) when both budget columns are resolved and
  filled with \<open>nan\<close> otherwise; \<open>add_percap\<close> (lines 52--56) does the same for
  \<open>PIM_per_c\<acute>apita\<close>; \<open>rescale_avance\<close> (lines 58--61) multiplies the whole execution
  column by 100 when \<open>should_rescale\<close> finds that more than 70\% of the first 20
  non-missing values lie in [0, 1]. \<open>derive_metrics\<close> runs the three in the source's
  order. Every column expression is evaluated eagerly over all rows, in the source's
  order of evaluation, so a string cell anywhere in an operand column raises.
  \<open>growth_cell\<close> and \<open>percap_cell\<close> are the row rules of the specification, against
  which the vectorised code is proved.
\<close>

section \<open>Operations\<close>

abbreviation a_acute :: char where
  "a_acute \<equiv> CHR 0xE1"

definition growth_name :: string where
  "growth_name = ''Crec_PIM_vs_PIA_%''"

definition percap_name :: string where
  "percap_name = ''PIM_per_c'' @ [a_acute] @ ''pita''"

text \<open>\<open>np.where((pia > 0) & pim.notna(), (pim / pia - 1) * 100, np.nan)\<close>\<close>

definition growth_column :: "string \<Rightarrow> string \<Rightarrow> frame \<Rightarrow> cell list result" where
  "growth_column a m df =
     err_bind (get_column df a) (\<lambda>pia.
     err_bind (map_err cell_gt0 pia) (\<lambda>pos.
     err_bind (get_column df m) (\<lambda>pim.
     err_bind (map_err (\<lambda>(y, x). cell_div y x) (zip pim pia)) (\<lambda>q.
     err_bind (map_err (\<lambda>z. cell_sub z 1) q) (\<lambda>d.
     Inr (np_where (map2 (\<and>) pos (map cell_notna pim)) (map (\<lambda>z. cell_mul z 100) d)))))))"

definition add_growth :: "string option \<Rightarrow> string option \<Rightarrow> frame \<Rightarrow> frame result" where
  "add_growth c_pia c_pim df =
     (case (c_pia, c_pim) of
        (Some a, Some m) \<Rightarrow>
          if py_truthy c_pia \<and> py_truthy c_pim
          then err_bind (growth_column a m df) (\<lambda>g. Inr (set_column df growth_name g))
          else Inr (set_column df growth_name (replicate (nrows df) NA))
      | _ \<Rightarrow> Inr (set_column df growth_name (replicate (nrows df) NA)))"

text \<open>\<open>np.where((pop > 0) & pim.notna(), pim / pop, np.nan)\<close>\<close>

definition percap_column :: "string \<Rightarrow> string \<Rightarrow> frame \<Rightarrow> cell list result" where
  "percap_column m p df =
     err_bind (get_column df p) (\<lambda>pop.
     err_bind (map_err cell_gt0 pop) (\<lambda>pos.
     err_bind (get_column df m) (\<lambda>pim.
     err_bind (map_err (\<lambda>(y, x). cell_div y x) (zip pim pop)) (\<lambda>q.
     Inr (np_where (map2 (\<and>) pos (map cell_notna pim)) q)))))"

definition add_percap :: "string option \<Rightarrow> string option \<Rightarrow> frame \<Rightarrow> frame result" where
  "add_percap c_pim c_pop df =
     (case (c_pim, c_pop) of
        (Some m, Some p) \<Rightarrow>
          if py_truthy c_pim \<and> py_truthy c_pop
          then err_bind (percap_column m p df) (\<lambda>g. Inr (set_column df percap_name g))
          else Inr (set_column df percap_name (replicate (nrows df) NA))
      | _ \<Rightarrow> Inr (set_column df percap_name (replicate (nrows df) NA)))"

text \<open>
  Lines 58--60: \<open>v.notna().mean() > 0\<close>, then the sample \<open>v.dropna().head(20)\<close>,
  then \<open>not sample.empty and sample.between(0,1).mean() > 0.7\<close>. The model compares
  with \<open>7/10\<close> exactly: a share \<open>k / n\<close> with \<open>n \<le> 20\<close> equals the double
  \<open>0.7\<close> only when it is \<open>7/10\<close> or \<open>14/20\<close>, where both comparisons are false.
\<close>

definition should_rescale :: "cell list \<Rightarrow> bool result" where
  "should_rescale v =
     (if mean_gt (map cell_notna v) 0 then
        (let sample = take 20 (filter cell_notna v) in
         if sample \<noteq> [] then err_bind (map_err cell_between01 sample) (\<lambda>bs. Inr (mean_gt bs (7 / 10)))
         else Inr False)
      else Inr False)"

definition rescale_avance :: "string option \<Rightarrow> frame \<Rightarrow> frame result" where
  "rescale_avance c_av df =
     (case c_av of
        None \<Rightarrow> Inr df
      | Some c \<Rightarrow>
          if py_truthy c_av then
            err_bind (get_column df c) (\<lambda>v.
            err_bind (should_rescale v) (\<lambda>b.
              if b then Inr (set_column df c (map (\<lambda>z. cell_mul z 100) v)) else Inr df))
          else Inr df)"

definition derive_metrics :: "resolution \<Rightarrow> frame \<Rightarrow> frame result" where
  "derive_metrics r df =
     err_bind (add_growth (col_pia r) (col_pim r) df) (\<lambda>df1.
     err_bind (add_percap (col_pim r) (col_poblacion r) df1) (\<lambda>df2.
     rescale_avance (col_avance r) df2))"

section \<open>Reference row semantics\<close>

fun is_txt :: "cell \<Rightarrow> bool" where
  "is_txt (Txt s) = True"
| "is_txt _ = False"

fun in_unit :: "cell \<Rightarrow> bool" where
  "in_unit (Num x) = (0 \<le> x \<and> x \<le> 1)"
| "in_unit _ = False"

text \<open>Growth of one row from its PIA and PIM cells (spec section 4.3).\<close>

fun growth_cell :: "cell \<Rightarrow> cell \<Rightarrow> cell" where
  "growth_cell (Num a) (Num b) = (if 0 < a then Num ((b / a - 1) * 100) else NA)"
| "growth_cell _ _ = NA"

text \<open>Per-capita budget of one row from its PIM and population cells.\<close>

fun percap_cell :: "cell \<Rightarrow> cell \<Rightarrow> cell" where
  "percap_cell (Num b) (Num p) = (if 0 < p then Num (b / p) else NA)"
| "percap_cell _ _ = NA"

definition rescale_sample :: "cell list \<Rightarrow> cell list" where
  "rescale_sample v = take 20 (filter cell_notna v)"

section \<open>Cell lemmas\<close>

text \<open>Every element-wise operation is defined on non-string cells and fails only with
  \<open>TypeError\<close>, which a string operand always raises.\<close>

lemma cell_gt0_total: "\<not> is_txt c \<Longrightarrow> \<exists>b. cell_gt0 c = Inr b"
  by (cases c) auto

lemma cell_between01_total: "\<not> is_txt c \<Longrightarrow> \<exists>b. cell_between01 c = Inr b"
  by (cases c) auto

lemma cell_sub_total: "\<not> is_txt c \<Longrightarrow> \<exists>z. cell_sub c k = Inr z"
  by (cases c) auto

lemma cell_div_total: "\<not> is_txt c \<Longrightarrow> \<not> is_txt d \<Longrightarrow> \<exists>z. cell_div c d = Inr z"
  by (cases c; cases d) auto

lemma cell_gt0_error: "cell_gt0 c = Inl e \<Longrightarrow> e = TypeError"
  by (cases c) auto

lemma cell_between01_error: "cell_between01 c = Inl e \<Longrightarrow> e = TypeError"
  by (cases c) auto

lemma cell_sub_error: "cell_sub c k = Inl e \<Longrightarrow> e = TypeError"
  by (cases c) auto

lemma cell_div_error: "cell_div c d = Inl e \<Longrightarrow> e = TypeError"
  by (cases c; cases d) (auto split: if_splits)

lemma cell_div_txt: "is_txt c \<or> is_txt d \<Longrightarrow> cell_div c d = Inl TypeError"
  by (cases c; cases d) auto

lemma cell_div_not_txt: "cell_div c d = Inr z \<Longrightarrow> \<not> is_txt z"
  by (cases c; cases d) (auto split: if_splits)

lemma map_err_total:
  assumes "\<And>x. x \<in> set xs \<Longrightarrow> \<exists>y. f x = Inr y"
  obtains ys where "map_err f xs = Inr ys"
proof -
  have "\<forall>x\<in>set xs. \<exists>y. f x = Inr y" using assms by simp
  then have "\<exists>ys. map_err f xs = Inr ys" by (simp only: map_err_Inr_iff)
  then obtain ys where "map_err f xs = Inr ys" ..
  then show ?thesis by (rule that)
qed

lemma map_err_nth_value:
  "map_err f xs = Inr ys \<Longrightarrow> i < length xs \<Longrightarrow> f (xs ! i) = Inr (ys ! i) \<and> length ys = length xs"
  by (simp add: map_err_Inr_nth map_err_Inr_length)

lemma no_txt_zip:
  assumes "\<forall>c\<in>set xs. \<not> is_txt c" "\<forall>c\<in>set ys. \<not> is_txt c" "p \<in> set (zip xs ys)"
  shows "\<not> is_txt (fst p) \<and> \<not> is_txt (snd p)"
proof -
  obtain u v where p: "p = (u, v)" by fastforce
  with assms(3) have "u \<in> set xs" "v \<in> set ys" by (auto dest: set_zip_leftD set_zip_rightD)
  with assms(1,2) p show ?thesis by simp
qed

lemma columns_same_length:
  "wf_frame df \<Longrightarrow> get_column df a = Inr xs \<Longrightarrow> get_column df b = Inr ys \<Longrightarrow> length ys = length xs"
  by (simp add: get_column_length)

lemma map_err_no_txt:
  "(\<And>c. \<not> is_txt c \<Longrightarrow> \<exists>y. f c = Inr y) \<Longrightarrow> \<forall>c\<in>set xs. \<not> is_txt c \<Longrightarrow>
   \<exists>ys. map_err f xs = Inr ys"
  by (simp add: map_err_Inr_iff)

lemma map_err_div_no_txt:
  assumes "\<forall>c\<in>set xs. \<not> is_txt c" "\<forall>c\<in>set ys. \<not> is_txt c"
  shows "\<exists>q. map_err (\<lambda>(y, x). cell_div y x) (zip xs ys) = Inr q"
proof -
  have "\<forall>p\<in>set (zip xs ys). \<exists>z. (\<lambda>(y, x). cell_div y x) p = Inr z"
  proof
    fix p assume "p \<in> set (zip xs ys)"
    from no_txt_zip [OF assms this] show "\<exists>z. (\<lambda>(y, x). cell_div y x) p = Inr z"
      by (cases p) (simp add: cell_div_total)
  qed
  then show ?thesis by (simp only: map_err_Inr_iff)
qed

lemma map_err_div_not_txt:
  "map_err (\<lambda>(y, x). cell_div y x) ps = Inr q \<Longrightarrow> \<forall>z\<in>set q. \<not> is_txt z"
proof
  fix z assume m: "map_err (\<lambda>(y, x). cell_div y x) ps = Inr q" and "z \<in> set q"
  then obtain i where i: "i < length q" "z = q ! i" by (auto simp: in_set_conv_nth)
  with m have "(\<lambda>(y, x). cell_div y x) (ps ! i) = Inr z"
    using map_err_Inr_nth [OF m] map_err_Inr_length [OF m] by simp
  then show "\<not> is_txt z" by (cases "ps ! i") (simp add: cell_div_not_txt)
qed

section \<open>Growth and per-capita columns\<close>

text \<open>One row of the vectorised growth expression is the row rule.\<close>

lemma growth_row:
  assumes "cell_gt0 a = Inr p" "cell_div b a = Inr q" "cell_sub q 1 = Inr d"
    "\<not> is_txt a" "\<not> is_txt b"
  shows "(if p \<and> cell_notna b then cell_mul d 100 else NA) = growth_cell a b"
  using assms by (cases a; cases b) (auto split: if_splits)

lemma growth_column_Inr:
  assumes wf: "wf_frame df" and ga: "get_column df a = Inr pia" and gm: "get_column df m = Inr pim"
    and na: "\<forall>c\<in>set pia. \<not> is_txt c" and nm: "\<forall>c\<in>set pim. \<not> is_txt c"
  shows "growth_column a m df = Inr (map2 growth_cell pia pim)"
proof -
  have len: "length pim = length pia" using columns_same_length [OF wf ga gm] .
  have "\<exists>pos. map_err cell_gt0 pia = Inr pos"
    by (rule map_err_no_txt) (simp_all add: cell_gt0_total na)
  then obtain pos where pos: "map_err cell_gt0 pia = Inr pos" ..
  obtain q where q: "map_err (\<lambda>(y, x). cell_div y x) (zip pim pia) = Inr q"
    using map_err_div_no_txt [OF nm na] by (elim exE)
  have "\<exists>d. map_err (\<lambda>z. cell_sub z 1) q = Inr d"
    by (rule map_err_no_txt) (simp_all add: cell_sub_total map_err_div_not_txt [OF q])
  then obtain d where d: "map_err (\<lambda>z. cell_sub z 1) q = Inr d" ..
  have res: "growth_column a m df =
      Inr (np_where (map2 (\<and>) pos (map cell_notna pim)) (map (\<lambda>z. cell_mul z 100) d))"
    by (simp add: growth_column_def ga gm pos q d)
  have lp: "length pos = length pia" and lq: "length q = length pia" and ld: "length d = length pia"
    using map_err_Inr_length [OF pos] map_err_Inr_length [OF q] map_err_Inr_length [OF d] len
    by simp_all
  have "np_where (map2 (\<and>) pos (map cell_notna pim)) (map (\<lambda>z. cell_mul z 100) d)
      = map2 growth_cell pia pim"
  proof (rule nth_equalityI)
    show "length (np_where (map2 (\<and>) pos (map cell_notna pim)) (map (\<lambda>z. cell_mul z 100) d))
        = length (map2 growth_cell pia pim)"
      using lp ld len by simp
  next
    fix i assume "i < length (np_where (map2 (\<and>) pos (map cell_notna pim)) (map (\<lambda>z. cell_mul z 100) d))"
    then have i: "i < length pia" using lp ld len by simp
    have p: "cell_gt0 (pia ! i) = Inr (pos ! i)" using map_err_Inr_nth [OF pos i] .
    have qi: "cell_div (pim ! i) (pia ! i) = Inr (q ! i)"
      using map_err_Inr_nth [OF q, of i] i len by simp
    have di: "cell_sub (q ! i) 1 = Inr (d ! i)" using map_err_Inr_nth [OF d, of i] i lq by simp
    have "\<not> is_txt (pia ! i)" "\<not> is_txt (pim ! i)" using na nm i len by simp_all
    note row = growth_row [OF p qi di this]
    have "np_where (map2 (\<and>) pos (map cell_notna pim)) (map (\<lambda>z. cell_mul z 100) d) ! i
        = (if pos ! i \<and> cell_notna (pim ! i) then cell_mul (d ! i) 100 else NA)"
      using i lp ld len by (simp add: np_where_nth)
    also have "\<dots> = map2 growth_cell pia pim ! i"
      using row i len by simp
    finally show "np_where (map2 (\<and>) pos (map cell_notna pim)) (map (\<lambda>z. cell_mul z 100) d) ! i
        = map2 growth_cell pia pim ! i" .
  qed
  with res show ?thesis by simp
qed

lemma percap_row:
  assumes "cell_gt0 p = Inr b" "cell_div m p = Inr q" "\<not> is_txt p" "\<not> is_txt m"
  shows "(if b \<and> cell_notna m then q else NA) = percap_cell m p"
  using assms by (cases p; cases m) (auto split: if_splits)

lemma percap_column_Inr:
  assumes wf: "wf_frame df" and gp: "get_column df p = Inr pop" and gm: "get_column df m = Inr pim"
    and np: "\<forall>c\<in>set pop. \<not> is_txt c" and nm: "\<forall>c\<in>set pim. \<not> is_txt c"
  shows "percap_column m p df = Inr (map2 percap_cell pim pop)"
proof -
  have len: "length pim = length pop" using columns_same_length [OF wf gp gm] .
  have "\<exists>pos. map_err cell_gt0 pop = Inr pos"
    by (rule map_err_no_txt) (simp_all add: cell_gt0_total np)
  then obtain pos where pos: "map_err cell_gt0 pop = Inr pos" ..
  obtain q where q: "map_err (\<lambda>(y, x). cell_div y x) (zip pim pop) = Inr q"
    using map_err_div_no_txt [OF nm np] by (elim exE)
  have res: "percap_column m p df = Inr (np_where (map2 (\<and>) pos (map cell_notna pim)) q)"
    by (simp add: percap_column_def gp gm pos q)
  have lp: "length pos = length pop" and lq: "length q = length pop"
    using map_err_Inr_length [OF pos] map_err_Inr_length [OF q] len by simp_all
  have "np_where (map2 (\<and>) pos (map cell_notna pim)) q = map2 percap_cell pim pop"
  proof (rule nth_equalityI)
    show "length (np_where (map2 (\<and>) pos (map cell_notna pim)) q) = length (map2 percap_cell pim pop)"
      using lp lq len by simp
  next
    fix i assume "i < length (np_where (map2 (\<and>) pos (map cell_notna pim)) q)"
    then have i: "i < length pop" using lp lq len by simp
    have b: "cell_gt0 (pop ! i) = Inr (pos ! i)" using map_err_Inr_nth [OF pos i] .
    have qi: "cell_div (pim ! i) (pop ! i) = Inr (q ! i)"
      using map_err_Inr_nth [OF q, of i] i len by simp
    have "\<not> is_txt (pop ! i)" "\<not> is_txt (pim ! i)" using np nm i len by simp_all
    note row = percap_row [OF b qi this]
    have "np_where (map2 (\<and>) pos (map cell_notna pim)) q ! i
        = (if pos ! i \<and> cell_notna (pim ! i) then q ! i else NA)"
      using i lp lq len by (simp add: np_where_nth)
    also have "\<dots> = map2 percap_cell pim pop ! i"
      using row i len by simp
    finally show "np_where (map2 (\<and>) pos (map cell_notna pim)) q ! i = map2 percap_cell pim pop ! i" .
  qed
  with res show ?thesis by simp
qed

subsection \<open>The error path\<close>

lemma map_err_gt0_txt:
  "\<exists>c\<in>set xs. is_txt c \<Longrightarrow> map_err cell_gt0 xs = Inl TypeError"
  by (rule map_err_Inl_same) (auto dest: cell_gt0_error, metis cell_gt0.simps(3) is_txt.elims(2))

lemma map_err_div_txt:
  assumes "length xs = length ys" "(\<exists>c\<in>set xs. is_txt c) \<or> (\<exists>c\<in>set ys. is_txt c)"
  shows "map_err (\<lambda>(y, x). cell_div y x) (zip xs ys) = Inl TypeError"
proof (rule map_err_Inl_same)
  show "\<forall>p\<in>set (zip xs ys). \<forall>e. (\<lambda>(y, x). cell_div y x) p = Inl e \<longrightarrow> e = TypeError"
    by (auto dest: cell_div_error)
  from assms(2) obtain i where i: "i < length xs" and t: "is_txt (xs ! i) \<or> is_txt (ys ! i)"
    using assms(1) by (auto simp: in_set_conv_nth)
  then have "(xs ! i, ys ! i) \<in> set (zip xs ys)" using assms(1) by (auto simp: in_set_zip)
  moreover from t have "(\<lambda>(y, x). cell_div y x) (xs ! i, ys ! i) = Inl TypeError"
    by (simp add: cell_div_txt)
  ultimately show "\<exists>p\<in>set (zip xs ys). \<exists>e. (\<lambda>(y, x). cell_div y x) p = Inl e"
    by blast
qed

lemma growth_column_error:
  assumes wf: "wf_frame df" and ga: "get_column df a = Inr pia" and gm: "get_column df m = Inr pim"
  shows "growth_column a m df = Inl TypeError \<longleftrightarrow> (\<exists>c\<in>set pia. is_txt c) \<or> (\<exists>c\<in>set pim. is_txt c)"
proof (cases "\<exists>c\<in>set pia. is_txt c")
  case True
  then show ?thesis by (simp add: growth_column_def ga map_err_gt0_txt)
next
  case False
  then have "\<exists>pos. map_err cell_gt0 pia = Inr pos"
    by (intro map_err_no_txt) (simp_all add: cell_gt0_total)
  then obtain pos where pos: "map_err cell_gt0 pia = Inr pos" ..
  show ?thesis
  proof (cases "\<exists>c\<in>set pim. is_txt c")
    case True
    with columns_same_length [OF wf ga gm]
    have "map_err (\<lambda>(y, x). cell_div y x) (zip pim pia) = Inl TypeError"
      by (intro map_err_div_txt) simp_all
    with True show ?thesis by (simp add: growth_column_def ga gm pos)
  next
    case False': False
    with False growth_column_Inr [OF wf ga gm] show ?thesis by simp
  qed
qed

lemma percap_column_error:
  assumes wf: "wf_frame df" and gp: "get_column df p = Inr pop" and gm: "get_column df m = Inr pim"
  shows "percap_column m p df = Inl TypeError \<longleftrightarrow> (\<exists>c\<in>set pop. is_txt c) \<or> (\<exists>c\<in>set pim. is_txt c)"
proof (cases "\<exists>c\<in>set pop. is_txt c")
  case True
  then show ?thesis by (simp add: percap_column_def gp map_err_gt0_txt)
next
  case False
  then have "\<exists>pos. map_err cell_gt0 pop = Inr pos"
    by (intro map_err_no_txt) (simp_all add: cell_gt0_total)
  then obtain pos where pos: "map_err cell_gt0 pop = Inr pos" ..
  show ?thesis
  proof (cases "\<exists>c\<in>set pim. is_txt c")
    case True
    with columns_same_length [OF wf gp gm]
    have "map_err (\<lambda>(y, x). cell_div y x) (zip pim pop) = Inl TypeError"
      by (intro map_err_div_txt) simp_all
    with True show ?thesis by (simp add: percap_column_def gp gm pos)
  next
    case False': False
    with False percap_column_Inr [OF wf gp gm] show ?thesis by simp
  qed
qed

subsection \<open>The rescale decision\<close>

lemma mean_gt_notna: "mean_gt (map cell_notna v) 0 \<longleftrightarrow> filter cell_notna v \<noteq> []"
  by (auto simp: mean_gt_def filter_map comp_def zero_less_divide_iff)

lemma mean_gt_share:
  "mean_gt bs (7 / 10) \<longleftrightarrow> bs \<noteq> [] \<and> 7 * length bs < 10 * length (filter id bs)"
proof (cases "bs = []")
  case False
  then have n: "0 < real (length bs)" by simp
  have "(7 / 10 < real (length (filter id bs)) / real (length bs))
      \<longleftrightarrow> real (7 * length bs) < real (10 * length (filter id bs))"
    using n by (simp add: field_simps)
  also have "\<dots> \<longleftrightarrow> 7 * length bs < 10 * length (filter id bs)"
    by (simp only: of_nat_less_iff)
  finally show ?thesis using False by (simp add: mean_gt_def)
qed (simp add: mean_gt_def)

lemma cell_between01_in_unit: "\<not> is_txt c \<Longrightarrow> cell_between01 c = Inr (in_unit c)"
  by (cases c) auto

lemma rescale_sample_Nil_iff: "rescale_sample v = [] \<longleftrightarrow> filter cell_notna v = []"
  by (simp add: rescale_sample_def)

lemma should_rescale_eq:
  assumes "\<forall>x\<in>set (rescale_sample v). \<not> is_txt x"
  shows "should_rescale v = Inr (rescale_sample v \<noteq> [] \<and>
     7 * length (rescale_sample v) < 10 * length (filter in_unit (rescale_sample v)))"
proof (cases "rescale_sample v = []")
  case True
  then show ?thesis
    by (simp add: should_rescale_def mean_gt_notna rescale_sample_Nil_iff)
next
  case False
  have "map_err cell_between01 (rescale_sample v) = Inr (map in_unit (rescale_sample v))"
    using assms by (intro map_err_map) (simp add: cell_between01_in_unit)
  with False show ?thesis
    by (simp add: should_rescale_def mean_gt_notna rescale_sample_Nil_iff mean_gt_share
        filter_map comp_def rescale_sample_def [symmetric] Let_def)
qed

lemma map_err_txt:
  assumes "\<And>c. is_txt c \<Longrightarrow> f c = Inl TypeError" "\<And>c e. f c = Inl e \<Longrightarrow> e = TypeError"
    "\<exists>c\<in>set xs. is_txt c"
  shows "map_err f xs = Inl TypeError"
proof (rule map_err_Inl_same)
  show "\<forall>x\<in>set xs. \<forall>e. f x = Inl e \<longrightarrow> e = TypeError" using assms(2) by blast
  from assms(3) obtain c where "c \<in> set xs" "is_txt c" ..
  with assms(1) show "\<exists>x\<in>set xs. \<exists>e. f x = Inl e" by blast
qed

lemma cell_between01_txt: "is_txt c \<Longrightarrow> cell_between01 c = Inl TypeError"
  by (cases c) auto

lemma rescale_avance_eq:
  assumes g: "get_column df c = Inr v" and c: "c \<noteq> []"
    and nt: "\<forall>x\<in>set (rescale_sample v). \<not> is_txt x"
  shows "rescale_avance (Some c) df =
     Inr (if rescale_sample v \<noteq> [] \<and>
             7 * length (rescale_sample v) < 10 * length (filter in_unit (rescale_sample v))
          then set_column df c (map (\<lambda>z. cell_mul z 100) v) else df)"
  using should_rescale_eq [OF nt] by (simp add: rescale_avance_def g c)

lemma rescale_avance_txt:
  assumes g: "get_column df c = Inr v" and c: "c \<noteq> []"
    and t: "\<exists>x\<in>set (rescale_sample v). is_txt x"
  shows "rescale_avance (Some c) df = Inl TypeError"
proof -
  have ne: "rescale_sample v \<noteq> []" using t by auto
  have "map_err cell_between01 (rescale_sample v) = Inl TypeError"
    using t by (intro map_err_txt) (simp_all add: cell_between01_txt cell_between01_error)
  with ne show ?thesis
    by (simp add: rescale_avance_def g c should_rescale_def mean_gt_notna rescale_sample_Nil_iff
        rescale_sample_def [symmetric])
qed

section \<open>The frame invariant\<close>

lemma growth_column_length:
  assumes wf: "wf_frame df" and h: "growth_column a m df = Inr g"
  shows "length g = nrows df"
proof -
  from h obtain pia pos pim q d where ga: "get_column df a = Inr pia"
    and pos: "map_err cell_gt0 pia = Inr pos" and gm: "get_column df m = Inr pim"
    and q: "map_err (\<lambda>(y, x). cell_div y x) (zip pim pia) = Inr q"
    and d: "map_err (\<lambda>z. cell_sub z 1) q = Inr d"
    and g: "g = np_where (map2 (\<and>) pos (map cell_notna pim)) (map (\<lambda>z. cell_mul z 100) d)"
    by (auto simp: growth_column_def err_bind_eq_Inr)
  show ?thesis
    using get_column_length [OF wf ga] get_column_length [OF wf gm] map_err_Inr_length [OF pos]
      map_err_Inr_length [OF q] map_err_Inr_length [OF d] g
    by simp
qed

lemma percap_column_length:
  assumes wf: "wf_frame df" and h: "percap_column m p df = Inr g"
  shows "length g = nrows df"
proof -
  from h obtain pop pos pim q where gp: "get_column df p = Inr pop"
    and pos: "map_err cell_gt0 pop = Inr pos" and gm: "get_column df m = Inr pim"
    and q: "map_err (\<lambda>(y, x). cell_div y x) (zip pim pop) = Inr q"
    and g: "g = np_where (map2 (\<and>) pos (map cell_notna pim)) q"
    by (auto simp: percap_column_def err_bind_eq_Inr)
  show ?thesis
    using get_column_length [OF wf gp] get_column_length [OF wf gm] map_err_Inr_length [OF pos]
      map_err_Inr_length [OF q] g
    by simp
qed

lemma add_growth_wf:
  "wf_frame df \<Longrightarrow> add_growth c1 c2 df = Inr df' \<Longrightarrow> wf_frame df' \<and> nrows df' = nrows df"
  by (auto simp: add_growth_def err_bind_eq_Inr split: option.splits if_splits
      intro!: wf_set_column dest: growth_column_length)

lemma add_percap_wf:
  "wf_frame df \<Longrightarrow> add_percap c1 c2 df = Inr df' \<Longrightarrow> wf_frame df' \<and> nrows df' = nrows df"
  by (auto simp: add_percap_def err_bind_eq_Inr split: option.splits if_splits
      intro!: wf_set_column dest: percap_column_length)

lemma rescale_avance_wf:
  "wf_frame df \<Longrightarrow> rescale_avance c df = Inr df' \<Longrightarrow> wf_frame df' \<and> nrows df' = nrows df"
  by (auto simp: rescale_avance_def err_bind_eq_Inr split: option.splits if_splits
      intro!: wf_set_column dest: get_column_length)

lemma growth_cell_not_txt: "\<not> is_txt (growth_cell a b)"
  by (cases "(a, b)" rule: growth_cell.cases) simp_all

lemma percap_cell_not_txt: "\<not> is_txt (percap_cell a b)"
  by (cases "(a, b)" rule: percap_cell.cases) simp_all

lemma growth_column_cells:
  assumes wf: "wf_frame df" and g: "growth_column a m df = Inr vs"
  shows "\<forall>c\<in>set vs. \<not> is_txt c"
proof -
  from g obtain pia pim where ga: "get_column df a = Inr pia" and gm: "get_column df m = Inr pim"
    by (auto simp: growth_column_def err_bind_eq_Inr)
  have "\<not> ((\<exists>c\<in>set pia. is_txt c) \<or> (\<exists>c\<in>set pim. is_txt c))"
    using growth_column_error [OF wf ga gm] g by simp
  then have "growth_column a m df = Inr (map2 growth_cell pia pim)"
    using growth_column_Inr [OF wf ga gm] by blast
  with g show ?thesis by (auto simp: growth_cell_not_txt dest: set_zip_leftD)
qed

lemma percap_column_cells:
  assumes wf: "wf_frame df" and g: "percap_column m p df = Inr vs"
  shows "\<forall>c\<in>set vs. \<not> is_txt c"
proof -
  from g obtain pop pim where gp: "get_column df p = Inr pop" and gm: "get_column df m = Inr pim"
    by (auto simp: percap_column_def err_bind_eq_Inr)
  have "\<not> ((\<exists>c\<in>set pop. is_txt c) \<or> (\<exists>c\<in>set pim. is_txt c))"
    using percap_column_error [OF wf gp gm] g by simp
  then have "percap_column m p df = Inr (map2 percap_cell pim pop)"
    using percap_column_Inr [OF wf gp gm] by blast
  with g show ?thesis by (auto simp: percap_cell_not_txt)
qed

lemma add_growth_cells:
  assumes wf: "wf_frame df" and a: "add_growth ca cm df = Inr df1"
  shows "\<exists>g. df1 = set_column df growth_name g \<and> (\<forall>c\<in>set g. \<not> is_txt c)
    \<and> (\<not> py_truthy ca \<or> \<not> py_truthy cm \<longrightarrow> g = replicate (nrows df) NA)"
proof (cases "py_truthy ca \<and> py_truthy cm")
  case True
  then obtain x y where ca: "ca = Some x" and cm: "cm = Some y" by (cases ca; cases cm) simp_all
  with True a obtain g where "growth_column x y df = Inr g" "df1 = set_column df growth_name g"
    by (auto simp: add_growth_def err_bind_eq_Inr)
  with growth_column_cells [OF wf] True show ?thesis by blast
next
  case False
  with a have "df1 = set_column df growth_name (replicate (nrows df) NA)"
    by (auto simp: add_growth_def split: option.splits)
  with False show ?thesis by auto
qed

lemma add_percap_cells:
  assumes wf: "wf_frame df" and a: "add_percap cm cp df = Inr df1"
  shows "\<exists>g. df1 = set_column df percap_name g \<and> (\<forall>c\<in>set g. \<not> is_txt c)
    \<and> (\<not> py_truthy cm \<or> \<not> py_truthy cp \<longrightarrow> g = replicate (nrows df) NA)"
proof (cases "py_truthy cm \<and> py_truthy cp")
  case True
  then obtain x y where cm: "cm = Some x" and cp: "cp = Some y" by (cases cm; cases cp) simp_all
  with True a obtain g where "percap_column x y df = Inr g" "df1 = set_column df percap_name g"
    by (auto simp: add_percap_def err_bind_eq_Inr)
  with percap_column_cells [OF wf] True show ?thesis by blast
next
  case False
  with a have "df1 = set_column df percap_name (replicate (nrows df) NA)"
    by (auto simp: add_percap_def split: option.splits)
  with False show ?thesis by auto
qed

lemma rescale_avance_other:
  "rescale_avance ca df = Inr df' \<Longrightarrow> ca \<noteq> Some c' \<Longrightarrow> get_column df' c' = get_column df c'"
  by (auto simp: rescale_avance_def err_bind_eq_Inr get_column_set_column_other
      split: option.splits if_splits)

lemma growth_percap_names: "growth_name \<noteq> percap_name"
  by (simp add: growth_name_def percap_name_def)

lemma derive_metrics_new_columns:
  assumes wf: "wf_frame df" and ng: "growth_name \<notin> set (col_names df)"
    and np: "percap_name \<notin> set (col_names df)"
    and ag: "col_avance r \<noteq> Some growth_name" and ap: "col_avance r \<noteq> Some percap_name"
    and d: "derive_metrics r df = Inr df'"
  shows "\<exists>g p. get_column df' growth_name = Inr g \<and> get_column df' percap_name = Inr p
    \<and> (\<forall>c\<in>set g. \<not> is_txt c) \<and> (\<forall>c\<in>set p. \<not> is_txt c)
    \<and> (\<not> py_truthy (col_pia r) \<or> \<not> py_truthy (col_pim r) \<longrightarrow> g = replicate (nrows df) NA)
    \<and> (\<not> py_truthy (col_pim r) \<or> \<not> py_truthy (col_poblacion r) \<longrightarrow> p = replicate (nrows df) NA)"
proof -
  from d obtain df1 df2 where d1: "add_growth (col_pia r) (col_pim r) df = Inr df1"
    and d2: "add_percap (col_pim r) (col_poblacion r) df1 = Inr df2"
    and d3: "rescale_avance (col_avance r) df2 = Inr df'"
    by (auto simp: derive_metrics_def err_bind_eq_Inr)
  from add_growth_cells [OF wf d1] obtain g where g1: "df1 = set_column df growth_name g"
    and gt: "\<forall>c\<in>set g. \<not> is_txt c"
    and gn: "\<not> py_truthy (col_pia r) \<or> \<not> py_truthy (col_pim r) \<longrightarrow> g = replicate (nrows df) NA" by blast
  from add_growth_wf [OF wf d1] have wf1: "wf_frame df1" and n1: "nrows df1 = nrows df" by simp_all
  from add_percap_cells [OF wf1 d2] obtain p where p2: "df2 = set_column df1 percap_name p"
    and pt: "\<forall>c\<in>set p. \<not> is_txt c"
    and pn: "\<not> py_truthy (col_pim r) \<or> \<not> py_truthy (col_poblacion r) \<longrightarrow> p = replicate (nrows df1) NA" by blast
  have np1: "percap_name \<notin> set (col_names df1)"
    using np g1 growth_percap_names by (auto split: if_splits)
  have "get_column df2 growth_name = Inr g"
    using p2 g1 get_column_set_column_other [OF growth_percap_names] get_column_set_column_new [OF ng] by simp
  moreover have "get_column df2 percap_name = Inr p"
    using p2 get_column_set_column_new [OF np1] by simp
  ultimately have "get_column df' growth_name = Inr g" "get_column df' percap_name = Inr p"
    using rescale_avance_other [OF d3 ag] rescale_avance_other [OF d3 ap] by simp_all
  with gt pt gn pn n1 show ?thesis by auto
qed

lemma derive_metrics_wf:
  assumes wf: "wf_frame df" and d: "derive_metrics r df = Inr df'"
  shows "wf_frame df' \<and> nrows df' = nrows df"
proof -
  from d obtain df1 df2 where g: "add_growth (col_pia r) (col_pim r) df = Inr df1"
    and p: "add_percap (col_pim r) (col_poblacion r) df1 = Inr df2"
    and a: "rescale_avance (col_avance r) df2 = Inr df'"
    by (auto simp: derive_metrics_def err_bind_eq_Inr)
  from add_growth_wf [OF wf g] have w1: "wf_frame df1" and n1: "nrows df1 = nrows df" by simp_all
  from add_percap_wf [OF w1 p] have w2: "wf_frame df2" and n2: "nrows df2 = nrows df1" by simp_all
  from rescale_avance_wf [OF w2 a] n1 n2 show ?thesis by simp
qed

lemma resolved_avance_not_new:
  "growth_name \<notin> set (col_names df) \<Longrightarrow> percap_name \<notin> set (col_names df) \<Longrightarrow>
   col_avance (resolve_columns df) \<noteq> Some growth_name \<and> col_avance (resolve_columns df) \<noteq> Some percap_name"
  by (auto simp: find_col_def scan_patterns_spec dest: find_col_spec_in)

lemma derive_metrics_cols:
  "derive_metrics r df = Inr df' \<Longrightarrow> set (col_names df) \<subseteq> set (col_names df')"
  by (auto simp: derive_metrics_def add_growth_def add_percap_def rescale_avance_def err_bind_eq_Inr
      split: option.splits if_splits)

lemmas frame_eval = wf_frame_def get_column_def set_column_def col_names_def

lemma derive_metrics_pia_pim:
  "derive_metrics (resolve_columns \<lparr>nrows = 1, cols = [(''PIA'', [Num 100]), (''PIM'', [Num 150])]\<rparr>)
       \<lparr>nrows = 1, cols = [(''PIA'', [Num 100]), (''PIM'', [Num 150])]\<rparr>
     = Inr \<lparr>nrows = 1, cols = [(''PIA'', [Num 100]), (''PIM'', [Num 150]), (growth_name, [Num 50]),
             (percap_name, [NA])]\<rparr>"
  by (simp add: derive_metrics_def add_growth_def add_percap_def rescale_avance_def
      growth_column_def np_where_def frame_eval find_col_eval growth_name_def percap_name_def)

section \<open>Properties of the deriver\<close>

text \<open>
  C12. Unresolved inputs leave their derived column with no value: in the table the
  script derives, the growth column is NaN in every row when PIA or PIM is
  unresolved, and the per-capita column is NaN in every row when PIM or the population
  is unresolved (spec section 8, e.g. a table with no population-like header).
\<close>

theorem unresolved_columns_nan:
  assumes "wf_frame df" "growth_name \<notin> set (col_names df)" "percap_name \<notin> set (col_names df)"
    "derive_metrics (resolve_columns df) df = Inr df'"
  shows "(find_col df pia_patterns = None \<or> find_col df pim_patterns = None \<longrightarrow>
           get_column df' growth_name = Inr (replicate (nrows df) NA))
    \<and> (find_col df pim_patterns = None \<or> find_col df poblacion_patterns = None \<longrightarrow>
           get_column df' percap_name = Inr (replicate (nrows df) NA))"
proof -
  from resolved_avance_not_new [OF assms(2,3)] have "col_avance (resolve_columns df) \<noteq> Some growth_name"
    "col_avance (resolve_columns df) \<noteq> Some percap_name" by simp_all
  from derive_metrics_new_columns [OF assms(1-3) this assms(4)] show ?thesis by auto
qed

theorem unresolved_columns_nan_witness:
  "get_column \<lparr>nrows = 1, cols = [(''PIA'', [Num 100]), (''PIM'', [Num 150]), (growth_name, [Num 50]),
             (percap_name, [NA])]\<rparr> percap_name = Inr [NA]"
proof -
  have a: "wf_frame \<lparr>nrows = 1, cols = [(''PIA'', [Num 100]), (''PIM'', [Num 150])]\<rparr>"
    "growth_name \<notin> set (col_names \<lparr>nrows = 1, cols = [(''PIA'', [Num 100]), (''PIM'', [Num 150])]\<rparr>)"
    "percap_name \<notin> set (col_names \<lparr>nrows = 1, cols = [(''PIA'', [Num 100]), (''PIM'', [Num 150])]\<rparr>)"
    by (simp_all add: wf_frame_def col_names_def growth_name_def percap_name_def)
  have p: "find_col \<lparr>nrows = 1, cols = [(''PIA'', [Num 100]), (''PIM'', [Num 150])]\<rparr> poblacion_patterns = None"
    by (simp add: find_col_eval)
  from unresolved_columns_nan [OF a derive_metrics_pia_pim] p show ?thesis by simp
qed

text \<open>
  C3. With both budget columns resolved, free of strings and of equal length, the
  vectorised growth expression computes, row by row, the specification's rule: if PIA
  is positive and PIM present, \<open>(PIM / PIA - 1) * 100\<close>, otherwise no value.
\<close>

theorem growth_rows:
  assumes "wf_frame df" "get_column df a = Inr pia" "get_column df m = Inr pim"
    "\<forall>c\<in>set pia. \<not> is_txt c" "\<forall>c\<in>set pim. \<not> is_txt c" "a \<noteq> []" "m \<noteq> []"
  shows "add_growth (Some a) (Some m) df = Inr (set_column df growth_name (map2 growth_cell pia pim))"
  using growth_column_Inr [OF assms(1-5)] assms(6,7) by (simp add: add_growth_def)

theorem growth_rows_witness:
  "add_growth (Some ''PIA'') (Some ''PIM'') \<lparr>nrows = 1, cols = [(''PIA'', [Num 100]), (''PIM'', [Num 150])]\<rparr>
   = Inr (set_column \<lparr>nrows = 1, cols = [(''PIA'', [Num 100]), (''PIM'', [Num 150])]\<rparr> growth_name [Num 50])"
proof -
  have "add_growth (Some ''PIA'') (Some ''PIM'') \<lparr>nrows = 1, cols = [(''PIA'', [Num 100]), (''PIM'', [Num 150])]\<rparr>
     = Inr (set_column \<lparr>nrows = 1, cols = [(''PIA'', [Num 100]), (''PIM'', [Num 150])]\<rparr> growth_name
         (map2 growth_cell [Num 100] [Num 150]))"
    by (rule growth_rows) (simp_all add: frame_eval)
  then show ?thesis by simp
qed

text \<open>
  C9. With both columns resolved and free of strings, the per-capita column is, row by
  row, PIM divided by population where the population is positive and PIM present,
  and no value otherwise.
\<close>

theorem percap_rows:
  assumes "wf_frame df" "get_column df p = Inr pop" "get_column df m = Inr pim"
    "\<forall>c\<in>set pop. \<not> is_txt c" "\<forall>c\<in>set pim. \<not> is_txt c" "m \<noteq> []" "p \<noteq> []"
  shows "add_percap (Some m) (Some p) df = Inr (set_column df percap_name (map2 percap_cell pim pop))"
  using percap_column_Inr [OF assms(1-5)] assms(6,7) by (simp add: add_percap_def)

theorem percap_rows_witness:
  "add_percap (Some ''PIM'') (Some ''Poblacion'')
     \<lparr>nrows = 1, cols = [(''PIM'', [Num 200000]), (''Poblacion'', [Num 1000])]\<rparr>
   = Inr (set_column \<lparr>nrows = 1, cols = [(''PIM'', [Num 200000]), (''Poblacion'', [Num 1000])]\<rparr>
       percap_name [Num 200])"
proof -
  have "add_percap (Some ''PIM'') (Some ''Poblacion'')
     \<lparr>nrows = 1, cols = [(''PIM'', [Num 200000]), (''Poblacion'', [Num 1000])]\<rparr>
   = Inr (set_column \<lparr>nrows = 1, cols = [(''PIM'', [Num 200000]), (''Poblacion'', [Num 1000])]\<rparr>
       percap_name (map2 percap_cell [Num 200000] [Num 1000]))"
    by (rule percap_rows) (simp_all add: frame_eval)
  then show ?thesis by simp
qed

text \<open>
  C4. The execution-percentage rescale: when more than 70\% of the first 20
  non-missing values lie in [0, 1] (and none of them is a string), the entire column,
  including the values beyond the sample window, is multiplied by 100, once.
\<close>

theorem rescale_scales_whole_column:
  assumes "get_column df c = Inr v" "c \<noteq> []" "\<forall>x\<in>set (rescale_sample v). \<not> is_txt x"
    "rescale_sample v \<noteq> []"
    "7 * length (rescale_sample v) < 10 * length (filter in_unit (rescale_sample v))"
  shows "rescale_avance (Some c) df = Inr (set_column df c (map (\<lambda>z. cell_mul z 100) v))"
  using rescale_avance_eq [OF assms(1-3)] assms(4,5) by simp

theorem rescale_scales_whole_column_witness:
  "rescale_avance (Some ''Avance'')
     \<lparr>nrows = 22, cols = [(''Avance'', [Num (45/100), Num (8/10)] @ replicate 18 (Num (1/2)) @ [NA, Num 2])]\<rparr>
   = Inr (set_column
     \<lparr>nrows = 22, cols = [(''Avance'', [Num (45/100), Num (8/10)] @ replicate 18 (Num (1/2)) @ [NA, Num 2])]\<rparr>
     ''Avance'' ([Num 45, Num 80] @ replicate 18 (Num 50) @ [NA, Num 200]))"
proof -
  have "rescale_avance (Some ''Avance'')
     \<lparr>nrows = 22, cols = [(''Avance'', [Num (45/100), Num (8/10)] @ replicate 18 (Num (1/2)) @ [NA, Num 2])]\<rparr>
   = Inr (set_column
     \<lparr>nrows = 22, cols = [(''Avance'', [Num (45/100), Num (8/10)] @ replicate 18 (Num (1/2)) @ [NA, Num 2])]\<rparr>
     ''Avance'' (map (\<lambda>z. cell_mul z 100) ([Num (45/100), Num (8/10)] @ replicate 18 (Num (1/2)) @ [NA, Num 2])))"
    by (rule rescale_scales_whole_column)
       (simp_all add: frame_eval rescale_sample_def filter_replicate)
  then show ?thesis by simp
qed

text \<open>
  C14. With at least 20 non-missing values the sample is full, and the rescale happens
  exactly when at least 15 of the 20 lie in [0, 1]: 14 of 20 (exactly 70\%) is not
  enough, since the comparison is strict.
\<close>

theorem rescale_threshold_full_sample:
  assumes "20 \<le> length (filter cell_notna v)" "\<forall>x\<in>set (rescale_sample v). \<not> is_txt x"
  shows "should_rescale v = Inr (15 \<le> length (filter in_unit (rescale_sample v)))"
proof -
  have "length (rescale_sample v) = 20" using assms(1) by (simp add: rescale_sample_def)
  with should_rescale_eq [OF assms(2)] show ?thesis by auto
qed

theorem rescale_threshold_full_sample_witness:
  "should_rescale (replicate 14 (Num (1/2)) @ replicate 6 (Num 5)) = Inr False"
proof -
  have "should_rescale (replicate 14 (Num (1/2)) @ replicate 6 (Num 5))
      = Inr (15 \<le> length (filter in_unit (rescale_sample (replicate 14 (Num (1/2)) @ replicate 6 (Num 5)))))"
    by (rule rescale_threshold_full_sample) (simp_all add: rescale_sample_def filter_replicate)
  then show ?thesis by (simp add: rescale_sample_def filter_replicate)
qed

text \<open>
  When at most 70\% of the sample lies in [0, 1] (or the sample is empty), the
  column and the whole frame are left untouched.
\<close>

lemma rescale_keeps_column:
  assumes "get_column df c = Inr v" "\<forall>x\<in>set (rescale_sample v). \<not> is_txt x"
    "10 * length (filter in_unit (rescale_sample v)) \<le> 7 * length (rescale_sample v)"
  shows "rescale_avance (Some c) df = Inr df"
proof (cases "c = []")
  case True
  then show ?thesis by (simp add: rescale_avance_def)
next
  case False
  with rescale_avance_eq [OF assms(1) False assms(2)] assms(3) show ?thesis by auto
qed

text \<open>
  A string cell in either budget column makes the growth computation raise
  \<open>TypeError\<close>, and with both columns present that is the only way it fails.
\<close>

lemma growth_type_error:
  assumes "wf_frame df" "get_column df a = Inr pia" "get_column df m = Inr pim" "a \<noteq> []" "m \<noteq> []"
  shows "add_growth (Some a) (Some m) df = Inl TypeError \<longleftrightarrow>
     (\<exists>c\<in>set pia. is_txt c) \<or> (\<exists>c\<in>set pim. is_txt c)"
  using growth_column_error [OF assms(1-3)] assms(4,5)
  by (auto simp: add_growth_def err_bind_eq_Inl)

text \<open>
  C16. Deriving the metrics keeps the frame well formed: every column, the two new ones
  and the rescaled one included, has one cell per row, and the row count is unchanged.
\<close>

theorem derive_preserves_wf:
  assumes wf: "wf_frame df" and d: "derive_metrics r df = Inr df'"
  shows "wf_frame df' \<and> nrows df' = nrows df"
  by (rule derive_metrics_wf [OF wf d])

theorem derive_preserves_wf_witness:
  "wf_frame \<lparr>nrows = 1, cols = [(''PIA'', [Num 100]), (''PIM'', [Num 150])]\<rparr>
   \<and> derive_metrics (resolve_columns \<lparr>nrows = 1, cols = [(''PIA'', [Num 100]), (''PIM'', [Num 150])]\<rparr>)
       \<lparr>nrows = 1, cols = [(''PIA'', [Num 100]), (''PIM'', [Num 150])]\<rparr>
     = Inr \<lparr>nrows = 1, cols = [(''PIA'', [Num 100]), (''PIM'', [Num 150]), (growth_name, [Num 50]),
             (percap_name, [NA])]\<rparr>
   \<and> wf_frame \<lparr>nrows = 1, cols = [(''PIA'', [Num 100]), (''PIM'', [Num 150]), (growth_name, [Num 50]),
             (percap_name, [NA])]\<rparr>"
proof -
  have w: "wf_frame \<lparr>nrows = 1, cols = [(''PIA'', [Num 100]), (''PIM'', [Num 150])]\<rparr>"
    by (simp add: wf_frame_def)
  show ?thesis using w derive_metrics_pia_pim derive_preserves_wf [OF w derive_metrics_pia_pim] by blast
qed

text \<open>
  C13. The derived columns are numeric: in the table the script derives, the growth and
  the per-capita columns hold numbers and missing values only, never a string, one cell
  per row.
\<close>

theorem derived_columns_numeric:
  assumes "wf_frame df" "growth_name \<notin> set (col_names df)" "percap_name \<notin> set (col_names df)"
    "derive_metrics (resolve_columns df) df = Inr df'"
  shows "\<exists>g p. get_column df' growth_name = Inr g \<and> get_column df' percap_name = Inr p
    \<and> (\<forall>c\<in>set g. \<not> is_txt c) \<and> (\<forall>c\<in>set p. \<not> is_txt c)
    \<and> length g = nrows df \<and> length p = nrows df"
proof -
  from resolved_avance_not_new [OF assms(2,3)] have "col_avance (resolve_columns df) \<noteq> Some growth_name"
    "col_avance (resolve_columns df) \<noteq> Some percap_name" by simp_all
  from derive_metrics_new_columns [OF assms(1-3) this assms(4)] obtain g p
    where g: "get_column df' growth_name = Inr g" and p: "get_column df' percap_name = Inr p"
    and t: "\<forall>c\<in>set g. \<not> is_txt c" "\<forall>c\<in>set p. \<not> is_txt c" by blast
  from derive_metrics_wf [OF assms(1,4)] have "wf_frame df'" "nrows df' = nrows df" by simp_all
  with g p have "length g = nrows df" "length p = nrows df" by (simp_all add: get_column_length)
  with g p t show ?thesis by blast
qed

theorem derived_columns_numeric_witness:
  "\<exists>g p. get_column \<lparr>nrows = 1, cols = [(''PIA'', [Num 100]), (''PIM'', [Num 150]), (growth_name, [Num 50]),
             (percap_name, [NA])]\<rparr> growth_name = Inr g
     \<and> get_column \<lparr>nrows = 1, cols = [(''PIA'', [Num 100]), (''PIM'', [Num 150]), (growth_name, [Num 50]),
             (percap_name, [NA])]\<rparr> percap_name = Inr p
     \<and> list_all (\<lambda>c. \<not> is_txt c) g \<and> list_all (\<lambda>c. \<not> is_txt c) p"
proof -
  have a: "wf_frame \<lparr>nrows = 1, cols = [(''PIA'', [Num 100]), (''PIM'', [Num 150])]\<rparr>"
    "growth_name \<notin> set (col_names \<lparr>nrows = 1, cols = [(''PIA'', [Num 100]), (''PIM'', [Num 150])]\<rparr>)"
    "percap_name \<notin> set (col_names \<lparr>nrows = 1, cols = [(''PIA'', [Num 100]), (''PIM'', [Num 150])]\<rparr>)"
    by (simp_all add: wf_frame_def col_names_def growth_name_def percap_name_def)
  from derived_columns_numeric [OF a derive_metrics_pia_pim] show ?thesis by (auto simp: list_all_iff)
qed

end
