(* ===== verification/Presentation.thy ===== *)
theory Presentation
  imports Deriver "HOL-Library.Char_ord" "HOL-Library.List_Lexorder"
begin

text \<open>
  The data-handling part of the presentation layer of \<open>src/app.py\<close>: the options of
  the government-type selector (line 66), the widget constraints of the sidebar
  (lines 63--70), and the filtered view \<open>data\<close> every tab reads (lines 80--83; the
  CSV export of lines 74--76 applies the same filter and is modelled in \<open>Tabs\<close>). Strings are ordered as Python
  orders them, lexicographically by code point (\<open>List_Lexorder\<close> over \<open>Char_ord\<close>).
  \<open>Series.astype(str)\<close> is \<open>py_str_cell\<close>; the text Python prints for a float is a
  parameter \<open>num_str\<close> of the model, so the theorems hold for whatever it is.
  Chart construction and page layout are not modelled.
\<close>

section \<open>Selector and filter\<close>

definition TODOS :: string where
  "TODOS = ''(Todos)''"

fun py_str_cell :: "(real \<Rightarrow> string) \<Rightarrow> cell \<Rightarrow> string" where
  "py_str_cell num_str (Num x) = num_str x"
| "py_str_cell num_str (Txt s) = s"
| "py_str_cell num_str NA = ''nan''"

text \<open>
  Line 66: \<open>["(Todos)"] + sorted(v.dropna().astype(str).unique())\<close>. \<open>unique\<close>
  keeps first occurrences, \<open>remdups\<close> last ones; after sorting the two agree.
\<close>

definition tipo_options :: "(real \<Rightarrow> string) \<Rightarrow> string option \<Rightarrow> frame \<Rightarrow> string list result" where
  "tipo_options num_str c_tipo df =
     (case c_tipo of
        Some t \<Rightarrow>
          if py_truthy c_tipo
          then err_bind (get_column df t) (\<lambda>v.
                 Inr (TODOS # sort (remdups (map (py_str_cell num_str) (filter cell_notna v)))))
          else Inr [TODOS]
      | None \<Rightarrow> Inr [TODOS])"

text \<open>The sidebar's state: the selected type (default \<open>"(Todos)"\<close>) and the top-N
  slider, from 5 to 50, default 15.\<close>

record ui_state =
  sel_tipo :: string
  top_n :: nat

definition default_ui :: ui_state where
  "default_ui = \<lparr>sel_tipo = TODOS, top_n = 15\<rparr>"

definition valid_ui :: "string list \<Rightarrow> ui_state \<Rightarrow> bool" where
  "valid_ui opts u \<longleftrightarrow> sel_tipo u \<in> set opts \<and> 5 \<le> top_n u \<and> top_n u \<le> 50"

text \<open>Boolean indexing \<open>df[mask]\<close>: the rows where the mask holds, in order.\<close>

definition filter_rows :: "bool list \<Rightarrow> frame \<Rightarrow> frame" where
  "filter_rows keep df =
     \<lparr>nrows = length (filter id keep),
      cols = map (\<lambda>(c, vs). (c, map snd (filter fst (zip keep vs)))) (cols df)\<rparr>"

definition data_view :: "(real \<Rightarrow> string) \<Rightarrow> string option \<Rightarrow> string \<Rightarrow> frame \<Rightarrow> frame result" where
  "data_view num_str c_tipo sel df =
     (case c_tipo of
        Some t \<Rightarrow>
          if py_truthy c_tipo \<and> sel \<noteq> TODOS
          then err_bind (get_column df t) (\<lambda>v.
                 Inr (filter_rows (map (\<lambda>c. py_str_cell num_str c = sel) v) df))
          else Inr df
      | None \<Rightarrow> Inr df)"

subsection \<open>Example tables\<close>

definition df_tipos :: frame where
  "df_tipos = \<lparr>nrows = 3, cols = [(''Tipo'', [Txt ''GL'', Txt ''GR'', Txt ''GL'']), (''PIM'', [Num 10, Num 20, Num 30])]\<rparr>"

definition df_todos :: frame where
  "df_todos = \<lparr>nrows = 2, cols = [(''Tipo'', [Txt ''(Todos)'', Txt ''GL''])]\<rparr>"

section \<open>Lemmas\<close>

lemma filter_fst_zip_map: "map snd (filter fst (zip (map P v) v)) = filter P v"
  by (induction v) auto

lemma length_filter_fst_zip:
  "length keep = length vs \<Longrightarrow> length (filter fst (zip keep vs)) = length (filter id keep)"
proof (induction keep arbitrary: vs)
  case Nil
  then show ?case by simp
next
  case (Cons b keep)
  then show ?case by (cases vs) auto
qed

lemma wf_filter_rows:
  assumes "wf_frame df" "length keep = nrows df"
  shows "wf_frame (filter_rows keep df)"
  unfolding wf_frame_def list_all_iff
proof
  fix p assume "p \<in> set (cols (filter_rows keep df))"
  then obtain c vs where cv: "(c, vs) \<in> set (cols df)" and p: "p = (c, map snd (filter fst (zip keep vs)))"
    by (auto simp: filter_rows_def)
  from cv assms have "length keep = length vs" by (auto simp: wf_frame_def list_all_iff)
  with p show "length (snd p) = nrows (filter_rows keep df)"
    by (simp add: filter_rows_def length_filter_fst_zip)
qed

lemma filter_map_same_fst:
  "filter (\<lambda>p. fst p = c) (map (\<lambda>(a, vs). (a, f vs)) xs)
     = map (\<lambda>(a, vs). (a, f vs)) (filter (\<lambda>p. fst p = c) xs)"
  by (induction xs) auto

lemma get_column_filter_rows:
  "get_column df c = Inr v \<Longrightarrow>
   get_column (filter_rows keep df) c = Inr (map snd (filter fst (zip keep v)))"
  by (simp add: get_column_Inr_iff filter_rows_def filter_map_same_fst)

lemma filter_zip_nth:
  "length keep = length vs \<Longrightarrow>
   map snd (filter fst (zip keep vs)) = map ((!) vs) (filter ((!) keep) [0..<length vs])"
proof (induction keep arbitrary: vs)
  case Nil
  then show ?case by simp
next
  case (Cons b keep)
  then obtain x ws where vs: "vs = x # ws" and l: "length keep = length ws" by (cases vs) auto
  have "[0..<length vs] = 0 # map Suc [0..<length ws]"
    by (simp only: vs length_Cons upt_conv_Cons zero_less_Suc map_Suc_upt)
  then show ?case using Cons.IH [OF l] by (simp add: vs filter_map comp_def)
qed

lemma filter_map_nth_cong:
  "length v = n \<Longrightarrow> filter ((!) (map P v)) [0..<n] = filter (\<lambda>i. P (v ! i)) [0..<n]"
  by (auto intro: filter_cong)

lemma cols_filter_rows:
  "map snd (cols (filter_rows keep df)) = map (\<lambda>vs. map snd (filter fst (zip keep vs))) (map snd (cols df))"
  by (simp add: filter_rows_def case_prod_beta comp_def)

lemma col_names_filter_rows [simp]: "col_names (filter_rows keep df) = col_names df"
  by (simp add: filter_rows_def col_names_def case_prod_beta comp_def)

lemma data_view_filter:
  "t \<noteq> [] \<Longrightarrow> sel \<noteq> TODOS \<Longrightarrow> get_column df t = Inr v \<Longrightarrow>
   data_view num_str (Some t) sel df = Inr (filter_rows (map (\<lambda>c. py_str_cell num_str c = sel) v) df)"
  by (simp add: data_view_def)

lemma filter_rows_nth:
  assumes "wf_frame df" "length v = nrows df"
  shows "map snd (cols (filter_rows (map P v) df))
    = map (\<lambda>vs. map ((!) vs) (filter (\<lambda>i. P (v ! i)) [0..<nrows df])) (map snd (cols df))"
  unfolding cols_filter_rows
proof (rule map_cong [OF refl])
  fix vs assume "vs \<in> set (map snd (cols df))"
  with assms(1) have l: "length vs = nrows df" by (auto simp: wf_frame_def list_all_iff)
  with assms(2) have "length (map P v) = length vs" by simp
  from filter_zip_nth [OF this] l assms(2)
  show "map snd (filter fst (zip (map P v) vs)) = map ((!) vs) (filter (\<lambda>i. P (v ! i)) [0..<nrows df])"
    by (simp add: filter_map_nth_cong)
qed

lemma data_view_cols: "data_view num_str c_tipo sel df = Inr d \<Longrightarrow> col_names d = col_names df"
  by (auto simp: data_view_def err_bind_eq_Inr split: option.splits if_splits)

lemma data_view_TODOS: "data_view num_str c_tipo TODOS df = Inr df"
  by (cases c_tipo) (simp_all add: data_view_def)

lemma tipo_options_Some:
  "t \<noteq> [] \<Longrightarrow> get_column df t = Inr v \<Longrightarrow>
   tipo_options num_str (Some t) df
     = Inr (TODOS # sort (remdups (map (py_str_cell num_str) (filter cell_notna v))))"
  by (simp add: tipo_options_def)

text \<open>The widgets' defaults are valid: \<open>index=0\<close> selects \<open>"(Todos)"\<close>, which every
  option list starts with, and 15 lies within the slider's bounds.\<close>

lemma tipo_options_default_valid:
  "tipo_options num_str c_tipo df = Inr opts \<Longrightarrow> valid_ui opts default_ui"
  by (auto simp: tipo_options_def valid_ui_def default_ui_def err_bind_eq_Inr
      split: option.splits if_splits)

section \<open>Properties of the filter\<close>

text \<open>
  C6. The government-type filter (lines 80--81): when the type column is resolved and a
  type other than \<open>"(Todos)"\<close> is selected, the view keeps the columns and, in every
  column, exactly the cells of the rows whose type reads as the selection, in their
  order; its type column holds only such cells.
\<close>

theorem data_view_rows:
  assumes "wf_frame df" "get_column df t = Inr v" "t \<noteq> []" "sel \<noteq> TODOS"
  shows "\<exists>df'. data_view num_str (Some t) sel df = Inr df' \<and> wf_frame df'
    \<and> col_names df' = col_names df
    \<and> nrows df' = length (filter (\<lambda>c. py_str_cell num_str c = sel) v)
    \<and> map snd (cols df') = map (\<lambda>vs. map ((!) vs)
          (filter (\<lambda>i. py_str_cell num_str (v ! i) = sel) [0..<nrows df])) (map snd (cols df))
    \<and> get_column df' t = Inr (filter (\<lambda>c. py_str_cell num_str c = sel) v)"
proof -
  let ?keep = "map (\<lambda>c. py_str_cell num_str c = sel) v"
  have lv: "length v = nrows df" using get_column_length [OF assms(1,2)] .
  have "wf_frame (filter_rows ?keep df)" using assms(1) lv by (simp add: wf_filter_rows)
  moreover have "map snd (cols (filter_rows ?keep df)) = map (\<lambda>vs. map ((!) vs)
          (filter (\<lambda>i. py_str_cell num_str (v ! i) = sel) [0..<nrows df])) (map snd (cols df))"
    using filter_rows_nth [OF assms(1) lv] .
  moreover have "get_column (filter_rows ?keep df) t = Inr (filter (\<lambda>c. py_str_cell num_str c = sel) v)"
    using get_column_filter_rows [OF assms(2)] by (simp add: filter_fst_zip_map)
  moreover have "nrows (filter_rows ?keep df) = length (filter (\<lambda>c. py_str_cell num_str c = sel) v)"
    by (simp add: filter_rows_def comp_def)
  ultimately show ?thesis using data_view_filter [OF assms(3,4,2)] by simp
qed

theorem data_view_rows_witness:
  "data_view (\<lambda>x. '''') (Some ''Tipo'') ''GL'' df_tipos
     = Inr \<lparr>nrows = 2, cols = [(''Tipo'', [Txt ''GL'', Txt ''GL'']), (''PIM'', [Num 10, Num 30])]\<rparr>
   \<and> map snd (cols \<lparr>nrows = 2, cols = [(''Tipo'', [Txt ''GL'', Txt ''GL'']), (''PIM'', [Num 10, Num 30])]\<rparr>)
     = map (\<lambda>vs. map ((!) vs) (filter (\<lambda>i. py_str_cell (\<lambda>x. '''') ([Txt ''GL'', Txt ''GR'', Txt ''GL''] ! i) = ''GL'') [0..<3]))
         (map snd (cols df_tipos))"
proof -
  have w: "wf_frame df_tipos" "get_column df_tipos ''Tipo'' = Inr [Txt ''GL'', Txt ''GR'', Txt ''GL'']"
    "''Tipo'' \<noteq> []" "''GL'' \<noteq> TODOS"
    by (simp_all add: df_tipos_def wf_frame_def get_column_def TODOS_def)
  from data_view_rows [OF w, of "\<lambda>x. ''''"] obtain df' where
    d: "data_view (\<lambda>x. '''') (Some ''Tipo'') ''GL'' df_tipos = Inr df'"
    and c: "map snd (cols df') = map (\<lambda>vs. map ((!) vs) (filter (\<lambda>i. py_str_cell (\<lambda>x. '''') ([Txt ''GL'', Txt ''GR'', Txt ''GL''] ! i) = ''GL'') [0..<nrows df_tipos])) (map snd (cols df_tipos))"
    by blast
  have v: "data_view (\<lambda>x. '''') (Some ''Tipo'') ''GL'' df_tipos
     = Inr \<lparr>nrows = 2, cols = [(''Tipo'', [Txt ''GL'', Txt ''GL'']), (''PIM'', [Num 10, Num 30])]\<rparr>"
    by (simp add: data_view_def df_tipos_def get_column_def TODOS_def filter_rows_def)
  from d v c show ?thesis by (simp add: df_tipos_def)
qed

text \<open>
  C32. The view is the whole table when \<open>"(Todos)"\<close> is selected or the type column is
  unresolved (line 83). A type whose text is literally \<open>"(Todos)"\<close> therefore cannot
  be filtered on: selecting it shows every row.
\<close>

theorem data_view_all:
  "sel = TODOS \<or> \<not> py_truthy c_tipo \<Longrightarrow> data_view num_str c_tipo sel df = Inr df"
  by (cases c_tipo) (auto simp: data_view_def)

theorem data_view_all_witness:
  "data_view (\<lambda>x. '''') (Some ''Tipo'') ''(Todos)'' df_todos = Inr df_todos
   \<and> nrows df_todos = 2"
proof -
  have "''(Todos)'' = TODOS \<or> \<not> py_truthy (Some ''Tipo'')" by (simp add: TODOS_def)
  from data_view_all [OF this] show ?thesis by (simp add: df_todos_def)
qed

text \<open>
  The selector offers \<open>"(Todos)"\<close> first, then the texts of the non-missing type
  cells, each once, in ascending code-point order (line 66).
\<close>

lemma tipo_options_sorted:
  assumes "t \<noteq> []" "get_column df t = Inr v"
  shows "\<exists>opts. tipo_options num_str (Some t) df = Inr (TODOS # opts) \<and> sorted opts \<and> distinct opts
           \<and> set opts = py_str_cell num_str ` set (filter cell_notna v)"
  using tipo_options_Some [OF assms] by simp

text \<open>
  C31. Every type the selector offers yields a non-empty view.
\<close>

theorem option_nonempty_view:
  assumes "wf_frame df" "t \<noteq> []" "get_column df t = Inr v"
    and "tipo_options num_str (Some t) df = Inr (TODOS # opts)" "s \<in> set opts"
  shows "\<exists>df'. data_view num_str (Some t) s df = Inr df' \<and> 0 < nrows df'"
proof -
  from assms(4) tipo_options_Some [OF assms(2,3)] assms(5)
  obtain c where c: "c \<in> set v" "py_str_cell num_str c = s" by auto
  have lv: "length v = nrows df" using get_column_length [OF assms(1,3)] .
  show ?thesis
  proof (cases "s = TODOS")
    case True
    with lv length_pos_if_in_set [OF c(1)] show ?thesis by (simp add: data_view_TODOS)
  next
    case False
    from c have "filter (\<lambda>c. py_str_cell num_str c = s) v \<noteq> []" by (auto simp: filter_empty_conv)
    with data_view_filter [OF assms(2) False assms(3)] show ?thesis
      by (simp add: filter_rows_def comp_def)
  qed
qed

theorem option_nonempty_view_witness:
  "data_view (\<lambda>x. '''') (Some ''Tipo'') ''GR'' df_tipos
     = Inr \<lparr>nrows = 1, cols = [(''Tipo'', [Txt ''GR'']), (''PIM'', [Num 20])]\<rparr>"
proof -
  have a: "wf_frame df_tipos" "''Tipo'' \<noteq> []"
    "get_column df_tipos ''Tipo'' = Inr [Txt ''GL'', Txt ''GR'', Txt ''GL'']"
    "tipo_options (\<lambda>x. '''') (Some ''Tipo'') df_tipos = Inr (TODOS # [''GL'', ''GR''])"
    "''GR'' \<in> set [''GL'', ''GR'']"
    by (simp_all add: df_tipos_def wf_frame_def get_column_def tipo_options_def)
  from option_nonempty_view [OF a] obtain df' where
    "data_view (\<lambda>x. '''') (Some ''Tipo'') ''GR'' df_tipos = Inr df'" "0 < nrows df'" by blast
  then show ?thesis
    by (simp add: data_view_def df_tipos_def get_column_def TODOS_def filter_rows_def)
qed

end
