(* ===== verification/Ranking.thy ===== *)
theory Ranking
  imports Presentation "HOL-Library.Multiset"
begin

text \<open>
  The top-N table of the first tab of \<open>src/app.py\<close> (lines 99--108): the ranking
  metric (\<open>rank_metric\<close>: total score, else execution, else PIM), the descending
  \<open>sort_values\<close> of pandas with missing values last (\<open>nargsort_desc\<close>,
  \<open>sort_values_desc\<close>), and \<open>head(top_n)\<close> (\<open>py_head\<close>). Cells are ordered by a
  \<open>linorder\<close> instance that agrees with Python on numbers and on strings; comparing a
  number with a string raises \<open>TypeError\<close> (\<open>comparable\<close>). The argsort pandas calls
  is a parameter \<open>srt\<close>, constrained only by \<open>valid_argsort\<close> (it permutes and sorts):
  numpy's default introsort fixes no order among equal keys. The stable argsort
  \<open>sort_key\<close> is one instance; with it the pandas routine equals the reference
  descending insertion sort \<open>sort_desc\<close> and keeps ties in row order.
\<close>

section \<open>Ordering of cells\<close>

text \<open>Numbers by value, strings by code points, numbers before strings, missing values
  last. Only numbers with numbers and strings with strings are ever compared by the
  program's sort (\<open>comparable\<close>), so the cross-type cases only make the order total.\<close>

instantiation cell :: linorder
begin

fun less_eq_cell :: "cell \<Rightarrow> cell \<Rightarrow> bool" where
  "less_eq_cell (Num a) (Num b) = (a \<le> b)"
| "less_eq_cell (Txt s) (Txt t) = (s \<le> t)"
| "less_eq_cell (Num a) y = True"
| "less_eq_cell (Txt s) (Num b) = False"
| "less_eq_cell (Txt s) NA = True"
| "less_eq_cell NA y = (y = NA)"

definition less_cell :: "cell \<Rightarrow> cell \<Rightarrow> bool" where
  "less_cell x y \<longleftrightarrow> x \<le> y \<and> \<not> y \<le> x"

instance
proof
  fix x y z :: cell
  show "x < y \<longleftrightarrow> x \<le> y \<and> \<not> y \<le> x" by (rule less_cell_def)
  show "x \<le> x" by (cases x) simp_all
  show "x \<le> y \<Longrightarrow> y \<le> z \<Longrightarrow> x \<le> z" by (cases x; cases y; cases z) auto
  show "x \<le> y \<Longrightarrow> y \<le> x \<Longrightarrow> x = y" by (cases x; cases y) auto
  show "x \<le> y \<or> y \<le> x" by (cases x; cases y) auto
qed

end

section \<open>Reference: stable descending sort\<close>

text \<open>Insertion before the first element with a key not greater: a descending sort that
  keeps equal keys in their input order.\<close>

fun ins_desc :: "('a \<Rightarrow> 'k::linorder) \<Rightarrow> 'a \<Rightarrow> 'a list \<Rightarrow> 'a list" where
  "ins_desc key x [] = [x]"
| "ins_desc key x (y # ys) = (if key y \<le> key x then x # y # ys else y # ins_desc key x ys)"

definition sort_desc :: "('a \<Rightarrow> 'k::linorder) \<Rightarrow> 'a list \<Rightarrow> 'a list" where
  "sort_desc key xs = foldr (ins_desc key) xs []"

section \<open>The top-N table\<close>

text \<open>\<open>a if a else b\<close> on optional column names.\<close>

definition py_or :: "string option \<Rightarrow> string option \<Rightarrow> string option" where
  "py_or a b = (if py_truthy a then a else b)"

definition rank_metric :: "resolution \<Rightarrow> string option" where
  "rank_metric r = py_or (col_total r) (py_or (col_avance r) (col_pim r))"

text \<open>Reordering the rows of a frame by a list of row positions (\<open>df.take(idx)\<close>), and
  \<open>df.head(n)\<close>.\<close>

definition take_rows :: "nat list \<Rightarrow> frame \<Rightarrow> frame" where
  "take_rows idx df = \<lparr>nrows = length idx, cols = map (\<lambda>(c, vs). (c, map ((!) vs) idx)) (cols df)\<rparr>"

definition py_head :: "nat \<Rightarrow> frame \<Rightarrow> frame" where
  "py_head n df = \<lparr>nrows = min n (nrows df), cols = map (\<lambda>(c, vs). (c, take n vs)) (cols df)\<rparr>"

text \<open>
  pandas' \<open>nargsort\<close> for \<open>ascending=False, na_position="last"\<close>: the positions of the
  non-missing cells are reversed, argsorted ascending, and the result reversed again; the
  positions of the missing cells follow in their order. The argsort \<open>srt\<close> is a parameter:
  the default \<open>kind="quicksort"\<close> of numpy is an introsort, which sorts but fixes no
  order among equal keys.
\<close>

definition nargsort_desc :: "((nat \<Rightarrow> cell) \<Rightarrow> nat list \<Rightarrow> nat list) \<Rightarrow> cell list \<Rightarrow> nat list" where
  "nargsort_desc srt v =
     (let idx = [0..<length v]
      in rev (srt ((!) v) (rev (filter (\<lambda>i. cell_notna (v ! i)) idx)))
         @ filter (\<lambda>i. \<not> cell_notna (v ! i)) idx)"

fun is_num :: "cell \<Rightarrow> bool" where
  "is_num (Num x) = True"
| "is_num c = False"

text \<open>Values of one type compare; numbers and strings together raise \<open>TypeError\<close>.\<close>

definition comparable :: "cell list \<Rightarrow> bool" where
  "comparable v \<longleftrightarrow> list_all is_num (filter cell_notna v) \<or> list_all is_txt (filter cell_notna v)"

definition sort_values_desc :: "((nat \<Rightarrow> cell) \<Rightarrow> nat list \<Rightarrow> nat list) \<Rightarrow> frame \<Rightarrow> string \<Rightarrow> frame result" where
  "sort_values_desc srt df c =
     err_bind (get_column df c) (\<lambda>v.
       if comparable v then Inr (take_rows (nargsort_desc srt v) df) else Inl TypeError)"

text \<open>Lines 99--108: the ranking metric and the top-N table of the first tab.\<close>

definition top_table :: "((nat \<Rightarrow> cell) \<Rightarrow> nat list \<Rightarrow> nat list) \<Rightarrow> resolution \<Rightarrow> nat \<Rightarrow> frame \<Rightarrow> frame result" where
  "top_table srt r n data =
     (case rank_metric r of
        Some c \<Rightarrow>
          if py_truthy (rank_metric r)
          then err_bind (sort_values_desc srt data c) (\<lambda>t. Inr (py_head n t))
          else Inr (py_head n data)
      | None \<Rightarrow> Inr (py_head n data))"

text \<open>What any argsort guarantees: it permutes its input and sorts it by the key.\<close>

definition valid_argsort :: "((nat \<Rightarrow> cell) \<Rightarrow> nat list \<Rightarrow> nat list) \<Rightarrow> bool" where
  "valid_argsort srt \<longleftrightarrow> (\<forall>key xs. mset (srt key xs) = mset xs \<and> sorted (map key (srt key xs)))"

subsection \<open>Example table\<close>

definition df_rank :: frame where
  "df_rank = \<lparr>nrows = 4, cols = [(''Entidad'', [Txt ''A'', Txt ''B'', Txt ''C'', Txt ''D'']),
     (''Total'', [Num 10, NA, Num 30, Num 20])]\<rparr>"

definition df_mixed :: frame where
  "df_mixed = \<lparr>nrows = 2, cols = [(''Total'', [Num 10, Txt ''n/d''])]\<rparr>"

section \<open>Lemmas\<close>

lemma mset_ins_desc [simp]: "mset (ins_desc key x ys) = add_mset x (mset ys)"
  by (induction ys) auto

lemma mset_sort_desc [simp]: "mset (sort_desc key xs) = mset xs"
  by (induction xs) (simp_all add: sort_desc_def)

lemma set_ins_desc [simp]: "set (ins_desc key x ys) = insert x (set ys)"
  by (induction ys) auto

lemma sorted_ins_desc:
  "sorted_wrt (\<ge>) (map key ys) \<Longrightarrow> sorted_wrt (\<ge>) (map key (ins_desc key x ys))"
  by (induction ys) auto

lemma sorted_sort_desc: "sorted_wrt (\<ge>) (map key (sort_desc key xs))"
  by (induction xs) (simp_all add: sort_desc_def sorted_ins_desc)

lemma filter_ins_desc_neg: "\<not> P x \<Longrightarrow> filter P (ins_desc key x ys) = filter P ys"
  by (induction ys) auto

lemma filter_ins_desc_pos:
  "sorted_wrt (\<ge>) (map key ys) \<Longrightarrow> key x = c \<Longrightarrow>
   filter (\<lambda>y. key y = c) (ins_desc key x ys) = x # filter (\<lambda>y. key y = c) ys"
  by (induction ys) auto

lemma sort_desc_stable:
  "filter (\<lambda>y. key y = c) (sort_desc key xs) = filter (\<lambda>y. key y = c) xs"
proof (induction xs)
  case Nil
  then show ?case by (simp add: sort_desc_def)
next
  case (Cons x xs)
  have s: "sort_desc key (x # xs) = ins_desc key x (sort_desc key xs)" by (simp add: sort_desc_def)
  show ?case
  proof (cases "key x = c")
    case True
    with s Cons.IH show ?thesis by (simp add: filter_ins_desc_pos sorted_sort_desc)
  next
    case False
    with s Cons.IH show ?thesis by (simp add: filter_ins_desc_neg)
  qed
qed

lemma rev_sort_key_rev: "rev (sort_key key (rev xs)) = sort_desc key xs"
proof -
  have "sort_key key (rev xs) = rev (sort_desc key xs)"
  proof (rule properties_for_sort_key)
    show "mset (rev (sort_desc key xs)) = mset (rev xs)" by simp
  next
    fix k
    have "filter (\<lambda>x. key k = key x) (sort_desc key xs) = filter (\<lambda>x. key k = key x) xs"
      using sort_desc_stable [of key "key k" xs] by (simp add: eq_commute)
    then show "filter (\<lambda>x. key k = key x) (rev (sort_desc key xs)) = filter (\<lambda>x. key k = key x) (rev xs)"
      by (simp add: rev_filter [symmetric])
  next
    show "sorted (map key (rev (sort_desc key xs)))"
      using sorted_sort_desc [of key xs] by (simp only: rev_map [symmetric] sorted_wrt_rev)
  qed
  then show ?thesis by simp
qed

lemma cell_notna_iff: "\<not> cell_notna c \<longleftrightarrow> c = NA"
  by (cases c) simp_all

lemma map_nth_filter_upt: "map ((!) v) (filter (\<lambda>i. P (v ! i)) [0..<length v]) = filter P v"
proof -
  have "map ((!) v) (filter (\<lambda>i. P (v ! i)) [0..<length v]) = filter P (map ((!) v) [0..<length v])"
    by (simp add: filter_map comp_def)
  then show ?thesis by (simp add: map_nth)
qed

lemma filter_na_replicate:
  "filter (\<lambda>x. \<not> cell_notna x) v = replicate (length (filter (\<lambda>x. \<not> cell_notna x) v)) NA"
  by (induction v) (simp_all add: cell_notna_iff)

lemma valid_argsortD:
  assumes "valid_argsort srt"
  shows "mset (srt key xs) = mset xs" "sorted (map key (srt key xs))"
  using assms by (simp_all add: valid_argsort_def)

lemma valid_argsort_sort_key: "valid_argsort (\<lambda>key xs. sort_key key xs)"
  by (simp add: valid_argsort_def)

lemma mset_nargsort:
  assumes "valid_argsort srt"
  shows "mset (nargsort_desc srt v) = mset [0..<length v]"
proof -
  let ?F = "filter (\<lambda>i. cell_notna (v ! i)) [0..<length v]"
  let ?G = "filter (\<lambda>i. \<not> cell_notna (v ! i)) [0..<length v]"
  have "mset (nargsort_desc srt v) = mset (rev (srt ((!) v) (rev ?F))) + mset ?G"
    by (simp only: nargsort_desc_def Let_def mset_append)
  also have "\<dots> = mset ?F + mset ?G"
    by (simp only: mset_rev valid_argsortD(1) [OF assms])
  also have "\<dots> = mset [0..<length v]"
    by (simp only: mset_filter multiset_partition [symmetric])
  finally show ?thesis .
qed

lemma nargsort_perm:
  assumes "valid_argsort srt"
  shows "distinct (nargsort_desc srt v)" "set (nargsort_desc srt v) = {..<length v}"
    "length (nargsort_desc srt v) = length v"
proof -
  note m = mset_nargsort [OF assms, of v]
  have "distinct [0..<length v]" by (rule distinct_upt)
  with mset_eq_imp_distinct_iff [OF m] show "distinct (nargsort_desc srt v)" by (simp only:)
  from mset_eq_setD [OF m] show "set (nargsort_desc srt v) = {..<length v}" by (simp only: atLeast_upt)
  from mset_eq_length [OF m] show "length (nargsort_desc srt v) = length v" by (simp only: length_upt diff_zero)
qed
lemma nargsort_values:
  assumes "valid_argsort srt"
  shows "\<exists>ds. map ((!) v) (nargsort_desc srt v) = ds @ replicate (length (filter (\<lambda>x. \<not> cell_notna x) v)) NA
    \<and> sorted_wrt (\<ge>) ds \<and> mset ds = mset (filter cell_notna v)"
proof -
  let ?F = "filter (\<lambda>i. cell_notna (v ! i)) [0..<length v]"
  let ?ds = "rev (map ((!) v) (srt ((!) v) (rev ?F)))"
  have "sorted (map ((!) v) (srt ((!) v) (rev ?F)))" by (rule valid_argsortD(2) [OF assms])
  then have s: "sorted_wrt (\<ge>) ?ds" by (simp only: sorted_wrt_rev)
  have "mset ?ds = image_mset ((!) v) (mset (rev ?F))"
    by (simp only: mset_rev mset_map valid_argsortD(1) [OF assms])
  also have "\<dots> = mset (map ((!) v) ?F)" by (simp only: mset_rev mset_map)
  also have "\<dots> = mset (filter cell_notna v)" by (simp only: map_nth_filter_upt)
  finally have m: "mset ?ds = mset (filter cell_notna v)" .
  have "map ((!) v) (filter (\<lambda>i. \<not> cell_notna (v ! i)) [0..<length v]) = filter (\<lambda>x. \<not> cell_notna x) v"
    by (rule map_nth_filter_upt)
  then have "map ((!) v) (nargsort_desc srt v) = ?ds @ replicate (length (filter (\<lambda>x. \<not> cell_notna x) v)) NA"
    by (simp add: nargsort_desc_def Let_def rev_map filter_na_replicate [symmetric])
  with s m show ?thesis by blast
qed

lemma get_column_take_rows:
  "get_column df c = Inr v \<Longrightarrow> get_column (take_rows idx df) c = Inr (map ((!) v) idx)"
  by (simp add: get_column_Inr_iff take_rows_def filter_map_same_fst)

lemma get_column_py_head:
  "get_column df c = Inr v \<Longrightarrow> get_column (py_head n df) c = Inr (take n v)"
  by (simp add: get_column_Inr_iff py_head_def filter_map_same_fst)

lemma wf_take_rows: "wf_frame (take_rows idx df)"
  by (simp add: wf_frame_def take_rows_def list_all_iff case_prod_beta)

lemma wf_py_head: "wf_frame df \<Longrightarrow> wf_frame (py_head n df)"
  by (auto simp: wf_frame_def py_head_def list_all_iff case_prod_beta)

lemma col_names_take_rows [simp]: "col_names (take_rows idx df) = col_names df"
  by (simp add: take_rows_def col_names_def case_prod_beta comp_def)

lemma col_names_py_head [simp]: "col_names (py_head n df) = col_names df"
  by (simp add: py_head_def col_names_def case_prod_beta comp_def)

lemma py_head_take_rows: "py_head n (take_rows idx df) = take_rows (take n idx) df"
  by (simp add: py_head_def take_rows_def case_prod_beta comp_def take_map)

lemma top_table_sorted_eq:
  "rank_metric r = Some c \<Longrightarrow> c \<noteq> [] \<Longrightarrow> get_column data c = Inr v \<Longrightarrow> comparable v \<Longrightarrow>
   top_table srt r n data = Inr (take_rows (take n (nargsort_desc srt v)) data)"
  by (simp add: top_table_def sort_values_desc_def py_head_take_rows)


lemma sorted_wrt_take_drop:
  "sorted_wrt (\<ge>) ds \<Longrightarrow> x \<in> set (take n ds) \<Longrightarrow> y \<in> set (drop n ds) \<Longrightarrow> y \<le> (x::'a::linorder)"
proof -
  assume s: "sorted_wrt (\<ge>) ds" and x: "x \<in> set (take n ds)" and y: "y \<in> set (drop n ds)"
  from s have "sorted_wrt (\<ge>) (take n ds @ drop n ds)" by simp
  with x y show "y \<le> x" by (simp only: sorted_wrt_append)
qed

lemma filter_notna_take_append:
  "\<forall>x\<in>set ds. cell_notna x \<Longrightarrow> filter cell_notna (take n (ds @ replicate k NA)) = take n ds"
proof -
  assume a: "\<forall>x\<in>set ds. cell_notna x"
  have "filter cell_notna (take n ds) = take n ds"
    using a set_take_subset [of n ds] by (auto simp: filter_id_conv)
  moreover have "filter cell_notna (take m (replicate k NA)) = []" for m by simp
  ultimately show ?thesis by (simp add: take_append)
qed

lemma top_table_column:
  assumes "valid_argsort srt" "rank_metric r = Some c" "c \<noteq> []" "get_column data c = Inr v" "comparable v"
  shows "\<exists>ds. top_table srt r n data = Inr (take_rows (take n (nargsort_desc srt v)) data)
    \<and> get_column (take_rows (take n (nargsort_desc srt v)) data) c
        = Inr (take n (ds @ replicate (length (filter (\<lambda>x. \<not> cell_notna x) v)) NA))
    \<and> sorted_wrt (\<ge>) ds \<and> mset ds = mset (filter cell_notna v)"
proof -
  from nargsort_values [OF assms(1), of v] obtain ds where
    m: "map ((!) v) (nargsort_desc srt v) = ds @ replicate (length (filter (\<lambda>x. \<not> cell_notna x) v)) NA"
    and s: "sorted_wrt (\<ge>) ds" and ms: "mset ds = mset (filter cell_notna v)" by blast
  have "get_column (take_rows (take n (nargsort_desc srt v)) data) c
      = Inr (take n (ds @ replicate (length (filter (\<lambda>x. \<not> cell_notna x) v)) NA))"
  proof -
    have "map ((!) v) (take n (nargsort_desc srt v)) = take n (map ((!) v) (nargsort_desc srt v))"
      by (simp add: take_map)
    with get_column_take_rows [OF assms(4)] m show ?thesis by simp
  qed
  with top_table_sorted_eq [OF assms(2-5)] s ms show ?thesis by blast
qed

section \<open>Properties of the top-N table\<close>

lemma rank_metric_df_rank: "rank_metric (resolve_columns df_rank) = Some ''Total''"
  by (simp add: rank_metric_def py_or_def df_rank_def find_col_eval)

lemma df_rank_facts:
  "wf_frame df_rank" "get_column df_rank ''Total'' = Inr [Num 10, NA, Num 30, Num 20]"
  "comparable [Num 10, NA, Num 30, Num 20]"
  by (simp_all add: df_rank_def wf_frame_def get_column_def comparable_def)

lemma top_table_df_rank:
  "top_table (\<lambda>key xs. sort_key key xs) (resolve_columns df_rank) 2 df_rank
   = Inr \<lparr>nrows = 2, cols = [(''Entidad'', [Txt ''C'', Txt ''D'']), (''Total'', [Num 30, Num 20])]\<rparr>"
  using top_table_sorted_eq [OF rank_metric_df_rank _ df_rank_facts(2,3)]
  by (simp add: nargsort_desc_def take_rows_def df_rank_def)

text \<open>
  C8. With a resolved, comparable ranking column and any argsort, the top-N table has
  min(N, rows) rows, all the columns, and its rows are whole, distinct rows of the
  filtered view.
\<close>

theorem top_table_rows:
  assumes "wf_frame data" "valid_argsort srt" "rank_metric r = Some c" "c \<noteq> []"
    "get_column data c = Inr v" "comparable v"
  shows "\<exists>t idx. top_table srt r n data = Inr t \<and> wf_frame t \<and> nrows t = min n (nrows data)
    \<and> col_names t = col_names data \<and> distinct idx \<and> set idx \<subseteq> {..<nrows data}
    \<and> map snd (cols t) = map (\<lambda>vs. map ((!) vs) idx) (map snd (cols data))"
proof -
  let ?idx = "take n (nargsort_desc srt v)"
  have lv: "length v = nrows data" using get_column_length [OF assms(1,5)] .
  have "distinct ?idx" by (rule distinct_take) (rule nargsort_perm(1) [OF assms(2)])
  moreover have "set ?idx \<subseteq> {..<nrows data}"
  proof -
    have "set ?idx \<subseteq> set (nargsort_desc srt v)" by (rule set_take_subset)
    also have "\<dots> = {..<length v}" by (rule nargsort_perm(2) [OF assms(2)])
    finally show ?thesis by (simp only: lv)
  qed
  moreover have "nrows (take_rows ?idx data) = min n (nrows data)"
  proof -
    have "nrows (take_rows ?idx data) = length ?idx" by (simp add: take_rows_def)
    also have "\<dots> = min n (nrows data)" by (simp add: nargsort_perm(3) [OF assms(2)] lv)
    finally show ?thesis .
  qed
  moreover have "map snd (cols (take_rows ?idx data)) = map (\<lambda>vs. map ((!) vs) ?idx) (map snd (cols data))"
    by (simp add: take_rows_def case_prod_beta comp_def)
  moreover note top_table_sorted_eq [OF assms(3-6), of srt n] wf_take_rows [of ?idx data]
    col_names_take_rows [of ?idx data]
  ultimately show ?thesis by (intro exI [of _ "take_rows ?idx data"] exI [of _ ?idx] conjI)
qed

theorem top_table_rows_witness:
  "top_table (\<lambda>key xs. sort_key key xs) (resolve_columns df_rank) 2 df_rank
   = Inr \<lparr>nrows = 2, cols = [(''Entidad'', [Txt ''C'', Txt ''D'']), (''Total'', [Num 30, Num 20])]\<rparr>
   \<and> map snd (cols \<lparr>nrows = 2, cols = [(''Entidad'', [Txt ''C'', Txt ''D'']), (''Total'', [Num 30, Num 20])]\<rparr>)
     = map (\<lambda>vs. map ((!) vs) [2, 3]) (map snd (cols df_rank))"
proof -
  from top_table_rows [OF df_rank_facts(1) valid_argsort_sort_key rank_metric_df_rank _
      df_rank_facts(2,3), of 2]
  have "\<exists>t idx. top_table (\<lambda>key xs. sort_key key xs) (resolve_columns df_rank) 2 df_rank = Inr t
    \<and> nrows t = min 2 (nrows df_rank)" by auto
  then show ?thesis using top_table_df_rank by (simp add: df_rank_def)
qed

text \<open>
  C7. The ranking column of the top-N table is the first N cells of the non-missing
  values in descending order followed by the missing ones.
\<close>

theorem top_table_ranked:
  assumes "valid_argsort srt" "rank_metric r = Some c" "c \<noteq> []" "get_column data c = Inr v" "comparable v"
  shows "\<exists>t ds. top_table srt r n data = Inr t
    \<and> get_column t c = Inr (take n (ds @ replicate (length (filter (\<lambda>x. \<not> cell_notna x) v)) NA))
    \<and> sorted_wrt (\<ge>) ds \<and> mset ds = mset (filter cell_notna v)"
  using top_table_column [OF assms] by blast

theorem top_table_ranked_witness:
  "\<exists>ds. get_column \<lparr>nrows = 2, cols = [(''Entidad'', [Txt ''C'', Txt ''D'']), (''Total'', [Num 30, Num 20])]\<rparr> ''Total''
       = Inr (take 2 (ds @ replicate 1 NA))
     \<and> sorted_wrt (\<ge>) ds \<and> mset ds = mset [Num 10, Num 30, Num 20]"
proof -
  from top_table_ranked [OF valid_argsort_sort_key rank_metric_df_rank _ df_rank_facts(2,3), of 2]
  obtain t ds where a: "top_table (\<lambda>key xs. sort_key key xs) (resolve_columns df_rank) 2 df_rank = Inr t"
    and b: "get_column t ''Total'' = Inr (take 2 (ds @ replicate (length (filter (\<lambda>x. \<not> cell_notna x)
      [Num 10, NA, Num 30, Num 20])) NA))"
    and c: "sorted_wrt (\<ge>) ds" and d: "mset ds = mset (filter cell_notna [Num 10, NA, Num 30, Num 20])"
    by blast
  from a top_table_df_rank have "t = \<lparr>nrows = 2, cols = [(''Entidad'', [Txt ''C'', Txt ''D'']), (''Total'', [Num 30, Num 20])]\<rparr>"
    by simp
  with b c d show ?thesis by (intro exI [of _ ds] conjI) simp_all
qed

text \<open>
  C25. The table shows the largest values: every non-missing value of the ranking column
  left out of the table is at most every non-missing value shown.
\<close>

theorem top_table_greatest:
  assumes "valid_argsort srt" "rank_metric r = Some c" "c \<noteq> []" "get_column data c = Inr v" "comparable v"
  shows "\<exists>t w. top_table srt r n data = Inr t \<and> get_column t c = Inr w
    \<and> (\<forall>x\<in>set (filter cell_notna w). \<forall>y\<in>#mset (filter cell_notna v) - mset (filter cell_notna w). y \<le> x)"
proof -
  from top_table_column [OF assms] obtain ds where
    t: "top_table srt r n data = Inr (take_rows (take n (nargsort_desc srt v)) data)"
    and g: "get_column (take_rows (take n (nargsort_desc srt v)) data) c
        = Inr (take n (ds @ replicate (length (filter (\<lambda>x. \<not> cell_notna x) v)) NA))"
    and s: "sorted_wrt (\<ge>) ds" and ms: "mset ds = mset (filter cell_notna v)" by blast
  have "\<forall>x\<in>set ds. cell_notna x" using mset_eq_setD [OF ms] by simp
  then have f: "filter cell_notna (take n (ds @ replicate (length (filter (\<lambda>x. \<not> cell_notna x) v)) NA)) = take n ds"
    by (rule filter_notna_take_append)
  have "mset (filter cell_notna v) - mset (take n ds) = mset (drop n ds)"
    using ms append_take_drop_id [of n ds] by (metis add_diff_cancel_left' mset_append)
  with s f have "\<forall>x\<in>set (filter cell_notna (take n (ds @ replicate (length (filter (\<lambda>x. \<not> cell_notna x) v)) NA))).
      \<forall>y\<in>#mset (filter cell_notna v) - mset (filter cell_notna (take n (ds @ replicate (length (filter (\<lambda>x. \<not> cell_notna x) v)) NA))). y \<le> x"
    by (auto intro: sorted_wrt_take_drop)
  with t g show ?thesis by blast
qed

theorem top_table_greatest_witness:
  "top_table (\<lambda>key xs. sort_key key xs) (resolve_columns df_rank) 2 df_rank
     = Inr \<lparr>nrows = 2, cols = [(''Entidad'', [Txt ''C'', Txt ''D'']), (''Total'', [Num 30, Num 20])]\<rparr>
   \<and> Num 10 \<le> Num 20 \<and> Num 10 \<le> Num 30"
proof -
  from top_table_greatest [OF valid_argsort_sort_key rank_metric_df_rank _ df_rank_facts(2,3), of 2]
  obtain t w where t: "top_table (\<lambda>key xs. sort_key key xs) (resolve_columns df_rank) 2 df_rank = Inr t"
    and g: "get_column t ''Total'' = Inr w"
    and a: "\<forall>x\<in>set (filter cell_notna w). \<forall>y\<in>#mset (filter cell_notna [Num 10, NA, Num 30, Num 20]) - mset (filter cell_notna w). y \<le> x"
    by auto
  from t top_table_df_rank
  have "t = \<lparr>nrows = 2, cols = [(''Entidad'', [Txt ''C'', Txt ''D'']), (''Total'', [Num 30, Num 20])]\<rparr>" by simp
  with g have "w = [Num 30, Num 20]" by (simp add: get_column_def)
  with a have "Num 10 \<le> Num 20 \<and> Num 10 \<le> Num 30" by simp
  with t top_table_df_rank show ?thesis by simp
qed

text \<open>
  With no ranking column resolved the table is the first N rows in file order.
\<close>

lemma top_table_unranked:
  "\<not> py_truthy (rank_metric r) \<Longrightarrow> top_table srt r n data = Inr (py_head n data)"
  by (cases "rank_metric r") (simp_all add: top_table_def)

text \<open>
  C29. A ranking column that mixes numbers and strings makes the tab raise
  \<open>TypeError\<close>: nothing recovers it (line 106 has no handler).
\<close>

theorem top_table_type_error:
  "rank_metric r = Some c \<Longrightarrow> c \<noteq> [] \<Longrightarrow> get_column data c = Inr v \<Longrightarrow> \<not> comparable v \<Longrightarrow>
   top_table srt r n data = Inl TypeError"
  by (simp add: top_table_def sort_values_desc_def)

theorem top_table_type_error_witness:
  "top_table (\<lambda>key xs. sort_key key xs) (resolve_columns df_mixed) 15 df_mixed = Inl TypeError"
proof (rule top_table_type_error)
  show "rank_metric (resolve_columns df_mixed) = Some ''Total''"
    by (simp add: rank_metric_def py_or_def df_mixed_def find_col_eval)
  show "get_column df_mixed ''Total'' = Inr [Num 10, Txt ''n/d'']" by (simp add: df_mixed_def get_column_def)
qed (simp_all add: comparable_def)


text \<open>
  With a stable argsort, rows with equal values keep their original order.
\<close>

lemma stable_ties:
  "filter (\<lambda>i. v ! i = x) (nargsort_desc (\<lambda>key xs. sort_key key xs) v) = filter (\<lambda>i. v ! i = x) [0..<length v]"
proof -
  let ?F = "filter (\<lambda>i. cell_notna (v ! i)) [0..<length v]"
  let ?G = "filter (\<lambda>i. \<not> cell_notna (v ! i)) [0..<length v]"
  have n: "nargsort_desc (\<lambda>key xs. sort_key key xs) v = sort_desc ((!) v) ?F @ ?G"
    by (simp add: nargsort_desc_def Let_def rev_sort_key_rev)
  have s: "filter (\<lambda>i. v ! i = x) (sort_desc ((!) v) ?F) = filter (\<lambda>i. v ! i = x) ?F"
    by (rule sort_desc_stable)
  show ?thesis
  proof (cases "cell_notna x")
    case True
    then have "filter (\<lambda>i. v ! i = x) ?G = []" by (auto simp: filter_empty_conv)
    moreover have "filter (\<lambda>i. v ! i = x) ?F = filter (\<lambda>i. v ! i = x) [0..<length v]"
      using True by (auto simp: filter_filter intro: filter_cong)
    ultimately show ?thesis using n s by simp
  next
    case False
    then have "filter (\<lambda>i. v ! i = x) ?F = []" by (auto simp: filter_empty_conv)
    moreover have "filter (\<lambda>i. v ! i = x) ?G = filter (\<lambda>i. v ! i = x) [0..<length v]"
      using False by (auto simp: filter_filter intro: filter_cong)
    ultimately show ?thesis using n s by simp
  qed
qed


end
