(* ===== verification/Tabs.thy ===== *)
theory Tabs
  imports Ranking
begin

text \<open>
  The data selection of the other views of \<open>src/app.py\<close>: the CSV export of the sidebar
  (lines 73--76), the entity column of the charts (line 109), the PIA/PIM comparison tab
  (lines 122--141: the entity picker, the picked rows, the long table of \<open>melt\<close> and the
  table of derived columns), the base of the scatter tab (line 148) and the exploratory
  table (lines 178--189) with its \<open>try\<close>/\<open>except\<close> fallback. The Altair and Streamlit
  calls that draw these tables are not modelled.
\<close>

section \<open>pandas operations\<close>

text \<open>\<open>Series.unique()\<close>: the distinct values in order of first occurrence.\<close>

fun py_unique_acc :: "'a list \<Rightarrow> 'a list \<Rightarrow> 'a list" where
  "py_unique_acc seen [] = []"
| "py_unique_acc seen (x # xs) =
     (if x \<in> set seen then py_unique_acc seen xs else x # py_unique_acc (x # seen) xs)"

definition py_unique :: "'a list \<Rightarrow> 'a list" where
  "py_unique xs = py_unique_acc [] xs"

text \<open>\<open>df[cs]\<close> for a list of labels: every column with each label, in the order of
  \<open>cs\<close>; a missing label raises \<open>KeyError\<close>.\<close>

definition select_cols :: "string list \<Rightarrow> frame \<Rightarrow> frame result" where
  "select_cols cs df =
     (case filter (\<lambda>c. c \<notin> set (col_names df)) cs of
        [] \<Rightarrow> Inr \<lparr>nrows = nrows df, cols = concat (map (\<lambda>c. filter (\<lambda>p. fst p = c) (cols df)) cs)\<rparr>
      | c # _ \<Rightarrow> Inl (KeyError c))"

text \<open>The ascending order of \<open>sort_values(col)\<close>: the argsort of the non-missing
  positions, then the missing ones.\<close>

definition nargsort_asc :: "((nat \<Rightarrow> cell) \<Rightarrow> nat list \<Rightarrow> nat list) \<Rightarrow> cell list \<Rightarrow> nat list" where
  "nargsort_asc srt v =
     (let idx = [0..<length v]
      in srt ((!) v) (filter (\<lambda>i. cell_notna (v ! i)) idx) @ filter (\<lambda>i. \<not> cell_notna (v ! i)) idx)"

definition sort_values_asc :: "((nat \<Rightarrow> cell) \<Rightarrow> nat list \<Rightarrow> nat list) \<Rightarrow> frame \<Rightarrow> string \<Rightarrow> frame result" where
  "sort_values_asc srt df c =
     err_bind (get_column df c) (\<lambda>v.
       if comparable v then Inr (take_rows (nargsort_asc srt v) df) else Inl TypeError)"

section \<open>Sidebar export\<close>

text \<open>Lines 74--76: the table the download button encodes.\<close>

definition export_table :: "(real \<Rightarrow> string) \<Rightarrow> string option \<Rightarrow> string \<Rightarrow> frame \<Rightarrow> frame result" where
  "export_table num_str c_tipo sel df_work =
     (case c_tipo of
        Some t \<Rightarrow>
          if py_truthy c_tipo \<and> sel \<noteq> TODOS
          then err_bind (get_column df_work t) (\<lambda>v.
                 Inr (filter_rows (map (\<lambda>c. py_str_cell num_str c = sel) v) df_work))
          else Inr df_work
      | None \<Rightarrow> Inr df_work)"

section \<open>Entity column and comparison tab\<close>

text \<open>Line 109: \<open>col_entidad\<close>, else \<open>col_orden\<close>, else the first column of the top-N
  table, which raises \<open>IndexError\<close> when the table has no column.\<close>

definition ent_name :: "resolution \<Rightarrow> frame \<Rightarrow> string result" where
  "ent_name r tmp =
     (let e = py_or (col_entidad r) (col_orden r)
      in case e of
           Some s \<Rightarrow> if py_truthy e then Inr s
                     else (case col_names tmp of [] \<Rightarrow> Inl IndexError | c # _ \<Rightarrow> Inr c)
         | None \<Rightarrow> (case col_names tmp of [] \<Rightarrow> Inl IndexError | c # _ \<Rightarrow> Inr c))"

text \<open>Line 123: the options of the entity picker.\<close>

definition sample_list :: "(real \<Rightarrow> string) \<Rightarrow> frame \<Rightarrow> string \<Rightarrow> string list result" where
  "sample_list num_str data e =
     err_bind (get_column data e) (\<lambda>v.
       Inr (take 2000 (py_unique (map (py_str_cell num_str) (filter cell_notna v)))))"

text \<open>What \<open>st.multiselect(..., max_selections=15)\<close> can return.\<close>

definition valid_pick :: "string list \<Rightarrow> string list \<Rightarrow> bool" where
  "valid_pick opts pick \<longleftrightarrow> distinct pick \<and> set pick \<subseteq> set opts \<and> length pick \<le> 15"

text \<open>Lines 125--127: the picked entities' rows, or all rows when nothing is picked.\<close>

definition cmp_rows :: "(real \<Rightarrow> string) \<Rightarrow> string list \<Rightarrow> string \<Rightarrow> frame \<Rightarrow> frame result" where
  "cmp_rows num_str pick e data =
     (if pick \<noteq> []
      then err_bind (get_column data e) (\<lambda>v.
             Inr (filter_rows (map (\<lambda>c. py_str_cell num_str c \<in> set pick) v) data))
      else Inr data)"

text \<open>Line 128: \<open>df_cmp[[e, a, m]].melt(id_vars=[e], var_name="Tipo",
  value_name="Monto")\<close>: one row per row and budget column, all PIA rows first.\<close>

definition melt_budget :: "string \<Rightarrow> string \<Rightarrow> string \<Rightarrow> frame \<Rightarrow> frame result" where
  "melt_budget e a m df =
     err_bind (get_column df e) (\<lambda>ev.
     err_bind (get_column df a) (\<lambda>av.
     err_bind (get_column df m) (\<lambda>mv.
       Inr \<lparr>nrows = 2 * nrows df,
            cols = [(e, ev @ ev), (''Tipo'', replicate (length av) (Txt a) @ replicate (length mv) (Txt m)),
                    (''Monto'', av @ mv)]\<rparr>)))"

text \<open>Lines 139--141: the derived-columns table under the comparison chart.\<close>

definition show_cols :: "resolution \<Rightarrow> string \<Rightarrow> frame \<Rightarrow> string list" where
  "show_cols r e data =
     List.map_filter (\<lambda>c. case c of Some s \<Rightarrow> if s \<in> set (col_names data) then Some s else None | None \<Rightarrow> None)
       [Some e, col_pia r, col_pim r, Some growth_name, Some percap_name]"

section \<open>Scatter tab\<close>

text \<open>Line 148: \<open>data.dropna(subset=[col_avance, col_pim])\<close>.\<close>

definition scatter_base :: "string \<Rightarrow> string \<Rightarrow> frame \<Rightarrow> frame result" where
  "scatter_base av m data =
     err_bind (get_column data av) (\<lambda>x.
     err_bind (get_column data m) (\<lambda>y.
       Inr (filter_rows (map2 (\<lambda>p q. cell_notna p \<and> cell_notna q) x y) data)))"

section \<open>Exploratory table\<close>

text \<open>Lines 178--184: the candidates kept in order, without repeats, when resolved and
  present in the view.\<close>

fun add_candidates :: "string list \<Rightarrow> string list \<Rightarrow> string option list \<Rightarrow> string list" where
  "add_candidates names acc [] = acc"
| "add_candidates names acc (c # cs) =
     add_candidates names
       (case c of
          Some s \<Rightarrow> if py_truthy c \<and> s \<in> set names \<and> s \<notin> set acc then acc @ [s] else acc
        | None \<Rightarrow> acc) cs"

definition cols_table :: "resolution \<Rightarrow> string \<Rightarrow> frame \<Rightarrow> string list" where
  "cols_table r e data =
     (let ct = add_candidates (col_names data) []
                 [Some e, col_orden r, col_total r, col_poblacion r, Some percap_name, Some growth_name]
      in if ct = [] then take 8 (col_names data) else ct)"

text \<open>Lines 185--187: the sort column and the sorted table inside the \<open>try\<close>.\<close>

definition sort_col :: "resolution \<Rightarrow> string list \<Rightarrow> string result" where
  "sort_col r ct =
     (case col_orden r of
        Some od \<Rightarrow> if od \<in> set ct then Inr od else (case ct of [] \<Rightarrow> Inl IndexError | c # _ \<Rightarrow> Inr c)
      | None \<Rightarrow> (case ct of [] \<Rightarrow> Inl IndexError | c # _ \<Rightarrow> Inr c))"

definition explore_sorted :: "((nat \<Rightarrow> cell) \<Rightarrow> nat list \<Rightarrow> nat list) \<Rightarrow> resolution \<Rightarrow> string list \<Rightarrow> frame \<Rightarrow> frame result" where
  "explore_sorted srt r ct data =
     err_bind (sort_col r ct) (\<lambda>sc.
     err_bind (select_cols ct data) (\<lambda>sel.
     err_bind (sort_values_asc srt sel sc) (\<lambda>t. Inr (py_head 1000 t))))"

text \<open>Lines 185--189: any exception of the \<open>try\<close> falls back to the unsorted table.\<close>

definition explore_table :: "((nat \<Rightarrow> cell) \<Rightarrow> nat list \<Rightarrow> nat list) \<Rightarrow> resolution \<Rightarrow> string \<Rightarrow> frame \<Rightarrow> frame result" where
  "explore_table srt r e data =
     (let ct = cols_table r e data
      in case explore_sorted srt r ct data of
           Inr t \<Rightarrow> Inr t
         | Inl exc \<Rightarrow> err_bind (select_cols ct data) (\<lambda>sel. Inr (py_head 1000 sel)))"

subsection \<open>Example tables\<close>

definition df_explore :: frame where
  "df_explore = \<lparr>nrows = 3, cols = [(''Entidad'', [Txt ''A'', Txt ''B'', Txt ''C'']),
     (''Orden presupuestal'', [Num 3, NA, Num 1])]\<rparr>"

definition df_explore_mixed :: frame where
  "df_explore_mixed = \<lparr>nrows = 2, cols = [(''Entidad'', [Txt ''A'', Txt ''B'']),
     (''Orden presupuestal'', [Num 3, Txt ''s/o''])]\<rparr>"

definition df_cmp :: frame where
  "df_cmp = \<lparr>nrows = 2, cols = [(''Entidad'', [Txt ''A'', Txt ''B'']), (''PIA'', [Num 100, Num 50]),
     (''PIM'', [Num 150, Num 40])]\<rparr>"

definition df_scatter :: frame where
  "df_scatter = \<lparr>nrows = 3, cols = [(''Avance'', [Num 50, NA, Num 80]), (''PIM'', [Num 10, Num 20, NA])]\<rparr>"

section \<open>Lemmas\<close>

lemma remdups_snoc: "remdups (ys @ [x]) = remdups (filter (\<lambda>y. y \<noteq> x) ys) @ [x]"
  by (induction ys) auto

lemma py_unique_acc_eq:
  "py_unique_acc seen xs = rev (remdups (rev (filter (\<lambda>x. x \<notin> set seen) xs)))"
proof (induction xs arbitrary: seen)
  case Nil
  then show ?case by simp
next
  case (Cons x xs)
  show ?case
  proof (cases "x \<in> set seen")
    case True
    with Cons.IH show ?thesis by simp
  next
    case False
    have e: "(\<lambda>y. y \<notin> set (x # seen)) = (\<lambda>y. y \<notin> set seen \<and> y \<noteq> x)" by auto
    from False Cons.IH [of "x # seen", unfolded e] show ?thesis
      by (simp add: remdups_snoc rev_filter filter_filter)
  qed
qed

lemma set_add_candidates:
  "set (add_candidates names acc cs) \<subseteq> set acc \<union> set names"
proof (induction cs arbitrary: acc)
  case Nil
  then show ?case by simp
next
  case (Cons c cs)
  let ?acc = "case c of Some s \<Rightarrow> if py_truthy c \<and> s \<in> set names \<and> s \<notin> set acc then acc @ [s] else acc
    | None \<Rightarrow> acc"
  have "set ?acc \<subseteq> set acc \<union> set names" by (auto split: option.splits)
  with Cons.IH [of ?acc] show ?case by auto
qed

lemma distinct_add_candidates:
  "distinct acc \<Longrightarrow> distinct (add_candidates names acc cs)"
  by (induction cs arbitrary: acc) (simp_all split: option.splits)

lemma cols_table_subset: "set (cols_table r e data) \<subseteq> set (col_names data)"
proof -
  have "set (add_candidates (col_names data) [] cs) \<subseteq> set (col_names data)" for cs
    using set_add_candidates [of "col_names data" "[]" cs] by simp
  then show ?thesis
    unfolding cols_table_def Let_def by (simp only: split: if_split) (simp add: set_take_subset)
qed

lemma select_cols_Inr:
  "set cs \<subseteq> set (col_names df) \<Longrightarrow>
   select_cols cs df = Inr \<lparr>nrows = nrows df, cols = concat (map (\<lambda>c. filter (\<lambda>p. fst p = c) (cols df)) cs)\<rparr>"
proof -
  assume "set cs \<subseteq> set (col_names df)"
  then have "filter (\<lambda>c. c \<notin> set (col_names df)) cs = []" by (auto simp: filter_empty_conv)
  then show ?thesis by (simp add: select_cols_def)
qed

lemma export_table_data_view: "export_table = data_view"
  by (intro ext) (simp add: export_table_def data_view_def)

lemma sample_list_distinct:
  "sample_list num_str data e = Inr opts \<Longrightarrow> distinct opts \<and> length opts \<le> 2000"
  by (auto simp: sample_list_def err_bind_eq_Inr py_unique_def py_unique_acc_eq intro: distinct_take)

lemma nargsort_asc_values:
  assumes "valid_argsort srt"
  shows "\<exists>ds. map ((!) v) (nargsort_asc srt v) = ds @ replicate (length (filter (\<lambda>x. \<not> cell_notna x) v)) NA
    \<and> sorted ds \<and> mset ds = mset (filter cell_notna v)"
proof -
  let ?F = "filter (\<lambda>i. cell_notna (v ! i)) [0..<length v]"
  let ?ds = "map ((!) v) (srt ((!) v) ?F)"
  have s: "sorted ?ds" by (rule valid_argsortD(2) [OF assms])
  have "mset ?ds = mset (map ((!) v) ?F)"
    by (simp only: mset_map valid_argsortD(1) [OF assms])
  also have "\<dots> = mset (filter cell_notna v)" by (simp only: map_nth_filter_upt)
  finally have m: "mset ?ds = mset (filter cell_notna v)" .
  have "map ((!) v) (filter (\<lambda>i. \<not> cell_notna (v ! i)) [0..<length v]) = filter (\<lambda>x. \<not> cell_notna x) v"
    by (rule map_nth_filter_upt)
  then have "map ((!) v) (nargsort_asc srt v) = ?ds @ replicate (length (filter (\<lambda>x. \<not> cell_notna x) v)) NA"
    by (simp add: nargsort_asc_def Let_def filter_na_replicate [symmetric])
  with s m show ?thesis by blast
qed

lemma concat_map_filter_label:
  "concat (map (\<lambda>c. filter (\<lambda>p. fst p = sc) (filter (\<lambda>p. fst p = c) xs)) cs)
   = concat (map (\<lambda>c. filter (\<lambda>p. fst p = sc) xs) (filter (\<lambda>c. c = sc) cs))"
  by (induction cs) (auto simp: filter_filter intro: filter_False)

lemma get_column_select_cols:
  assumes "get_column df sc = Inr v" "filter (\<lambda>c. c = sc) cs = [sc]" "set cs \<subseteq> set (col_names df)"
  shows "\<exists>sel. select_cols cs df = Inr sel \<and> get_column sel sc = Inr v \<and> nrows sel = nrows df"
proof -
  have f: "filter (\<lambda>p. fst p = sc) (cols df) = [(sc, v)]" using assms(1) by (simp add: get_column_Inr_iff)
  let ?sel = "\<lparr>nrows = nrows df, cols = concat (map (\<lambda>c. filter (\<lambda>p. fst p = c) (cols df)) cs)\<rparr>"
  have "filter (\<lambda>p. fst p = sc) (cols ?sel)
      = concat (map (\<lambda>c. filter (\<lambda>p. fst p = sc) (filter (\<lambda>p. fst p = c) (cols df))) cs)"
    by (simp only: frame.select_convs(2) filter_concat map_map comp_def)
  also have "\<dots> = concat (map (\<lambda>c. filter (\<lambda>p. fst p = sc) (cols df)) (filter (\<lambda>c. c = sc) cs))"
    by (rule concat_map_filter_label)
  also have "\<dots> = [(sc, v)]" using assms(2) f by simp
  finally have "filter (\<lambda>p. fst p = sc) (cols ?sel) = [(sc, v)]" .
  then have "get_column ?sel sc = Inr v" by (simp add: get_column_Inr_iff)
  with select_cols_Inr [OF assms(3)] show ?thesis by auto
qed

lemma sort_col_in: "sort_col r ct = Inr sc \<Longrightarrow> sc \<in> set ct"
  by (auto simp: sort_col_def split: option.splits if_splits list.splits)

lemma length_filter_take_le: "length (filter P (take n xs)) \<le> length (filter P xs)"
proof -
  have "filter P xs = filter P (take n xs) @ filter P (drop n xs)"
    by (simp only: filter_append [symmetric] append_take_drop_id)
  then show ?thesis by (metis length_append le_add1)
qed

lemma cols_table_once:
  assumes "get_column data sc = Inr v"
  shows "length (filter (\<lambda>c. c = sc) (cols_table r e data)) \<le> 1"
proof -
  have "length (filter (\<lambda>c. c = sc) (col_names data)) = 1"
    using assms by (simp add: get_column_Inr_iff col_names_def filter_map comp_def)
  then have t: "length (filter (\<lambda>c. c = sc) (take 8 (col_names data))) \<le> 1"
    using length_filter_take_le [of "\<lambda>c. c = sc" 8 "col_names data"] by simp
  have "distinct (add_candidates (col_names data) [] cs)" for cs
    by (rule distinct_add_candidates) simp
  then have "length (filter (\<lambda>c. c = sc) (add_candidates (col_names data) [] cs)) \<le> 1" for cs
    by (simp add: distinct_length_filter card_le_Suc0_iff_eq)
  with t show ?thesis unfolding cols_table_def Let_def by (simp only: split: if_split) simp
qed

lemma filter_eq_single: "x \<in> set xs \<Longrightarrow> length (filter (\<lambda>c. c = x) xs) \<le> 1 \<Longrightarrow> filter (\<lambda>c. c = x) xs = [x]"
proof -
  assume "x \<in> set xs" "length (filter (\<lambda>c. c = x) xs) \<le> 1"
  moreover have "\<forall>y\<in>set (filter (\<lambda>c. c = x) xs). y = x" by simp
  moreover have "filter (\<lambda>c. c = x) xs \<noteq> []" using \<open>x \<in> set xs\<close> by (auto simp: filter_empty_conv)
  ultimately show ?thesis by (cases "filter (\<lambda>c. c = x) xs") (auto simp: length_Suc_conv)
qed

lemma map2_nth_filter:
  "length x = n \<Longrightarrow> length y = n \<Longrightarrow>
   filter (\<lambda>i. (case_prod f) (zip x y ! i)) [0..<n] = filter (\<lambda>i. f (x ! i) (y ! i)) [0..<n]"
  by (auto intro: filter_cong)

lemma cols_table_df_explore:
  "cols_table (resolve_columns df_explore) ''Entidad'' df_explore = [''Entidad'', ''Orden presupuestal'']"
  by (simp add: cols_table_def df_explore_def find_col_eval col_names_def percap_name_def growth_name_def)

lemma sort_col_df_explore:
  "sort_col (resolve_columns df_explore) [''Entidad'', ''Orden presupuestal''] = Inr ''Orden presupuestal''"
  by (simp add: sort_col_def df_explore_def find_col_eval)

lemma cols_table_df_explore_mixed:
  "cols_table (resolve_columns df_explore_mixed) ''Entidad'' df_explore_mixed = [''Entidad'', ''Orden presupuestal'']"
  by (simp add: cols_table_def df_explore_mixed_def find_col_eval col_names_def percap_name_def growth_name_def)

section \<open>Properties of the views\<close>

text \<open>
  C33. The exploratory table never fails: whatever the view and the resolution, the
  \<open>try\<close>/\<open>except\<close> of lines 185--189 yields a table (spec section 7c).
\<close>

theorem explore_never_fails: "\<exists>t. explore_table srt r e data = Inr t"
  using select_cols_Inr [OF cols_table_subset [of r e data]]
  by (auto simp: explore_table_def Let_def split: sum.split)

text \<open>
  C34. When its sort column holds values of one type, the exploratory table is sorted
  ascending on it, missing values last, and keeps at most 1000 rows.
\<close>

theorem explore_sorted_table:
  assumes "valid_argsort srt" "sort_col r (cols_table r e data) = Inr sc" "get_column data sc = Inr v"
    "comparable v"
  shows "\<exists>t ds. explore_table srt r e data = Inr t
    \<and> get_column t sc = Inr (take 1000 (ds @ replicate (length (filter (\<lambda>x. \<not> cell_notna x) v)) NA))
    \<and> sorted ds \<and> mset ds = mset (filter cell_notna v)"
proof -
  let ?ct = "cols_table r e data"
  have "filter (\<lambda>c. c = sc) ?ct = [sc]"
    using filter_eq_single [OF sort_col_in [OF assms(2)] cols_table_once [OF assms(3)]] .
  from get_column_select_cols [OF assms(3) this cols_table_subset] obtain sel
    where sel: "select_cols ?ct data = Inr sel" and g: "get_column sel sc = Inr v" by blast
  from nargsort_asc_values [OF assms(1), of v] obtain ds where
    m: "map ((!) v) (nargsort_asc srt v) = ds @ replicate (length (filter (\<lambda>x. \<not> cell_notna x) v)) NA"
    and s: "sorted ds" and ms: "mset ds = mset (filter cell_notna v)" by blast
  let ?t = "py_head 1000 (take_rows (nargsort_asc srt v) sel)"
  have "explore_sorted srt r ?ct data = Inr ?t"
    using assms(2,4) sel g by (simp add: explore_sorted_def sort_values_asc_def)
  then have "explore_table srt r e data = Inr ?t" by (simp add: explore_table_def)
  moreover have "get_column ?t sc = Inr (take 1000 (ds @ replicate (length (filter (\<lambda>x. \<not> cell_notna x) v)) NA))"
    using get_column_py_head [OF get_column_take_rows [OF g]] m by simp
  ultimately show ?thesis using s ms by blast
qed

theorem explore_sorted_table_witness:
  "\<exists>t ds. explore_table (\<lambda>key xs. sort_key key xs) (resolve_columns df_explore) ''Entidad'' df_explore = Inr t
    \<and> get_column t ''Orden presupuestal'' = Inr (take 1000 (ds @ [NA]))
    \<and> sorted ds \<and> mset ds = mset [Num 3, Num 1]"
proof -
  have g: "get_column df_explore ''Orden presupuestal'' = Inr [Num 3, NA, Num 1]"
    by (simp add: df_explore_def get_column_def)
  have c: "comparable [Num 3, NA, Num 1]" by (simp add: comparable_def)
  from explore_sorted_table [OF valid_argsort_sort_key
      sort_col_df_explore [folded cols_table_df_explore] g c]
  show ?thesis by simp
qed

text \<open>
  C35. When the sort raises (numbers and strings in the sort column), the exploratory
  table falls back to the first 1000 rows of the selected columns, unsorted.
\<close>

theorem explore_fallback:
  assumes "sort_col r (cols_table r e data) = Inr sc" "get_column data sc = Inr v" "\<not> comparable v"
  shows "\<exists>sel. select_cols (cols_table r e data) data = Inr sel
    \<and> explore_table srt r e data = Inr (py_head 1000 sel)"
proof -
  let ?ct = "cols_table r e data"
  have "filter (\<lambda>c. c = sc) ?ct = [sc]"
    using filter_eq_single [OF sort_col_in [OF assms(1)] cols_table_once [OF assms(2)]] .
  from get_column_select_cols [OF assms(2) this cols_table_subset] obtain sel
    where sel: "select_cols ?ct data = Inr sel" and g: "get_column sel sc = Inr v" by blast
  have "explore_sorted srt r ?ct data = Inl TypeError"
    using assms(1,3) sel g by (simp add: explore_sorted_def sort_values_asc_def)
  then show ?thesis using sel by (simp add: explore_table_def)
qed

theorem explore_fallback_witness:
  "explore_table (\<lambda>key xs. sort_key key xs) (resolve_columns df_explore_mixed) ''Entidad'' df_explore_mixed
   = Inr df_explore_mixed"
proof -
  have s: "sort_col (resolve_columns df_explore_mixed) (cols_table (resolve_columns df_explore_mixed) ''Entidad'' df_explore_mixed)
      = Inr ''Orden presupuestal''"
    by (simp only: cols_table_df_explore_mixed) (simp add: sort_col_def df_explore_mixed_def find_col_eval)
  have g: "get_column df_explore_mixed ''Orden presupuestal'' = Inr [Num 3, Txt ''s/o'']"
    by (simp add: df_explore_mixed_def get_column_def)
  have c: "\<not> comparable [Num 3, Txt ''s/o'']" by (simp add: comparable_def)
  from explore_fallback [OF s g c, of "\<lambda>key xs. sort_key key xs"] obtain sel where
    a: "select_cols (cols_table (resolve_columns df_explore_mixed) ''Entidad'' df_explore_mixed) df_explore_mixed = Inr sel"
    and b: "explore_table (\<lambda>key xs. sort_key key xs) (resolve_columns df_explore_mixed) ''Entidad'' df_explore_mixed
      = Inr (py_head 1000 sel)" by blast
  from a have "sel = df_explore_mixed" unfolding cols_table_df_explore_mixed
    by (simp add: select_cols_def df_explore_mixed_def col_names_def)
  with b show ?thesis by (simp add: py_head_def df_explore_mixed_def)
qed

text \<open>
  \<open>py_unique\<close>, the loop with a seen-list, equals the reference
  \<open>rev (remdups (rev xs))\<close>: the distinct values in order of first occurrence.
\<close>

lemma py_unique_first_occurrences: "py_unique xs = rev (remdups (rev xs))"
  by (simp add: py_unique_def py_unique_acc_eq)

text \<open>
  The long table of the comparison tab holds twice the rows, and its amount column
  splits back into the PIA column followed by the PIM column.
\<close>

lemma melt_roundtrip:
  assumes "wf_frame df" "get_column df e = Inr ev" "get_column df a = Inr av" "get_column df m = Inr mv"
    "e \<noteq> ''Tipo''" "e \<noteq> ''Monto''"
  shows "\<exists>t w. melt_budget e a m df = Inr t \<and> wf_frame t \<and> nrows t = 2 * nrows df
    \<and> get_column t ''Monto'' = Inr w \<and> take (nrows df) w = av \<and> drop (nrows df) w = mv"
proof -
  have le: "length ev = nrows df" "length av = nrows df" "length mv = nrows df"
    using get_column_length [OF assms(1)] assms(2-4) by blast+
  let ?t = "\<lparr>nrows = 2 * nrows df,
            cols = [(e, ev @ ev), (''Tipo'', replicate (length av) (Txt a) @ replicate (length mv) (Txt m)),
                    (''Monto'', av @ mv)]\<rparr>"
  have "melt_budget e a m df = Inr ?t" using assms(2-4) by (simp add: melt_budget_def)
  moreover have "wf_frame ?t" using le by (simp add: wf_frame_def)
  moreover have "get_column ?t ''Monto'' = Inr (av @ mv)" using assms(5,6) by (simp add: get_column_def)
  ultimately show ?thesis using le by auto
qed

text \<open>
  The scatter tab plots exactly the rows where both the execution and the PIM
  values are present, whole and in order.
\<close>

lemma scatter_base_rows:
  assumes "wf_frame data" "get_column data av = Inr x" "get_column data m = Inr y"
  shows "\<exists>t. scatter_base av m data = Inr t \<and> wf_frame t \<and> col_names t = col_names data
    \<and> map snd (cols t) = map (\<lambda>vs. map ((!) vs)
         (filter (\<lambda>i. cell_notna (x ! i) \<and> cell_notna (y ! i)) [0..<nrows data])) (map snd (cols data))"
proof -
  have lx: "length x = nrows data" and ly: "length y = nrows data"
    using get_column_length [OF assms(1)] assms(2,3) by blast+
  let ?f = "\<lambda>p q. cell_notna p \<and> cell_notna q"
  have k: "map2 ?f x y = map (case_prod ?f) (zip x y)" by simp
  have lz: "length (zip x y) = nrows data" using lx ly by simp
  let ?t = "filter_rows (map2 ?f x y) data"
  have "scatter_base av m data = Inr ?t" using assms(2,3) by (simp add: scatter_base_def)
  moreover have "wf_frame ?t" using assms(1) lx ly by (simp add: wf_filter_rows)
  moreover have "map snd (cols ?t) = map (\<lambda>vs. map ((!) vs)
         (filter (\<lambda>i. cell_notna (x ! i) \<and> cell_notna (y ! i)) [0..<nrows data])) (map snd (cols data))"
    using filter_rows_nth [OF assms(1) lz, of "case_prod ?f"] map2_nth_filter [OF lx ly, of ?f] k by simp
  ultimately show ?thesis by auto
qed

end
