(* ===== verification/Charts.thy ===== *)
theory Charts
  imports Tabs
begin

text \<open>
  Chart labels and the Altair chart specifications of the first three tabs of
  \<open>src/app.py\<close>: \<open>to_title\<close> (lines 24--27), the top-N bar chart (lines 99--114), the
  faceted PIA/PIM comparison (lines 120--143) and the efficiency scatter (lines
  147--168). A chart is modelled as the specification the script hands to
  \<open>st.altair_chart\<close>: its data frame and its encodings (field, type, title); the
  rendering by Vega-Lite is not modelled. \<open>page_tabs\<close> composes the four tabs of one
  run (lines 97--192).
\<close>

section \<open>Chart titles\<close>

text \<open>
  \<open>to_title\<close> returns a Python \<open>str\<close>, whose characters can leave Latin-1:
  \<open>str.title\<close> maps the micro sign 181 to the Greek capital Mu 924, the sharp s 223
  to the two letters \<open>Ss\<close>, and 255 to the code point 376. A title is therefore a list
  of Unicode code points; a Latin-1 character of a header is the code point \<open>of_char\<close>
  gives it. The tables below are those of CPython's \<open>unicodedata\<close> restricted to
  Latin-1 input.
\<close>

type_synonym ustr = "nat list"

definition ustr_of :: "string \<Rightarrow> ustr" where
  "ustr_of s = map of_char s"

text \<open>Cased characters of Latin-1 (\<open>_PyUnicode_IsCased\<close>): the letters, the ordinal
  indicators 170 and 186 and the micro sign 181.\<close>

definition py_cased :: "nat \<Rightarrow> bool" where
  "py_cased n \<longleftrightarrow> (65 \<le> n \<and> n \<le> 90) \<or> (97 \<le> n \<and> n \<le> 122) \<or> n = 170 \<or> n = 181 \<or> n = 186
     \<or> (192 \<le> n \<and> n \<le> 255 \<and> n \<noteq> 215 \<and> n \<noteq> 247)"

definition py_lower_cp :: "nat \<Rightarrow> nat" where
  "py_lower_cp n = (if (65 \<le> n \<and> n \<le> 90) \<or> (192 \<le> n \<and> n \<le> 222 \<and> n \<noteq> 215) then n + 32 else n)"

definition py_title_cp :: "nat \<Rightarrow> ustr" where
  "py_title_cp n =
     (if (97 \<le> n \<and> n \<le> 122) \<or> (224 \<le> n \<and> n \<le> 254 \<and> n \<noteq> 247) then [n - 32]
      else if n = 181 then [924]
      else if n = 223 then [83, 115]
      else if n = 255 then [376]
      else [n])"

text \<open>\<open>str.title\<close> (CPython \<open>do_title\<close>): a character is title-cased when the
  character before it is not cased and lower-cased otherwise; the flag is that of the
  input character.\<close>

fun py_title_acc :: "bool \<Rightarrow> ustr \<Rightarrow> ustr" where
  "py_title_acc prev [] = []"
| "py_title_acc prev (c # cs) =
     (if prev then [py_lower_cp c] else py_title_cp c) @ py_title_acc (py_cased c) cs"

definition py_title :: "ustr \<Rightarrow> ustr" where
  "py_title s = py_title_acc False s"

definition py_replace_us :: "string \<Rightarrow> string" where
  "py_replace_us s = map (\<lambda>c. if c = CHR ''_'' then CHR '' '' else c) s"

text \<open>Lines 24--27. The argument is a column label, a string, or \<open>None\<close>.\<close>

definition to_title :: "string option \<Rightarrow> ustr option" where
  "to_title txt =
     (case txt of
        None \<Rightarrow> None
      | Some s \<Rightarrow> Some (py_title (ustr_of (py_replace_us s))))"

text \<open>The positional reading of \<open>do_title\<close>: the character at position \<open>i\<close> is
  title-cased exactly when \<open>i = 0\<close> or the character at \<open>i - 1\<close> is not cased.\<close>

definition title_at :: "ustr \<Rightarrow> nat \<Rightarrow> ustr" where
  "title_at s i = (if i = 0 \<or> \<not> py_cased (s ! (i - 1)) then py_title_cp (s ! i) else [py_lower_cp (s ! i)])"

section \<open>Chart specifications\<close>

text \<open>
  An encoding channel as Altair builds it: the field (the shorthand \<open>f"{c}:Q"\<close> gives
  field \<open>c\<close> and type \<open>Q\<close>; a bare column name leaves the type to be inferred), and the
  axis title: unset (Vega-Lite shows the field name), \<open>title=None\<close> (no title), or a
  string.
\<close>

datatype vl_type = Quantitative | Nominal

datatype vl_title = DefaultTitle | NoTitle | Title ustr

definition title_of :: "ustr option \<Rightarrow> vl_title" where
  "title_of t = (case t of None \<Rightarrow> NoTitle | Some u \<Rightarrow> Title u)"

record encoding =
  enc_field :: string
  enc_type :: "vl_type option"
  enc_title :: vl_title

text \<open>A tooltip entry: a bare field name, or \<open>alt.Tooltip(field, title, format)\<close>.\<close>

datatype tooltip = TipField string | Tip string vl_type "ustr option" string

text \<open>\<open>tmp.columns[i]\<close>: the label at position \<open>i\<close>, or \<open>IndexError\<close>.\<close>

definition column_at :: "frame \<Rightarrow> nat \<Rightarrow> string result" where
  "column_at df i = (if i < length (col_names df) then Inr (col_names df ! i) else Inl IndexError)"

subsection \<open>Top-N bar chart (lines 99--114)\<close>

definition METRICA :: ustr where
  "METRICA = ustr_of ''M'' @ [233] @ ustr_of ''trica''"

text \<open>Line 102.\<close>

definition rank_label :: "resolution \<Rightarrow> ustr option" where
  "rank_label r = (if py_truthy (rank_metric r) then to_title (rank_metric r) else Some METRICA)"

text \<open>Line 111: the ranking column as a quantitative axis titled \<open>rank_label\<close>, or
  else the second column of \<open>tmp\<close> with the default title.\<close>

definition rank_x :: "resolution \<Rightarrow> frame \<Rightarrow> encoding result" where
  "rank_x r tmp =
     (case rank_metric r of
        Some m \<Rightarrow>
          if py_truthy (Some m)
          then Inr \<lparr>enc_field = m, enc_type = Some Quantitative, enc_title = title_of (rank_label r)\<rparr>
          else err_bind (column_at tmp 1) (\<lambda>c. Inr \<lparr>enc_field = c, enc_type = None, enc_title = DefaultTitle\<rparr>)
      | None \<Rightarrow> err_bind (column_at tmp 1) (\<lambda>c. Inr \<lparr>enc_field = c, enc_type = None, enc_title = DefaultTitle\<rparr>))"

text \<open>Line 113.\<close>

definition rank_tooltip :: "resolution \<Rightarrow> string \<Rightarrow> tooltip list" where
  "rank_tooltip r e =
     map TipField (e # List.map_filter (\<lambda>c. if py_truthy c then c else None)
       [col_pia r, col_pim r, col_avance r, col_poblacion r, col_total r, col_orden r])"

record bar_chart =
  bar_data :: frame
  bar_x :: encoding
  bar_y :: encoding
  bar_sort_y :: string
  bar_tooltip :: "tooltip list"
  bar_height :: nat

text \<open>Lines 104--114: the top-N table, the entity name of line 109, and the chart; the
  keyword arguments of \<open>encode\<close> are evaluated left to right, \<open>x\<close> first.\<close>

definition rank_chart :: "((nat \<Rightarrow> cell) \<Rightarrow> nat list \<Rightarrow> nat list) \<Rightarrow> resolution \<Rightarrow> nat \<Rightarrow> frame
    \<Rightarrow> bar_chart result" where
  "rank_chart srt r n data =
     err_bind (top_table srt r n data) (\<lambda>tmp.
     err_bind (ent_name r tmp) (\<lambda>e.
     err_bind (rank_x r tmp) (\<lambda>x.
       Inr \<lparr>bar_data = tmp, bar_x = x,
            bar_y = \<lparr>enc_field = e, enc_type = Some Nominal, enc_title = title_of (to_title (Some e))\<rparr>,
            bar_sort_y = ''-x'', bar_tooltip = rank_tooltip r e, bar_height = 500\<rparr>)))"

subsection \<open>PIA/PIM comparison (lines 120--143)\<close>

record facet_chart =
  fc_data :: frame
  fc_x :: encoding
  fc_y :: encoding
  fc_column :: encoding
  fc_tooltip :: "tooltip list"

text \<open>Lines 125--134: the picked rows, melted, faceted by entity.\<close>

definition cmp_chart :: "(real \<Rightarrow> string) \<Rightarrow> string list \<Rightarrow> string \<Rightarrow> string \<Rightarrow> string \<Rightarrow> frame
    \<Rightarrow> facet_chart result" where
  "cmp_chart num_str pick e a m data =
     err_bind (cmp_rows num_str pick e data) (\<lambda>df_cmp.
     err_bind (melt_budget e a m df_cmp) (\<lambda>dfm.
       Inr \<lparr>fc_data = dfm,
         fc_x = \<lparr>enc_field = ''Tipo'', enc_type = Some Nominal, enc_title = Title (ustr_of ''PIA vs PIM'')\<rparr>,
         fc_y = \<lparr>enc_field = ''Monto'', enc_type = Some Quantitative, enc_title = Title (ustr_of ''Soles'')\<rparr>,
         fc_column = \<lparr>enc_field = e, enc_type = Some Nominal, enc_title = NoTitle\<rparr>,
         fc_tooltip = [TipField e, TipField ''Tipo'', Tip ''Monto'' Quantitative None '',.0f'']\<rparr>))"

text \<open>Lines 139--141: the derived-columns table, first 1000 rows, when any column is
  present.\<close>

definition cmp_table :: "resolution \<Rightarrow> string \<Rightarrow> frame \<Rightarrow> frame option result" where
  "cmp_table r e data =
     (let sc = show_cols r e data
      in if sc \<noteq> [] then err_bind (select_cols sc data) (\<lambda>t. Inr (Some (py_head 1000 t))) else Inr None)"

text \<open>Lines 122--143: the picker's options (line 123), the chart and the table, when
  both budget columns are resolved; otherwise the tab shows a notice (line 143),
  modelled as \<open>None\<close>. The picked entities \<open>pick\<close> are the user's input.\<close>

definition cmp_tab :: "(real \<Rightarrow> string) \<Rightarrow> string list \<Rightarrow> resolution \<Rightarrow> string \<Rightarrow> frame
    \<Rightarrow> (facet_chart \<times> frame option) option result" where
  "cmp_tab num_str pick r e data =
     (case (col_pia r, col_pim r) of
        (Some a, Some m) \<Rightarrow>
          if py_truthy (Some a) \<and> py_truthy (Some m)
          then err_bind (sample_list num_str data e) (\<lambda>opts.
               err_bind (cmp_chart num_str pick e a m data) (\<lambda>c.
               err_bind (cmp_table r e data) (\<lambda>t. Inr (Some (c, t)))))
          else Inr None
      | _ \<Rightarrow> Inr None)"

subsection \<open>Efficiency scatter (lines 145--168)\<close>

datatype size_channel = SizeEnc encoding "nat \<times> nat" | SizeValue nat

datatype color_channel = ColorEnc encoding | ColorValue string

record scatter_chart =
  sc_data :: frame
  sc_x :: encoding
  sc_y :: encoding
  sc_y_domain :: "nat \<times> nat"
  sc_color :: color_channel
  sc_size :: size_channel
  sc_tooltip :: "tooltip list"

definition POBLACION :: ustr where
  "POBLACION = ustr_of ''Poblaci'' @ [243] @ ustr_of ''n''"

text \<open>Lines 149--161: size and tooltip depend on the population column, colour on the
  type column.\<close>

definition scatter_size :: "resolution \<Rightarrow> size_channel" where
  "scatter_size r =
     (case col_poblacion r of
        Some p \<Rightarrow> if py_truthy (Some p)
                  then SizeEnc \<lparr>enc_field = p, enc_type = Some Quantitative, enc_title = Title POBLACION\<rparr> (30, 400)
                  else SizeValue 80
      | None \<Rightarrow> SizeValue 80)"

definition scatter_tooltip :: "resolution \<Rightarrow> string \<Rightarrow> string \<Rightarrow> string \<Rightarrow> tooltip list" where
  "scatter_tooltip r e av m =
     [TipField e, Tip av Quantitative (Some (ustr_of ''Avance %'')) ''.1f'',
      Tip m Quantitative (Some (ustr_of ''PIM'')) '',.0f'']
     @ (case col_poblacion r of
          Some p \<Rightarrow> if py_truthy (Some p) then [Tip p Quantitative (Some POBLACION) '',.0f''] else []
        | None \<Rightarrow> [])"

definition scatter_color :: "resolution \<Rightarrow> color_channel" where
  "scatter_color r =
     (case col_tipo r of
        Some t \<Rightarrow> if py_truthy (Some t)
                  then ColorEnc \<lparr>enc_field = t, enc_type = Some Nominal, enc_title = title_of (to_title (Some t))\<rparr>
                  else ColorValue ''#1f77b4''
      | None \<Rightarrow> ColorValue ''#1f77b4'')"

text \<open>Lines 147--168; without both columns the tab shows a notice (line 174).\<close>

definition scatter :: "resolution \<Rightarrow> string \<Rightarrow> frame \<Rightarrow> scatter_chart option result" where
  "scatter r e data =
     (case (col_avance r, col_pim r) of
        (Some av, Some m) \<Rightarrow>
          if py_truthy (Some av) \<and> py_truthy (Some m)
          then err_bind (scatter_base av m data) (\<lambda>base.
                 Inr (Some \<lparr>sc_data = base,
                   sc_x = \<lparr>enc_field = m, enc_type = Some Quantitative, enc_title = Title (ustr_of ''PIM (Soles)'')\<rparr>,
                   sc_y = \<lparr>enc_field = av, enc_type = Some Quantitative, enc_title = Title (ustr_of ''Avance %'')\<rparr>,
                   sc_y_domain = (0, 110), sc_color = scatter_color r, sc_size = scatter_size r,
                   sc_tooltip = scatter_tooltip r e av m\<rparr>))
          else Inr None
      | _ \<Rightarrow> Inr None)"

subsection \<open>The page (lines 97--192)\<close>

text \<open>
  The four tabs run in order within one script run, so an exception in a tab stops
  the script and the later tabs are not drawn. The entity name \<open>ent_name\<close> is set by
  the first tab (line 109) and read by the others; it is the \<open>y\<close> field of the first
  tab's chart.
\<close>

record page =
  pg_rank :: bar_chart
  pg_cmp :: "(facet_chart \<times> frame option) option"
  pg_scatter :: "scatter_chart option"
  pg_explore :: frame

definition page_tabs :: "((nat \<Rightarrow> cell) \<Rightarrow> nat list \<Rightarrow> nat list) \<Rightarrow> (real \<Rightarrow> string) \<Rightarrow> resolution
    \<Rightarrow> nat \<Rightarrow> string list \<Rightarrow> frame \<Rightarrow> page result" where
  "page_tabs srt num_str r n pick data =
     err_bind (rank_chart srt r n data) (\<lambda>ch.
       (let e = enc_field (bar_y ch) in
        err_bind (cmp_tab num_str pick r e data) (\<lambda>c2.
        err_bind (scatter r e data) (\<lambda>c3.
        err_bind (explore_table srt r e data) (\<lambda>t4.
          Inr \<lparr>pg_rank = ch, pg_cmp = c2, pg_scatter = c3, pg_explore = t4\<rparr>)))))"

subsection \<open>Fields a chart references\<close>

fun tip_field :: "tooltip \<Rightarrow> string" where
  "tip_field (TipField f) = f"
| "tip_field (Tip f t ti fmt) = f"

definition bar_fields :: "bar_chart \<Rightarrow> string list" where
  "bar_fields ch = enc_field (bar_x ch) # enc_field (bar_y ch) # map tip_field (bar_tooltip ch)"

definition facet_fields :: "facet_chart \<Rightarrow> string list" where
  "facet_fields fc = enc_field (fc_x fc) # enc_field (fc_y fc) # enc_field (fc_column fc)
     # map tip_field (fc_tooltip fc)"

fun color_fields :: "color_channel \<Rightarrow> string list" where
  "color_fields (ColorEnc enc) = [enc_field enc]"
| "color_fields (ColorValue v) = []"

fun size_fields :: "size_channel \<Rightarrow> string list" where
  "size_fields (SizeEnc enc rng) = [enc_field enc]"
| "size_fields (SizeValue v) = []"

definition scatter_fields :: "scatter_chart \<Rightarrow> string list" where
  "scatter_fields sc = enc_field (sc_x sc) # enc_field (sc_y sc) # color_fields (sc_color sc)
     @ size_fields (sc_size sc) @ map tip_field (sc_tooltip sc)"

text \<open>Every field of every chart of a page is a column of the table that chart plots.\<close>

definition page_fields_ok :: "page \<Rightarrow> bool" where
  "page_fields_ok pg \<longleftrightarrow>
     set (bar_fields (pg_rank pg)) \<subseteq> set (col_names (bar_data (pg_rank pg)))
     \<and> pred_option (\<lambda>(fc, t). set (facet_fields fc) \<subseteq> set (col_names (fc_data fc))) (pg_cmp pg)
     \<and> pred_option (\<lambda>sc. set (scatter_fields sc) \<subseteq> set (col_names (sc_data sc))) (pg_scatter pg)"

subsection \<open>Example table\<close>

definition df_chart :: frame where
  "df_chart = \<lparr>nrows = 1, cols = [(''Entidad'', [Txt ''A'']), (''Total'', [Num 10])]\<rparr>"

text \<open>\<open>df_chart\<close> after the derivation: both derived columns are NaN (no budget
  columns), and the execution column is unresolved.\<close>

definition dw_chart :: frame where
  "dw_chart = \<lparr>nrows = 1, cols = [(''Entidad'', [Txt ''A'']), (''Total'', [Num 10]),
     (growth_name, [NA]), (percap_name, [NA])]\<rparr>"

definition df_one :: frame where
  "df_one = \<lparr>nrows = 1, cols = [(''Entidad'', [Txt ''A''])]\<rparr>"

section \<open>Lemmas on titles\<close>

lemma py_title_acc_positional:
  "py_title_acc b (c # cs) = concat (map (\<lambda>i. if i = 0 then (if b then [py_lower_cp c] else py_title_cp c)
     else title_at (c # cs) i) [0..<length (c # cs)])"
proof (induction cs arbitrary: b c)
  case Nil
  then show ?case by simp
next
  case (Cons d ds)
  have "py_title_acc b (c # d # ds) = (if b then [py_lower_cp c] else py_title_cp c) @ py_title_acc (py_cased c) (d # ds)"
    by simp
  also have "py_title_acc (py_cased c) (d # ds) = concat (map (\<lambda>i. title_at (c # d # ds) (Suc i)) [0..<length (d # ds)])"
    by (simp only: Cons.IH) (rule arg_cong [where f = concat], rule map_cong, simp_all add: title_at_def)
  finally show ?case
    by (simp del: upt_Suc add: upt_conv_Cons map_Suc_upt [symmetric] comp_def)
qed

lemma py_title_positional: "py_title s = concat (map (title_at s) [0..<length s])"
proof (cases s)
  case Nil
  then show ?thesis by (simp add: py_title_def)
next
  case (Cons c cs)
  have "py_title s = concat (map (\<lambda>i. if i = 0 then py_title_cp c else title_at (c # cs) i) [0..<length (c # cs)])"
    by (simp only: Cons py_title_def py_title_acc_positional) simp
  also have "\<dots> = concat (map (title_at s) [0..<length s])"
    by (rule arg_cong [where f = concat], rule map_cong) (simp_all add: Cons title_at_def)
  finally show ?thesis .
qed

lemma py_title_acc_set:
  "set (py_title_acc b xs) \<subseteq> (\<Union>x\<in>set xs. set (py_title_cp x) \<union> {py_lower_cp x})"
  by (induction xs arbitrary: b) auto

lemma of_char_underscore: "of_char c = (95::nat) \<longleftrightarrow> c = CHR ''_''"
proof
  assume "of_char c = (95::nat)"
  moreover have "of_char (CHR ''_'') = (95::nat)" by simp
  ultimately have "of_char c = (of_char (CHR ''_'') :: nat)" by simp
  then show "c = CHR ''_''" by (simp only: of_char_eq_iff)
qed simp

lemma to_title_no_underscore: "to_title (Some s) = Some t \<Longrightarrow> (95::nat) \<notin> set t"
proof
  assume t: "to_title (Some s) = Some t" and u: "(95::nat) \<in> set t"
  from t have "t = py_title_acc False (ustr_of (py_replace_us s))"
    by (simp add: to_title_def py_title_def)
  with u py_title_acc_set obtain x where x: "x \<in> set (ustr_of (py_replace_us s))"
    and "95 \<in> set (py_title_cp x) \<or> 95 = py_lower_cp x" by blast
  then have "x = 95" by (auto simp: py_title_cp_def py_lower_cp_def split: if_splits)
  with x show False by (auto simp: ustr_of_def py_replace_us_def of_char_underscore split: if_splits)
qed

lemma top_table_cols: "top_table srt r n data = Inr tmp \<Longrightarrow> col_names tmp = col_names data"
  by (auto simp: top_table_def sort_values_desc_def err_bind_eq_Inr split: option.splits if_splits)

lemma py_or_Some: "py_or a b = Some e \<Longrightarrow> a = Some e \<or> b = Some e"
  by (simp add: py_or_def split: if_splits)

lemma ent_name_cases:
  "ent_name r tmp = Inr e \<Longrightarrow> e \<in> set (col_names tmp) \<or> col_entidad r = Some e \<or> col_orden r = Some e"
  by (auto simp: ent_name_def Let_def dest: py_or_Some split: option.splits if_splits list.splits)

lemma rank_x_cases:
  "rank_x r tmp = Inr x \<Longrightarrow> enc_field x \<in> set (col_names tmp) \<or> rank_metric r = Some (enc_field x)"
  by (auto simp: rank_x_def column_at_def err_bind_eq_Inr split: option.splits if_splits)

lemma rank_metric_cases:
  "rank_metric r = Some c \<Longrightarrow> col_total r = Some c \<or> col_avance r = Some c \<or> col_pim r = Some c"
  by (auto simp: rank_metric_def dest!: py_or_Some)

lemma rank_tooltip_fields:
  "f \<in> set (map tip_field (rank_tooltip r e)) \<Longrightarrow>
   f = e \<or> Some f \<in> {col_pia r, col_pim r, col_avance r, col_poblacion r, col_total r, col_orden r}"
  by (auto simp: rank_tooltip_def List.map_filter_def split: if_splits)

lemma resolved_header:
  "r = resolve_columns df \<Longrightarrow> Some c \<in> set (resolution_fields r) \<Longrightarrow> c \<in> set (col_names df)"
  by (auto simp: resolution_fields_find_col dest: find_col_header [OF sym])

lemma rank_chart_Inr:
  assumes "rank_chart srt r n data = Inr ch"
  obtains tmp e x where "top_table srt r n data = Inr tmp" "ent_name r tmp = Inr e" "rank_x r tmp = Inr x"
    "bar_data ch = tmp" "bar_x ch = x" "enc_field (bar_y ch) = e" "bar_tooltip ch = rank_tooltip r e"
  using assms by (auto simp: rank_chart_def err_bind_eq_Inr)

text \<open>Every field the top-N bar chart references is a column of the table it plots,
  when the resolution comes from a table whose columns the view keeps.\<close>

lemma rank_chart_fields_sub:
  assumes r: "r = resolve_columns df" and sub: "set (col_names df) \<subseteq> set (col_names data)"
    and ch: "rank_chart srt r n data = Inr ch"
  shows "set (bar_fields ch) \<subseteq> set (col_names (bar_data ch))"
proof -
  obtain tmp e x where t: "top_table srt r n data = Inr tmp" and e: "ent_name r tmp = Inr e"
    and x: "rank_x r tmp = Inr x" and d: "bar_data ch = tmp" and bx: "bar_x ch = x"
    and be: "enc_field (bar_y ch) = e" and bt: "bar_tooltip ch = rank_tooltip r e"
    using ch by (rule rank_chart_Inr)
  have cols: "col_names tmp = col_names data" by (rule top_table_cols [OF t])
  have res: "c \<in> set (col_names tmp)" if "Some c \<in> set (resolution_fields r)" for c
    using resolved_header [OF r that] sub cols by auto
  have ee: "e \<in> set (col_names tmp)"
    using ent_name_cases [OF e] res by (auto simp: resolution_fields_def)
  have xx: "enc_field x \<in> set (col_names tmp)"
    using rank_x_cases [OF x] res by (auto simp: resolution_fields_def dest!: rank_metric_cases)
  have "f \<in> set (col_names tmp)" if "f \<in> set (map tip_field (rank_tooltip r e))" for f
    using rank_tooltip_fields [OF that] ee res by (auto simp: resolution_fields_def)
  with d bx be bt ee xx show ?thesis by (auto simp: bar_fields_def)
qed

lemma melt_budget_cols: "melt_budget e a m df = Inr dfm \<Longrightarrow> col_names dfm = [e, ''Tipo'', ''Monto'']"
  by (auto simp: melt_budget_def err_bind_eq_Inr col_names_def)

lemma cmp_chart_fields:
  "cmp_chart num_str pick e a m data = Inr fc \<Longrightarrow> set (facet_fields fc) \<subseteq> set (col_names (fc_data fc))"
  by (auto simp: cmp_chart_def err_bind_eq_Inr facet_fields_def dest!: melt_budget_cols)

lemma cmp_tab_fields:
  "cmp_tab num_str pick r e data = Inr c2 \<Longrightarrow>
   pred_option (\<lambda>(fc, t). set (facet_fields fc) \<subseteq> set (col_names (fc_data fc))) c2"
  by (auto simp: cmp_tab_def err_bind_eq_Inr split: option.splits if_splits dest: cmp_chart_fields)

lemma scatter_base_cols: "scatter_base av m data = Inr b \<Longrightarrow> col_names b = col_names data"
  by (auto simp: scatter_base_def err_bind_eq_Inr)

lemma scatter_color_field: "x \<in> set (color_fields (scatter_color r)) \<Longrightarrow> col_tipo r = Some x"
  by (auto simp: scatter_color_def split: option.splits if_splits)

lemma scatter_size_field: "x \<in> set (size_fields (scatter_size r)) \<Longrightarrow> col_poblacion r = Some x"
  by (auto simp: scatter_size_def split: option.splits if_splits)

lemma scatter_tooltip_field:
  "t \<in> set (scatter_tooltip r e av m) \<Longrightarrow>
   tip_field t = e \<or> tip_field t = av \<or> tip_field t = m \<or> col_poblacion r = Some (tip_field t)"
  by (auto simp: scatter_tooltip_def split: option.splits if_splits)

lemma scatter_fields_sub:
  assumes res: "\<And>c. Some c \<in> set (resolution_fields r) \<Longrightarrow> c \<in> set (col_names data)"
    and e: "e \<in> set (col_names data)" and sc: "scatter r e data = Inr c3"
  shows "pred_option (\<lambda>sc. set (scatter_fields sc) \<subseteq> set (col_names (sc_data sc))) c3"
proof (cases c3)
  case (Some s)
  with sc obtain av m b where av: "col_avance r = Some av" and m: "col_pim r = Some m"
    and b: "scatter_base av m data = Inr b" and s: "s = \<lparr>sc_data = b,
      sc_x = \<lparr>enc_field = m, enc_type = Some Quantitative, enc_title = Title (ustr_of ''PIM (Soles)'')\<rparr>,
      sc_y = \<lparr>enc_field = av, enc_type = Some Quantitative, enc_title = Title (ustr_of ''Avance %'')\<rparr>,
      sc_y_domain = (0, 110), sc_color = scatter_color r, sc_size = scatter_size r,
      sc_tooltip = scatter_tooltip r e av m\<rparr>"
    by (auto simp: scatter_def err_bind_eq_Inr split: option.splits if_splits)
  have cb: "col_names b = col_names data" by (rule scatter_base_cols [OF b])
  have "x \<in> set (col_names data)" if "x \<in> set (scatter_fields s)" for x
    using that e av m res [of av] res [of m] res [of x]
    by (auto simp: s scatter_fields_def resolution_fields_def
        dest!: scatter_color_field scatter_size_field scatter_tooltip_field)
  with Some cb s show ?thesis by auto
qed simp

lemma page_tabs_Inr:
  assumes "page_tabs srt num_str r n pick data = Inr pg"
  shows "rank_chart srt r n data = Inr (pg_rank pg)
    \<and> cmp_tab num_str pick r (enc_field (bar_y (pg_rank pg))) data = Inr (pg_cmp pg)
    \<and> scatter r (enc_field (bar_y (pg_rank pg))) data = Inr (pg_scatter pg)"
  using assms by (auto simp: page_tabs_def err_bind_eq_Inr Let_def)

lemma page_fields:
  assumes r: "r = resolve_columns df" and sub: "set (col_names df) \<subseteq> set (col_names data)"
    and pg: "page_tabs srt num_str r n pick data = Inr pg"
  shows "page_fields_ok pg"
proof -
  note p = page_tabs_Inr [OF pg]
  let ?ch = "pg_rank pg"
  have b: "set (bar_fields ?ch) \<subseteq> set (col_names (bar_data ?ch))"
    using rank_chart_fields_sub [OF r sub] p by blast
  obtain tmp e x where t: "top_table srt r n data = Inr tmp" and d: "bar_data ?ch = tmp"
    using rank_chart_Inr [OF conjunct1 [OF p]] by metis
  have "enc_field (bar_y ?ch) \<in> set (col_names data)"
    using b d top_table_cols [OF t] by (auto simp: bar_fields_def)
  moreover have "c \<in> set (col_names data)" if "Some c \<in> set (resolution_fields r)" for c
    using resolved_header [OF r that] sub by auto
  ultimately have "pred_option (\<lambda>sc. set (scatter_fields sc) \<subseteq> set (col_names (sc_data sc))) (pg_scatter pg)"
    using p by (auto intro: scatter_fields_sub)
  with b p cmp_tab_fields show ?thesis by (auto simp: page_fields_ok_def)
qed

lemma top_table_unranked_eq:
  "\<not> py_truthy (rank_metric r) \<Longrightarrow> top_table srt r n data = Inr (py_head n data)"
  by (cases "rank_metric r") (simp_all add: top_table_def)

lemma rank_x_unranked:
  "\<not> py_truthy (rank_metric r) \<Longrightarrow>
   rank_x r tmp = err_bind (column_at tmp 1) (\<lambda>c. Inr \<lparr>enc_field = c, enc_type = None, enc_title = DefaultTitle\<rparr>)"
  by (cases "rank_metric r") (simp_all add: rank_x_def)

lemma ent_name_Inl: "ent_name r tmp = Inl err \<Longrightarrow> err = IndexError \<and> col_names tmp = []"
  by (auto simp: ent_name_def Let_def split: option.splits if_splits list.splits)

lemma ent_name_nonempty: "col_names tmp \<noteq> [] \<Longrightarrow> \<exists>e. ent_name r tmp = Inr e"
  by (auto simp: ent_name_def Let_def split: option.splits list.splits)

lemmas chart_eval = rank_chart_def top_table_def sort_values_desc_def nargsort_desc_def take_rows_def
  py_head_def ent_name_def rank_x_def rank_tooltip_def rank_label_def rank_metric_def py_or_def
  to_title_def py_title_def ustr_of_def py_replace_us_def py_title_cp_def py_lower_cp_def py_cased_def
  title_of_def column_at_def comparable_def

lemma rank_chart_dw_chart:
  "rank_chart (\<lambda>key xs. sort_key key xs) (resolve_columns df_chart) 5 dw_chart
   = Inr \<lparr>bar_data = dw_chart,
       bar_x = \<lparr>enc_field = ''Total'', enc_type = Some Quantitative, enc_title = Title [84, 111, 116, 97, 108]\<rparr>,
       bar_y = \<lparr>enc_field = ''Entidad'', enc_type = Some Nominal,
                enc_title = Title [69, 110, 116, 105, 100, 97, 100]\<rparr>,
       bar_sort_y = ''-x'', bar_tooltip = [TipField ''Entidad'', TipField ''Total''], bar_height = 500\<rparr>"
  by (simp add: chart_eval dw_chart_def df_chart_def find_col_eval frame_eval growth_name_def percap_name_def)

lemma derive_df_chart: "derive_metrics (resolve_columns df_chart) df_chart = Inr dw_chart"
  by (simp add: derive_metrics_def add_growth_def add_percap_def rescale_avance_def dw_chart_def
      df_chart_def frame_eval find_col_eval growth_name_def percap_name_def)

lemma cmp_tab_df_chart: "cmp_tab num_str pick (resolve_columns df_chart) e data = Inr None"
  by (simp add: cmp_tab_def df_chart_def find_col_eval)

lemma scatter_df_chart: "scatter (resolve_columns df_chart) e data = Inr None"
  by (simp add: scatter_def df_chart_def find_col_eval)

lemma explore_dw_chart:
  "explore_table (\<lambda>key xs. sort_key key xs) (resolve_columns df_chart) ''Entidad'' dw_chart
   = Inr \<lparr>nrows = 1, cols = [(''Entidad'', [Txt ''A'']), (''Total'', [Num 10]),
       (percap_name, [NA]), (growth_name, [NA])]\<rparr>"
proof -
  let ?t = "\<lparr>nrows = 1, cols = [(''Entidad'', [Txt ''A'']), (''Total'', [Num 10]),
    (percap_name, [NA]), (growth_name, [NA])]\<rparr>"
  let ?r = "resolve_columns df_chart"
  have ct: "cols_table ?r ''Entidad'' dw_chart = [''Entidad'', ''Total'', percap_name, growth_name]"
    by (simp add: cols_table_def dw_chart_def df_chart_def find_col_eval growth_name_def percap_name_def)
  have sc: "sort_col ?r [''Entidad'', ''Total'', percap_name, growth_name] = Inr ''Entidad''"
    by (simp add: sort_col_def df_chart_def find_col_eval)
  have sel: "select_cols [''Entidad'', ''Total'', percap_name, growth_name] dw_chart = Inr ?t"
    by (simp add: select_cols_def dw_chart_def col_names_def growth_name_def percap_name_def)
  have srt: "sort_values_asc (\<lambda>key xs. sort_key key xs) ?t ''Entidad'' = Inr ?t"
    by (simp add: sort_values_asc_def nargsort_asc_def frame_eval take_rows_def comparable_def
      growth_name_def percap_name_def)
  show ?thesis
    unfolding explore_table_def Let_def ct explore_sorted_def sc sel err_bind_def sum.case srt
    by (simp add: py_head_def)
qed




end
