(* ===== verification/Export.thy ===== *)
theory Export
  imports Tabs "HOL-Library.Word"
begin

text \<open>
  The CSV download of the sidebar (lines 73--78): the filtered copy of \<open>df_work\<close>
  (\<open>export_table\<close>, in \<open>Tabs\<close>), written by \<open>to_csv(index=False)\<close> with the
  \<open>csv\<close> module's minimal quoting, then encoded by \<open>.encode("utf-8")\<close> into bytes
  (\<open>8 word\<close>). The reading side, a UTF-8 decoder and the state machine of Python's
  \<open>csv.reader\<close> for this dialect, is the specification the download is checked against.
\<close>

unbundle bit_operations_syntax

section \<open>Writing\<close>

text \<open>The \<open>csv\<close> writer's dialect: delimiter comma, quote character \<open>"\<close> doubled
  inside quotes, line terminator \<open>os.linesep\<close> (a line feed on POSIX). A field is quoted
  when it holds a delimiter, a quote, a line feed or a carriage return, and a record
  made of one empty field is written \<open>""\<close> so that it is not read as an empty line.\<close>

definition QUOTE :: char where "QUOTE = CHR 0x22"
definition COMMA :: char where "COMMA = CHR 0x2C"
definition LF :: char where "LF = CHR 0x0A"
definition CR :: char where "CR = CHR 0x0D"

definition csv_special :: "char \<Rightarrow> bool" where
  "csv_special c \<longleftrightarrow> c = COMMA \<or> c = QUOTE \<or> c = LF \<or> c = CR"

definition csv_escape :: "char \<Rightarrow> string" where
  "csv_escape c = (if c = QUOTE then [QUOTE, QUOTE] else [c])"

definition csv_quote :: "string \<Rightarrow> string" where
  "csv_quote s = (if list_ex csv_special s then QUOTE # concat (map csv_escape s) @ [QUOTE] else s)"

fun csv_join :: "string list \<Rightarrow> string" where
  "csv_join [] = []"
| "csv_join [f] = f"
| "csv_join (f # g # gs) = f @ COMMA # csv_join (g # gs)"

definition csv_row :: "string list \<Rightarrow> string" where
  "csv_row fs = (if fs = [[]] then [QUOTE, QUOTE] else csv_join (map csv_quote fs)) @ [LF]"

text \<open>A cell as \<open>to_csv\<close> writes it: missing values as the empty string
  (\<open>na_rep=''\<close>), numbers as \<open>num_str\<close> prints them.\<close>

fun csv_cell :: "(real \<Rightarrow> string) \<Rightarrow> cell \<Rightarrow> string" where
  "csv_cell num_str (Num x) = num_str x"
| "csv_cell num_str (Txt s) = s"
| "csv_cell num_str NA = []"

text \<open>The records \<open>to_csv(index=False)\<close> writes: the header, then one record per
  row.\<close>

definition frame_csv_rows :: "(real \<Rightarrow> string) \<Rightarrow> frame \<Rightarrow> string list list" where
  "frame_csv_rows num_str df =
     col_names df # map (\<lambda>i. map (\<lambda>(c, vs). csv_cell num_str (vs ! i)) (cols df)) [0..<nrows df]"

definition to_csv :: "(real \<Rightarrow> string) \<Rightarrow> frame \<Rightarrow> string" where
  "to_csv num_str df = concat (map csv_row (frame_csv_rows num_str df))"

text \<open>\<open>str.encode("utf-8")\<close> on Latin-1 text (CPython's encoder: \<open>0xC0 | ch >> 6\<close>,
  \<open>0x80 | ch & 0x3F\<close> for a code point from 128 on).\<close>

definition utf8_char :: "char \<Rightarrow> 8 word list" where
  "utf8_char c =
     (let w = (of_char c :: 8 word)
      in if w < 0x80 then [w] else [0xC0 OR drop_bit 6 w, 0x80 OR (w AND 0x3F)])"

definition utf8_encode :: "string \<Rightarrow> 8 word list" where
  "utf8_encode s = concat (map utf8_char s)"

text \<open>Lines 73--78: when the button is pressed, the bytes handed to
  \<open>st.download_button\<close>.\<close>

definition export_csv :: "(real \<Rightarrow> string) \<Rightarrow> string option \<Rightarrow> string \<Rightarrow> frame \<Rightarrow> 8 word list result" where
  "export_csv num_str c_tipo sel df_work =
     err_bind (export_table num_str c_tipo sel df_work) (\<lambda>tmp. Inr (utf8_encode (to_csv num_str tmp)))"

section \<open>Reading\<close>

text \<open>\<open>csv.reader\<close> for the same dialect, as the character state machine of CPython's
  \<open>parse_process_char\<close>, on input that ends with a line terminator (the download
  always does); input that stops inside a record is \<open>None\<close>.\<close>

datatype csv_state = StartRecord | StartField | InField | InQuoted | QuoteInQuoted

fun csv_read :: "csv_state \<Rightarrow> string \<Rightarrow> string \<Rightarrow> string list \<Rightarrow> string list list option" where
  "csv_read StartRecord [] f r = Some []"
| "csv_read st [] f r = None"
| "csv_read StartRecord (c # cs) f r =
     (if c = LF then map_option (Cons []) (csv_read StartRecord cs [] [])
      else if c = QUOTE then csv_read InQuoted cs [] []
      else if c = COMMA then csv_read StartField cs [] [[]]
      else csv_read InField cs [c] [])"
| "csv_read StartField (c # cs) f r =
     (if c = LF then map_option (Cons (rev ([] # r))) (csv_read StartRecord cs [] [])
      else if c = QUOTE then csv_read InQuoted cs [] r
      else if c = COMMA then csv_read StartField cs [] ([] # r)
      else csv_read InField cs [c] r)"
| "csv_read InField (c # cs) f r =
     (if c = LF then map_option (Cons (rev (rev f # r))) (csv_read StartRecord cs [] [])
      else if c = COMMA then csv_read StartField cs [] (rev f # r)
      else csv_read InField cs (c # f) r)"
| "csv_read InQuoted (c # cs) f r =
     (if c = QUOTE then csv_read QuoteInQuoted cs f r else csv_read InQuoted cs (c # f) r)"
| "csv_read QuoteInQuoted (c # cs) f r =
     (if c = QUOTE then csv_read InQuoted cs (QUOTE # f) r
      else if c = LF then map_option (Cons (rev (rev f # r))) (csv_read StartRecord cs [] [])
      else if c = COMMA then csv_read StartField cs [] (rev f # r)
      else csv_read InField cs (c # f) r)"

definition csv_parse :: "string \<Rightarrow> string list list option" where
  "csv_parse s = csv_read StartRecord s [] []"

text \<open>UTF-8 decoding of text the encoder can produce (one byte below 128, or a lead
  byte \<open>0xC2\<close>/\<open>0xC3\<close> and a continuation byte).\<close>

fun utf8_decode :: "8 word list \<Rightarrow> string option" where
  "utf8_decode [] = Some []"
| "utf8_decode (b # bs) =
     (if b < 0x80 then map_option (Cons (char_of (unat b))) (utf8_decode bs)
      else if b AND 0xFE = 0xC2
      then (case bs of
              [] \<Rightarrow> None
            | b2 # bs' \<Rightarrow>
                if b2 AND 0xC0 = 0x80
                then map_option (Cons (char_of (unat (push_bit 6 (b AND 0x1F) OR (b2 AND 0x3F))))) (utf8_decode bs')
                else None)
      else None)"


definition csv_decode :: "8 word list \<Rightarrow> string list list option" where
  "csv_decode bytes = (case utf8_decode bytes of Some s \<Rightarrow> csv_parse s | None \<Rightarrow> None)"

section \<open>Lemmas\<close>

lemma unat_of_char: "unat (of_char c :: 8 word) = of_char c"
proof -
  have "(of_char c :: 8 word) = of_nat (of_char c)" by (simp only: of_nat_of_char)
  then show ?thesis using nat_of_char_less_256 [of c] by (simp add: unsigned_of_nat take_bit_nat_eq_self)
qed

lemma bit7_unat: "bit (w :: 8 word) 7 \<longleftrightarrow> odd (unat w div 128)"
proof -
  have "bit (unat w) 7 \<longleftrightarrow> bit w 7" by (simp add: bit_unsigned_iff)
  moreover have "bit (unat w) 7 \<longleftrightarrow> odd (unat w div 2 ^ 7)" by (rule bit_iff_odd)
  ultimately show ?thesis by simp
qed

lemma odd_div128: "(n::nat) < 256 \<Longrightarrow> odd (n div 128) \<longleftrightarrow> 128 \<le> n"
  by (cases "n < 128") (simp_all add: le_div_geq)

lemma lt80_bit7: "(w :: 8 word) < 0x80 \<longleftrightarrow> \<not> bit w 7"
proof -
  have u: "unat w < 256" using unsigned_less [of w] by simp
  have "(w < 0x80) \<longleftrightarrow> unat w < 128" by (simp add: word_less_nat_alt)
  moreover have "bit w 7 \<longleftrightarrow> 128 \<le> unat w" using bit7_unat [of w] odd_div128 [OF u] by simp
  ultimately show ?thesis by linarith
qed

lemma bit_0x3F: "bit (0x3F :: 8 word) n \<longleftrightarrow> n < 6"
  by (auto simp: bit_simps less_Suc_eq numeral_eq_Suc dest: bit_imp_le_length)

lemma push_drop_6: "push_bit 6 (drop_bit 6 w) OR (w AND 0x3F) = (w :: 8 word)"
proof (intro bit_word_eqI)
  fix n assume n: "n < LENGTH(8)"
  show "bit (push_bit 6 (drop_bit 6 w) OR (w AND 0x3F)) n \<longleftrightarrow> bit w n"
    using n bit_0x3F [of n] by (cases "n < 6") (auto simp: bit_or_iff bit_and_iff bit_push_bit_iff bit_drop_bit_eq)
qed

lemma utf8_char_bytes:
  fixes w :: "8 word"
  assumes "\<not> w < 0x80"
  shows "\<not> (0xC0 OR drop_bit 6 w) < (0x80 :: 8 word)" "(0xC0 OR drop_bit 6 w) AND 0xFE = 0xC2"
    "(0x80 OR (w AND 0x3F)) AND 0xC0 = (0x80 :: 8 word)"
    "push_bit 6 ((0xC0 OR drop_bit 6 w) AND 0x1F) OR ((0x80 OR (w AND 0x3F)) AND 0x3F) = w"
proof -
  show "\<not> (0xC0 OR drop_bit 6 w) < (0x80 :: 8 word)"
    unfolding lt80_bit7 by (simp add: bit_simps)
  show "(0xC0 OR drop_bit 6 w) AND 0xFE = 0xC2"
    using assms unfolding lt80_bit7
    by (intro bit_word_eqI) (auto simp: bit_simps less_Suc_eq numeral_eq_Suc dest: bit_imp_le_length)
  show "(0x80 OR (w AND 0x3F)) AND 0xC0 = (0x80 :: 8 word)"
    by (intro bit_word_eqI) (auto simp: bit_simps less_Suc_eq numeral_eq_Suc dest: bit_imp_le_length)
  have "(0xC0 OR drop_bit 6 w) AND 0x1F = drop_bit 6 w"
    by (intro bit_word_eqI) (auto simp: bit_simps less_Suc_eq numeral_eq_Suc dest: bit_imp_le_length)
  moreover have "(0x80 OR (w AND 0x3F)) AND 0x3F = w AND 0x3F"
    by (intro bit_word_eqI) (auto simp: bit_simps less_Suc_eq numeral_eq_Suc dest: bit_imp_le_length)
  ultimately show "push_bit 6 ((0xC0 OR drop_bit 6 w) AND 0x1F) OR ((0x80 OR (w AND 0x3F)) AND 0x3F) = w"
    by (simp only: push_drop_6)
qed

lemma utf8_decode_char: "utf8_decode (utf8_char c @ bs) = map_option (Cons c) (utf8_decode bs)"
proof (cases "(of_char c :: 8 word) < 0x80")
  case True
  then show ?thesis by (simp add: utf8_char_def unat_of_char)
next
  case False
  note b = utf8_char_bytes [OF False]
  let ?w = "of_char c :: 8 word"
  have e: "utf8_char c = [0xC0 OR drop_bit 6 ?w, 0x80 OR (?w AND 0x3F)]"
    using False by (simp add: utf8_char_def Let_def)
  show ?thesis
    by (simp only: e append_Cons append_Nil utf8_decode.simps(2) b if_False if_True list.case unat_of_char char_of_char simp_thms(6))
qed

lemma utf8_roundtrip: "utf8_decode (utf8_encode s) = Some s"
  by (induction s) (simp_all add: utf8_encode_def utf8_decode_char)
lemma chars_distinct [simp]:
  "QUOTE \<noteq> COMMA" "QUOTE \<noteq> LF" "COMMA \<noteq> LF" "COMMA \<noteq> QUOTE" "LF \<noteq> QUOTE" "LF \<noteq> COMMA"
  by (simp_all add: QUOTE_def COMMA_def LF_def)

lemma csv_special_simps [simp]: "csv_special QUOTE" "csv_special COMMA" "csv_special LF"
  by (simp_all add: csv_special_def)

lemma read_unquoted:
  "\<not> list_ex csv_special s \<Longrightarrow> csv_read InField (s @ rest) f r = csv_read InField rest (rev s @ f) r"
  by (induction s arbitrary: f) (auto simp: csv_special_def)

lemma read_quoted:
  "csv_read InQuoted (concat (map csv_escape s) @ QUOTE # rest) f r = csv_read QuoteInQuoted rest (rev s @ f) r"
  by (induction s arbitrary: f) (simp_all add: csv_escape_def)

lemma read_field:
  assumes t: "t = COMMA \<or> t = LF"
  shows "csv_read StartField (csv_quote s @ t # rest) [] r =
    (if t = COMMA then csv_read StartField rest [] (s # r)
     else map_option (Cons (rev (s # r))) (csv_read StartRecord rest [] []))"
proof (cases "list_ex csv_special s")
  case True
  then show ?thesis using t by (auto simp: csv_quote_def read_quoted)
next
  case False
  show ?thesis
  proof (cases s)
    case Nil
    then show ?thesis using t by (auto simp: csv_quote_def)
  next
    case (Cons c cs)
    with False have "\<not> csv_special c" "\<not> list_ex csv_special cs" by simp_all
    then show ?thesis using t Cons False
      by (auto simp: csv_quote_def read_unquoted [where s = cs and rest = "t # rest", simplified] csv_special_def)
  qed
qed

lemma read_fields:
  "csv_read StartField (csv_join (map csv_quote (f # fs)) @ LF # rest) [] r
   = map_option (Cons (rev r @ f # fs)) (csv_read StartRecord rest [] [])"
proof (induction fs arbitrary: f r)
  case Nil
  then show ?case using read_field [of LF f rest r] by simp
next
  case (Cons g gs)
  have "csv_read StartField (csv_join (map csv_quote (f # g # gs)) @ LF # rest) [] r
      = csv_read StartField (csv_quote f @ COMMA # csv_join (map csv_quote (g # gs)) @ LF # rest) [] r"
    by simp
  also have "\<dots> = csv_read StartField (csv_join (map csv_quote (g # gs)) @ LF # rest) [] (f # r)"
    using read_field [of COMMA f "csv_join (map csv_quote (g # gs)) @ LF # rest" r] by simp
  also have "\<dots> = map_option (Cons (rev r @ f # g # gs)) (csv_read StartRecord rest [] [])"
    using Cons.IH [of g "f # r"] by simp
  finally show ?case .
qed

lemma csv_quote_hd:
  "csv_quote f = c # cs \<Longrightarrow> c \<noteq> LF"
  by (cases f) (auto simp: csv_quote_def csv_special_def split: if_splits)

lemma csv_join_hd:
  "\<forall>x\<in>set xs. \<forall>d ds. x = d # ds \<longrightarrow> d \<noteq> LF \<Longrightarrow> csv_join xs = c # cs \<Longrightarrow> c \<noteq> LF"
  by (cases xs rule: csv_join.cases) (auto simp: Cons_eq_append_conv append_eq_Cons_conv)

lemma read_row:
  "csv_read StartRecord (csv_row fs @ rest) [] [] = map_option (Cons fs) (csv_read StartRecord rest [] [])"
proof -
  consider "fs = []" | "fs = [[]]" | f fs' where "fs = f # fs'" "fs \<noteq> [[]]" by (cases fs) auto
  then show ?thesis
  proof cases
    case 1
    then show ?thesis by (simp add: csv_row_def)
  next
    case 2
    then show ?thesis by (simp add: csv_row_def)
  next
    case 3
    from 3(2) have "csv_row fs = csv_join (map csv_quote fs) @ [LF]" by (simp add: csv_row_def)
    with 3(1) have row: "csv_row fs @ rest = csv_join (map csv_quote (f # fs')) @ LF # rest"
      by simp
    have "csv_read StartRecord (csv_join (map csv_quote (f # fs')) @ LF # rest) [] []
        = csv_read StartField (csv_join (map csv_quote (f # fs')) @ LF # rest) [] []"
    proof (cases "csv_join (map csv_quote (f # fs'))")
      case Nil
      with 3 show ?thesis by (cases fs') (auto simp: csv_quote_def split: if_splits)
    next
      case (Cons c cs)
      then have "c \<noteq> LF"
        by (rule csv_join_hd [rotated]) (auto dest: csv_quote_hd)
      with Cons show ?thesis by simp
    qed
    with row read_fields [of f fs' rest "[]"] 3 show ?thesis by simp
  qed
qed

lemma csv_roundtrip: "csv_parse (concat (map csv_row rows)) = Some rows"
  by (induction rows) (simp_all add: csv_parse_def read_row)

section \<open>Properties of the download\<close>

text \<open>
  C37. The CSV download raises exactly when the filtered view does, and otherwise its
  bytes decode as UTF-8 and parse as CSV back to the view's header and cell texts,
  whatever the cells hold: commas, quotes, line breaks, accented letters or nothing.
\<close>

theorem export_csv_roundtrip:
  "map_sum id csv_decode (export_csv num_str c_tipo sel df_work)
   = map_sum id (\<lambda>data. Some (frame_csv_rows num_str data)) (data_view num_str c_tipo sel df_work)"
  by (cases "data_view num_str c_tipo sel df_work")
     (simp_all add: export_csv_def export_table_data_view csv_decode_def to_csv_def utf8_roundtrip
       csv_roundtrip err_bind_def)

end
