(* ===== verification/Page.thy ===== *)
theory Page
  imports Loader Charts Export
begin

text \<open>
  The page one run of \<open>src/app.py\<close> draws, as the sequence of Streamlit elements the
  script emits from top to bottom (lines 8--207). An element whose content is a
  literal of the source (a title, a markdown block, a notice) is named by the line of
  that literal; elements that show computed content carry it (the options of a
  widget, a chart specification, a table, the bytes of the download). An exception
  stops the script: the elements emitted so far stay on the page, followed by the
  exception, and nothing after it is drawn. The user's inputs of the run are
  parameters: the type selected in the sidebar, the slider value, whether the download
  button was pressed and the entities picked in the comparison tab.
\<close>

datatype element =
    PageConfig
  | SbHeader | Selectbox "string list" | Slider nat nat nat | SbMarkdown nat | SbSubheader
  | Button | Download "8 word list"
  | Title | Caption | Markdown nat | Tabs
  | TabStart nat | Subheader nat | Write "ustr option"
  | BarChart bar_chart | Multiselect "string list" | FacetChart facet_chart
  | ScatterChart scatter_chart | Dataframe frame | Info nat
  | Expander | Success

text \<open>What a run draws and how it ends: the elements, and \<open>Inl\<close> the exception that
  stopped the script or \<open>Inr ()\<close>.\<close>

type_synonym rendered = "element list \<times> unit result"

text \<open>Emitting elements before the rest of the script, and running a fallible step:
  an exception ends the page with nothing more drawn.\<close>

definition out :: "element list \<Rightarrow> rendered \<Rightarrow> rendered" where
  "out es r = (es @ fst r, snd r)"

definition rbind :: "'a result \<Rightarrow> ('a \<Rightarrow> rendered) \<Rightarrow> rendered" where
  "rbind m k = (case m of Inl e \<Rightarrow> ([], Inl e) | Inr a \<Rightarrow> k a)"

definition done_ok :: rendered where
  "done_ok = ([], Inr ())"

section \<open>The script, top to bottom\<close>

text \<open>Lines 194--207: the rule, the glossary expander and the closing message.\<close>

definition footer :: "element list" where
  "footer = [Markdown 194, Expander, Markdown 196, Success]"

text \<open>Lines 120--143: the comparison tab, element by element.\<close>

definition render_cmp :: "(real \<Rightarrow> string) \<Rightarrow> string list \<Rightarrow> resolution \<Rightarrow> string \<Rightarrow> frame
    \<Rightarrow> rendered \<Rightarrow> rendered" where
  "render_cmp num_str pick r e data k =
     out [TabStart 1, Subheader 121]
       (case (col_pia r, col_pim r) of
          (Some a, Some m) \<Rightarrow>
            if py_truthy (Some a) \<and> py_truthy (Some m)
            then rbind (sample_list num_str data e) (\<lambda>opts.
                 out [Multiselect opts]
                   (rbind (cmp_chart num_str pick e a m data) (\<lambda>c.
                    out [FacetChart c, Markdown 136]
                      (rbind (cmp_table r e data) (\<lambda>t.
                       out (case t of Some t' \<Rightarrow> [Dataframe t'] | None \<Rightarrow> []) k)))))
            else out [Info 143] k
        | _ \<Rightarrow> out [Info 143] k)"

text \<open>Lines 145--174: the scatter tab.\<close>

definition render_scatter :: "resolution \<Rightarrow> string \<Rightarrow> frame \<Rightarrow> rendered \<Rightarrow> rendered" where
  "render_scatter r e data k =
     out [TabStart 2, Subheader 146]
       (rbind (scatter r e data) (\<lambda>c3.
          case c3 of
            Some sc \<Rightarrow> out [ScatterChart sc, Markdown 170] k
          | None \<Rightarrow> out [Info 174] k))"

text \<open>Lines 97--192: the four tabs. The first tab writes its label (line 103; the
  element holds the label the sentence shows) before it sorts, and sets \<open>ent_name\<close>, which the others read.\<close>

definition render_tabs :: "((nat \<Rightarrow> cell) \<Rightarrow> nat list \<Rightarrow> nat list) \<Rightarrow> (real \<Rightarrow> string) \<Rightarrow> resolution
    \<Rightarrow> nat \<Rightarrow> string list \<Rightarrow> frame \<Rightarrow> rendered" where
  "render_tabs srt num_str r n pick data =
     out [Tabs, TabStart 0, Subheader 100, Write (rank_label r)]
       (rbind (rank_chart srt r n data) (\<lambda>ch.
          (let e = enc_field (bar_y ch) in
           out [BarChart ch, Markdown 116]
             (render_cmp num_str pick r e data
               (render_scatter r e data
                 (out [TabStart 3, Subheader 177]
                   (rbind (explore_table srt r e data) (\<lambda>t.
                      out ([Dataframe t, Markdown 190] @ footer) done_ok))))))))"

text \<open>Lines 63--78: the sidebar. The selection is the user's when the type column is
  resolved, else \<open>"(Todos)"\<close> (line 70); the download is prepared only in the run in
  which the button was pressed.\<close>

definition render_sidebar :: "(real \<Rightarrow> string) \<Rightarrow> resolution \<Rightarrow> string \<Rightarrow> bool \<Rightarrow> frame
    \<Rightarrow> rendered \<Rightarrow> rendered" where
  "render_sidebar num_str r sel pressed dw k =
     out [SbHeader]
       (rbind (if py_truthy (col_tipo r) then tipo_options num_str (col_tipo r) dw else Inr []) (\<lambda>tipos.
        out ((if py_truthy (col_tipo r) then [Selectbox tipos] else [])
             @ [Slider 5 50 15, SbMarkdown 71, SbSubheader, Button])
          (if pressed
           then rbind (export_csv num_str (col_tipo r) sel dw) (\<lambda>csv. out [Download csv] k)
           else k)))"

definition effective_sel :: "resolution \<Rightarrow> string \<Rightarrow> string" where
  "effective_sel r sel = (if py_truthy (col_tipo r) then sel else TODOS)"

text \<open>One run: page configuration (line 8), the cached load (line 30), the resolution
  and the derived table (lines 32--61), the sidebar, the view (lines 80--83), the
  header (lines 85--95) and the tabs. The cache is returned with the page.\<close>

definition render :: "((nat \<Rightarrow> cell) \<Rightarrow> nat list \<Rightarrow> nat list) \<Rightarrow> (real \<Rightarrow> string) \<Rightarrow> string \<Rightarrow> nat
    \<Rightarrow> bool \<Rightarrow> string list \<Rightarrow> file_system \<Rightarrow> data_cache \<Rightarrow> rendered \<times> data_cache" where
  "render srt num_str sel n pressed pick fs cache =
     (case load_data_cached fs cache DATA_PATH of
        Inl e \<Rightarrow> (([PageConfig], Inl e), cache)
      | Inr (df, cache') \<Rightarrow>
          (let r = resolve_columns df; s = effective_sel r sel in
           (out [PageConfig]
              (rbind (derive_metrics r df) (\<lambda>dw.
                 render_sidebar num_str r s pressed dw
                   (rbind (data_view num_str (col_tipo r) s dw) (\<lambda>data.
                      out [Title, Caption, Markdown 87] (render_tabs srt num_str r n pick data))))),
            cache')))"

section \<open>Lemmas\<close>

lemma out_simps [simp]: "fst (out es k) = es @ fst k" "snd (out es k) = snd k"
  by (simp_all add: out_def)

lemma rbind_simps [simp]: "rbind (Inl e) f = ([], Inl e)" "rbind (Inr a) f = f a"
  by (simp_all add: rbind_def)

lemma rbind_ok: "snd (rbind m f) = Inr v \<Longrightarrow> \<exists>a. m = Inr a \<and> rbind m f = f a"
  by (cases m) simp_all

text \<open>A page ends well exactly when it shows the closing message: the invariant
  \<open>success_shown\<close> of a rendered value, kept by every part of the script.\<close>

definition success_shown :: "rendered \<Rightarrow> bool" where
  "success_shown p \<longleftrightarrow> (Success \<in> set (fst p) \<longleftrightarrow> snd p = Inr ())"

lemma success_out: "Success \<notin> set es \<Longrightarrow> success_shown k \<Longrightarrow> success_shown (out es k)"
  by (simp add: success_shown_def)

lemma success_rbind: "(\<And>a. success_shown (f a)) \<Longrightarrow> success_shown (rbind m f)"
  by (cases m) (simp_all add: success_shown_def)

lemma success_footer: "success_shown (out (es @ footer) done_ok)"
  by (simp add: success_shown_def footer_def done_ok_def)

lemmas success_intros = success_out success_rbind success_footer

lemma success_cmp: "success_shown k \<Longrightarrow> success_shown (render_cmp num_str pick r e data k)"
  unfolding render_cmp_def
  by (auto intro!: success_intros split: option.splits prod.splits)

lemma success_scatter: "success_shown k \<Longrightarrow> success_shown (render_scatter r e data k)"
  unfolding render_scatter_def
  by (auto intro!: success_intros split: option.splits)

lemma success_tabs: "success_shown (render_tabs srt num_str r n pick data)"
  unfolding render_tabs_def Let_def
  by (intro success_intros success_cmp success_scatter) simp_all

lemma success_sidebar: "success_shown k \<Longrightarrow> success_shown (render_sidebar num_str r sel pressed dw k)"
  unfolding render_sidebar_def
  by (auto intro!: success_intros)

text \<open>The informational notices of the comparison (line 143) and scatter (line 174)
  tabs, and where they appear.\<close>

definition notices :: "element list \<Rightarrow> nat set" where
  "notices es = {l. Info l \<in> set es}"

lemma notices_simps [simp]: "notices [] = {}" "notices (es @ fs) = notices es \<union> notices fs"
  "notices (x # es) = (case x of Info l \<Rightarrow> insert l (notices es) | _ \<Rightarrow> notices es)"
  by (auto simp: notices_def split: element.splits)

lemma notices_cmp:
  "snd (render_cmp num_str pick r e data k) = Inr () \<Longrightarrow>
   snd k = Inr () \<and> notices (fst (render_cmp num_str pick r e data k))
     = (if py_truthy (col_pia r) \<and> py_truthy (col_pim r) then {} else {143}) \<union> notices (fst k)"
  unfolding render_cmp_def
  by (auto simp: rbind_def split: option.splits prod.splits sum.splits if_splits)

lemma scatter_None_iff:
  "scatter r e data = Inr c3 \<Longrightarrow> c3 = None \<longleftrightarrow> \<not> (py_truthy (col_avance r) \<and> py_truthy (col_pim r))"
  by (auto simp: scatter_def err_bind_eq_Inr split: option.splits if_splits)

lemma notices_scatter:
  "snd (render_scatter r e data k) = Inr () \<Longrightarrow>
   snd k = Inr () \<and> notices (fst (render_scatter r e data k))
     = (if py_truthy (col_avance r) \<and> py_truthy (col_pim r) then {} else {174}) \<union> notices (fst k)"
  unfolding render_scatter_def
  by (auto simp: rbind_def dest: scatter_None_iff split: option.splits sum.splits)

lemma notices_tabs:
  "snd (render_tabs srt num_str r n pick data) = Inr () \<Longrightarrow>
   notices (fst (render_tabs srt num_str r n pick data))
     = (if py_truthy (col_pia r) \<and> py_truthy (col_pim r) then {} else {143})
       \<union> (if py_truthy (col_avance r) \<and> py_truthy (col_pim r) then {} else {174})"
  unfolding render_tabs_def Let_def
  by (auto simp: rbind_def footer_def done_ok_def split: sum.splits dest!: notices_cmp notices_scatter)

lemma notices_sidebar:
  "snd (render_sidebar num_str r sel pressed dw k) = Inr () \<Longrightarrow>
   snd k = Inr () \<and> notices (fst (render_sidebar num_str r sel pressed dw k)) = notices (fst k)"
  unfolding render_sidebar_def
  by (auto simp: rbind_def split: sum.splits if_splits)

lemma render_Inr:
  assumes "render srt num_str sel n pressed pick fs cache = ((es, Inr ()), c')"
  obtains df dw where "load_data_cached fs cache DATA_PATH = Inr (df, c')"
    "derive_metrics (resolve_columns df) df = Inr dw"
    "es = PageConfig # fst (render_sidebar num_str (resolve_columns df) (effective_sel (resolve_columns df) sel)
       pressed dw (rbind (data_view num_str (col_tipo (resolve_columns df)) (effective_sel (resolve_columns df) sel) dw)
         (\<lambda>data. out [Title, Caption, Markdown 87] (render_tabs srt num_str (resolve_columns df) n pick data))))"
    "snd (render_sidebar num_str (resolve_columns df) (effective_sel (resolve_columns df) sel)
       pressed dw (rbind (data_view num_str (col_tipo (resolve_columns df)) (effective_sel (resolve_columns df) sel) dw)
         (\<lambda>data. out [Title, Caption, Markdown 87] (render_tabs srt num_str (resolve_columns df) n pick data)))) = Inr ()"
  using assms
  by (auto simp: render_def Let_def rbind_def out_def split: sum.splits prod.splits)

lemma load_df_chart:
  "load_data_cached [DATA_PATH \<mapsto> df_chart] Map.empty DATA_PATH = Inr (df_chart, [DATA_PATH \<mapsto> df_chart])"
  by (simp add: load_data_cached_def load_data_def read_excel_def df_chart_def strip_headers_def
      py_strip_def py_isspace_def)

section \<open>Properties of the page\<close>

text \<open>
  C30. A fatal load error (spec section 7a): when the spreadsheet is missing and nothing
  is cached, the run draws no content at all: only the page configuration of line 8
  precedes the \<open>FileLoadError\<close>, and the cache stays empty.
\<close>

theorem load_failure_page:
  "cache DATA_PATH = None \<Longrightarrow> fs DATA_PATH = None \<Longrightarrow>
   render srt num_str sel n pressed pick fs cache = (([PageConfig], Inl (FileLoadError DATA_PATH)), cache)"
  by (simp add: render_def load_data_cached_def load_data_def read_excel_def)

theorem load_failure_page_witness:
  "render (\<lambda>key xs. sort_key key xs) (\<lambda>x. '''') TODOS 15 False [] Map.empty Map.empty
   = (([PageConfig], Inl (FileLoadError DATA_PATH)), Map.empty)"
  by (rule load_failure_page) simp_all


text \<open>
  C27. Degraded data (spec section 7b): on a run that completes, the comparison tab shows
  its notice (line 143) exactly when the PIA or the PIM column is unresolved, and the
  scatter tab shows its notice (line 174) exactly when the execution or the PIM column
  is unresolved; every other tab draws its content.
\<close>

theorem notices_for_unresolved:
  assumes run: "render srt num_str sel n pressed pick fs cache = ((es, Inr ()), c')"
    and df: "c' DATA_PATH = Some df"
  shows "(Info 143 \<in> set es \<longleftrightarrow> \<not> (py_truthy (col_pia (resolve_columns df)) \<and> py_truthy (col_pim (resolve_columns df))))
    \<and> (Info 174 \<in> set es \<longleftrightarrow> \<not> (py_truthy (col_avance (resolve_columns df)) \<and> py_truthy (col_pim (resolve_columns df))))"
proof -
  obtain df' dw where l: "load_data_cached fs cache DATA_PATH = Inr (df', c')"
    and es: "es = PageConfig # fst (render_sidebar num_str (resolve_columns df') (effective_sel (resolve_columns df') sel)
       pressed dw (rbind (data_view num_str (col_tipo (resolve_columns df')) (effective_sel (resolve_columns df') sel) dw)
         (\<lambda>data. out [Title, Caption, Markdown 87] (render_tabs srt num_str (resolve_columns df') n pick data))))"
    and ok: "snd (render_sidebar num_str (resolve_columns df') (effective_sel (resolve_columns df') sel)
       pressed dw (rbind (data_view num_str (col_tipo (resolve_columns df')) (effective_sel (resolve_columns df') sel) dw)
         (\<lambda>data. out [Title, Caption, Markdown 87] (render_tabs srt num_str (resolve_columns df') n pick data)))) = Inr ()"
    using run by (rule render_Inr)
  from load_data_cached_Inr [OF l] df have "df' = df" by simp
  note sb = notices_sidebar [OF ok]
  obtain data where "data_view num_str (col_tipo (resolve_columns df')) (effective_sel (resolve_columns df') sel) dw = Inr data"
    and k: "rbind (data_view num_str (col_tipo (resolve_columns df')) (effective_sel (resolve_columns df') sel) dw)
         (\<lambda>data. out [Title, Caption, Markdown 87] (render_tabs srt num_str (resolve_columns df') n pick data))
       = out [Title, Caption, Markdown 87] (render_tabs srt num_str (resolve_columns df') n pick data)"
    using rbind_ok [OF conjunct1 [OF sb]] by auto
  have t: "snd (render_tabs srt num_str (resolve_columns df') n pick data) = Inr ()"
    using sb k by simp
  have "notices es = notices (fst (render_tabs srt num_str (resolve_columns df') n pick data))"
    using sb k es by simp
  with notices_tabs [OF t] \<open>df' = df\<close> have
    "143 \<in> notices es \<longleftrightarrow> \<not> (py_truthy (col_pia (resolve_columns df)) \<and> py_truthy (col_pim (resolve_columns df)))"
    "174 \<in> notices es \<longleftrightarrow> \<not> (py_truthy (col_avance (resolve_columns df)) \<and> py_truthy (col_pim (resolve_columns df)))"
    by auto
  then show ?thesis by (simp add: notices_def)
qed

theorem notices_for_unresolved_witness:
  "\<exists>es c'. render (\<lambda>key xs. sort_key key xs) (\<lambda>x. '''') TODOS 5 False [] [DATA_PATH \<mapsto> df_chart] Map.empty
       = ((es, Inr ()), c') \<and> c' DATA_PATH = Some df_chart \<and> Info 143 \<in> set es \<and> Info 174 \<in> set es"
proof -
  let ?r = "resolve_columns df_chart"
  have tipo: "\<not> py_truthy (col_tipo ?r)" by (simp add: df_chart_def find_col_eval)
  have pia: "find_col df_chart pia_patterns = None" "find_col df_chart tipo_patterns = None"
    by (simp_all add: df_chart_def find_col_eval)
  have r: "render (\<lambda>key xs. sort_key key xs) (\<lambda>x. '''') TODOS 5 False [] [DATA_PATH \<mapsto> df_chart] Map.empty
    = (out [PageConfig] (render_sidebar (\<lambda>x. '''') ?r TODOS False dw_chart
         (out [Title, Caption, Markdown 87] (render_tabs (\<lambda>key xs. sort_key key xs) (\<lambda>x. '''') ?r 5 [] dw_chart))),
       [DATA_PATH \<mapsto> df_chart])"
    by (simp add: render_def Let_def load_df_chart derive_df_chart effective_sel_def tipo data_view_TODOS)
  have ok: "snd (fst (render (\<lambda>key xs. sort_key key xs) (\<lambda>x. '''') TODOS 5 False [] [DATA_PATH \<mapsto> df_chart] Map.empty)) = Inr ()"
    unfolding r render_tabs_def rank_chart_dw_chart Let_def
    by (simp add: render_sidebar_def tipo render_cmp_def pia render_scatter_def scatter_df_chart
        explore_dw_chart done_ok_def)
  obtain es x c' where e: "render (\<lambda>key xs. sort_key key xs) (\<lambda>x. '''') TODOS 5 False [] [DATA_PATH \<mapsto> df_chart] Map.empty
    = ((es, x), c')" by (metis prod.exhaust)
  with ok r have run: "render (\<lambda>key xs. sort_key key xs) (\<lambda>x. '''') TODOS 5 False [] [DATA_PATH \<mapsto> df_chart] Map.empty
    = ((es, Inr ()), [DATA_PATH \<mapsto> df_chart])" by (simp add: out_def)
  have df: "[DATA_PATH \<mapsto> df_chart] DATA_PATH = Some df_chart" by simp
  have u: "\<not> py_truthy (col_pia ?r)" "\<not> py_truthy (col_avance ?r)"
    by (simp_all add: df_chart_def find_col_eval)
  from notices_for_unresolved [OF run df] u have "Info 143 \<in> set es" "Info 174 \<in> set es" by simp_all
  with run df show ?thesis by blast
qed

end
