(* ===== verification/Spec2Isabelle.thy ===== *)
theory Spec2Isabelle
  imports Page
begin

text \<open>
  \<^bold>\<open>A verification model of the PPR 0101 budget dashboard\<close> (\<open>src/app.py\<close>).

  The program is one Streamlit script, re-executed from the top on every page refresh.
  It loads a spreadsheet through a path-keyed cache (\<open>load_data\<close>, lines 18--30),
  resolves the columns that play eleven canonical roles by fuzzy header matching
  (\<open>find_col\<close>, lines 10--16 and 32--42), derives a growth and a per-capita column and
  rescales the execution percentage on a copy \<open>df_work\<close> (lines 44--61), filters it by
  the government type chosen in the sidebar (lines 63--83), and draws four tabs from the
  filtered view: a top-N ranking (99--108), a PIA/PIM comparison (120--143), a scatter
  (145--176) and an exploratory table (178--189); the sidebar also offers the filtered
  table as a CSV download (73--78).

  Theories, leaves first, each named after the part it models:
  \<^item> \<open>Prelude\<close>: errors as values (\<open>py_error\<close>; a result is \<open>Inl\<close> an exception or
    \<open>Inr\<close> a value; \<open>err_bind\<close> and the element-wise \<open>map_err\<close> sequence them), Python's
    \<open>str.lower\<close> and \<open>str.strip\<close> on Latin-1 code points, truthiness of an optional
    column name, and dictionaries as ordered item lists (\<open>dict_of\<close>, \<open>dict_set\<close>).
  \<^item> \<open>Frame\<close>: the pandas values the program touches. A \<open>cell\<close> is a number, a string or
    missing; a \<open>frame\<close> is a row count and labelled columns, well formed (\<open>wf_frame\<close>)
    when every column has one cell per row; \<open>get_column\<close> and \<open>set_column\<close> are
    \<open>df[c]\<close> and \<open>df[c] = v\<close>; the element-wise operations raise \<open>TypeError\<close> on strings.
  \<^item> \<open>Resolver\<close>: \<open>find_col\<close> as the source computes it (\<open>lower_dict\<close>, \<open>scan_patterns\<close>,
    \<open>scan_items\<close>), its abstract specification \<open>find_col_spec\<close>, the eleven pattern
    lists and \<open>resolve_columns\<close>, the record of the eleven resolved names.
  \<^item> \<open>Deriver\<close>: \<open>add_growth\<close>, \<open>add_percap\<close> and \<open>rescale_avance\<close> composed as
    \<open>derive_metrics\<close>, against the specification's row rules \<open>growth_cell\<close> and
    \<open>percap_cell\<close>.
  \<^item> \<open>Loader\<close>: \<open>read_excel\<close> as a lookup in a file system, \<open>load_data\<close>, and the cache of
    \<open>@st.cache_data\<close> as explicit state threaded by \<open>load_data_cached\<close>.
  \<^item> \<open>Presentation\<close>: the type selector's options (\<open>tipo_options\<close>), the sidebar state
    and the filtered view \<open>data\<close> (\<open>data_view\<close>, through boolean indexing \<open>filter_rows\<close>).
  \<^item> \<open>Ranking\<close>: a \<open>linorder\<close> instance on cells, the descending \<open>sort_values\<close> with
    missing values last as pandas computes it (\<open>nargsort_desc\<close>), \<open>head\<close>, and the top-N
    table \<open>top_table\<close>; the reference stable descending sort \<open>sort_desc\<close>.
  \<^item> \<open>Tabs\<close>: the CSV export table, the entity column, the comparison tab (picker
    options, picked rows, \<open>melt\<close>), the scatter base and the exploratory table with its
    \<open>try\<close>/\<open>except\<close>.
  \<^item> \<open>Charts\<close>: \<open>to_title\<close> (lines 24--27) as CPython's \<open>str.title\<close> on Latin-1
    input, its result a list of Unicode code points (\<open>ustr\<close>), since titles can leave
    Latin-1; and the Altair specifications the three charts hand to \<open>st.altair_chart\<close>
    (\<open>rank_chart\<close>, \<open>cmp_chart\<close>, \<open>scatter\<close>) as records of the plotted frame, the
    encodings (field, type, title) and the tooltips; \<open>page_tabs\<close> runs the four tabs in
    order, passing the entity name of the first tab to the others.
  \<^item> \<open>Export\<close>: the CSV download (lines 73--78): \<open>to_csv(index=False)\<close> with the
    \<open>csv\<close> module's minimal quoting, and \<open>.encode("utf-8")\<close> into bytes (\<open>8 word\<close>, with
    the encoder's shifts and masks); on the reading side, a UTF-8 decoder and the state
    machine of \<open>csv.reader\<close>.
  \<^item> \<open>Page\<close>: the page a run draws (\<open>render\<close>), as the sequence of Streamlit
    elements the script's \<open>st.*\<close> calls emit, from \<open>st.set_page_config\<close> (line 8) to
    \<open>st.success\<close> (line 207): the sidebar (\<open>render_sidebar\<close>), the header, the tabs
    (\<open>render_tabs\<close>, \<open>render_cmp\<close>, \<open>render_scatter\<close>) and the glossary (\<open>footer\<close>).
    Literal texts are named by their source line; an uncaught exception ends the page
    (\<open>rbind\<close>). The user's inputs (selection, slider, button, picked entities) are
    parameters of the run.
  \<^item> This theory: one run of the script (\<open>script_run\<close>: cached load, resolution,
    derivation, view), a session of reruns threading the cache as a fold
    (\<open>script_runs\<close>), and the states a session can reach as an inductive relation
    (\<open>session\<close>), whose invariant is proved by rule induction.

  What the lemmas show, by group:
  \<^item> Resolver: \<open>find_col\<close> returns only headers, refines \<open>find_col_spec\<close>, and fails
    exactly when no pattern occurs in any header; the resolution names only headers.
  \<^item> Deriver: the vectorised growth and per-capita expressions equal the row rules; an
    unresolved input gives a column of NaN; a successful derivation adds two columns
    with one cell per row and no string cell; string cells raise \<open>TypeError\<close>; the rescale
    multiplies the whole column once exactly when more than 70\% of the first 20
    non-missing values lie in [0, 1]; deriving keeps the frame well formed.
  \<^item> Loader and script: a load strips the headers; a missing file is a fatal error; the
    cache is keyed by path alone; after one successful run every rerun of a session
    returns the same derived table and leaves the cache unchanged, because the cache
    holds the loaded table and never the rescaled one. In every reachable session state
    the cache holds at most the data path, bound to a table some refresh read, and a
    refresh that finds a readable file fills it even when a later step raises.
  \<^item> Presentation and tabs: the filter keeps exactly the selected type's rows; the
    selector is sorted with \<open>"(Todos)"\<close> first and every option gives rows; the top-N
    table has at most N whole rows, ranked descending with missing values last, and
    shows the largest values; ties keep row order only under a stable argsort; the
    exploratory table never fails, is sorted when it can be, and falls back otherwise;
    the melted table splits back into its two budget columns; the scatter shows the
    rows with both values.
  \<^item> Charts: \<open>to_title\<close> title-cases exactly the characters that start the label or
    follow an uncased one; on a successful run every chart of the page references only
    columns of the table it plots; with no ranking column the first tab raises
    \<open>IndexError\<close> exactly on a view of fewer than two columns.
  \<^item> Page: a fatal load error draws no content (spec 7a); the comparison and scatter
    tabs show their notices exactly when their columns are unresolved (spec 7b); the
    closing message appears exactly on runs that raise nothing.
  \<^item> Loader, loops: the two index loops of \<open>str.strip\<close> (CPython's \<open>do_strip\<close>,
    kept as \<open>while_option\<close> loops) always stop and agree with the reference \<open>py_strip\<close>.
  \<^item> Export: the download raises exactly when the view does and otherwise decodes and
    parses back to the view's header and cell texts, for every content of the cells.

  Modelling choices. Numbers are real numbers: rounding of IEEE doubles is not modelled.
  The rescale's threshold \<open>0.7\<close> is compared exactly: a share \<open>k / n\<close> with \<open>n \<le> 20\<close>
  equals the double \<open>0.7\<close> only at \<open>7/10\<close> and \<open>14/20\<close>, where both comparisons are
  false. The text \<open>astype(str)\<close> prints for a float is a parameter \<open>num_str\<close>, and the
  argsort pandas calls is a parameter \<open>srt\<close> constrained by \<open>valid_argsort\<close>, so the
  theorems hold for every float printer and every sorting algorithm numpy may use.
  Division by zero gives NaN (pandas gives infinity, but every such row is masked by
  the \<open>> 0\<close> guard). Every recursion of the model is structural except the two
  \<open>while_option\<close> loops of \<open>str.strip\<close>, whose termination is proved with the
  distance of the index to the other end as measure; no fuel is needed.

  Not modelled: \<open>pd.read_excel\<close> itself (a file is given as the frame it parses to,
  with string headers), the rendering of the page by the browser (the model stops at
  the elements and chart specifications the script hands to Streamlit), the words of
  the literal texts (each is named by its source line), and Unicode case and
  white-space tables beyond Latin-1. The CSV text of a frame with no column is taken to be what the
  \<open>csv\<close> writer makes of its records; pandas' own handling of that case is not modelled.
\<close>

section \<open>The script run\<close>

text \<open>
  One execution of the script from top to bottom (lines 28--83), as Streamlit performs
  it on every page refresh: the cached load, the eleven resolutions, the derived table
  \<open>df_work\<close> and the filtered view \<open>data\<close> for the type selected in the sidebar. The
  cache of \<open>load_data\<close> is the only state that survives a run.
\<close>

definition page_of :: "(real \<Rightarrow> string) \<Rightarrow> resolution \<Rightarrow> string \<Rightarrow> frame \<Rightarrow> (frame \<times> frame) result" where
  "page_of num_str r sel df_work =
     err_bind (data_view num_str (col_tipo r) sel df_work) (\<lambda>data. Inr (df_work, data))"

definition script_run :: "(real \<Rightarrow> string) \<Rightarrow> string \<Rightarrow> file_system \<Rightarrow> data_cache
    \<Rightarrow> (frame \<times> frame) result \<times> data_cache" where
  "script_run num_str sel fs cache =
     (case load_data_cached fs cache DATA_PATH of
        Inl e \<Rightarrow> (Inl e, cache)
      | Inr (df, cache') \<Rightarrow>
          (let r = resolve_columns df in (err_bind (derive_metrics r df) (page_of num_str r sel), cache')))"

text \<open>A session: successive runs, each with the selection and the file system of its
  refresh, threading the cache.\<close>

fun script_runs :: "(real \<Rightarrow> string) \<Rightarrow> (string \<times> file_system) list \<Rightarrow> data_cache
    \<Rightarrow> (frame \<times> frame) result list \<times> data_cache" where
  "script_runs num_str [] cache = ([], cache)"
| "script_runs num_str ((sel, fs) # rs) cache =
     (let (x, cache') = script_run num_str sel fs cache;
          (xs, cache'') = script_runs num_str rs cache'
      in (x # xs, cache''))"

text \<open>The states a session can reach: the cache after each refresh, with the file
  systems the refreshes saw, most recent first. Each refresh may see another file
  system (the spreadsheet may change on disk between refreshes) and another selection.\<close>

inductive session :: "(real \<Rightarrow> string) \<Rightarrow> data_cache \<Rightarrow> file_system list \<Rightarrow> bool" for num_str where
  start: "session num_str Map.empty []"
| rerun: "session num_str c fss \<Longrightarrow> session num_str (snd (script_run num_str sel fs c)) (fs # fss)"

subsection \<open>Example tables\<close>

definition df_bad :: frame where
  "df_bad = \<lparr>nrows = 1, cols = [(''PIA'', [Txt ''n/d'']), (''PIM'', [Num 150])]\<rparr>"

definition df_av :: frame where
  "df_av = \<lparr>nrows = 1, cols = [(''Avance'', [Num (1/2)])]\<rparr>"

definition df_entidad :: frame where
  "df_entidad = \<lparr>nrows = 1, cols = [(''Entidad'', [Txt ''Lima'']), (''Nivel de gobierno'', [Txt ''GL''])]\<rparr>"

definition df_pim :: frame where
  "df_pim = \<lparr>nrows = 1, cols = [(''Puntaje PIM'', [Num 10]), (''PIM'', [Num 150]), (''PIA'', [Num 100])]\<rparr>"

section \<open>Lemmas\<close>

lemma script_run_cached:
  "cache DATA_PATH = Some df \<Longrightarrow>
   script_run num_str sel fs cache =
     (err_bind (derive_metrics (resolve_columns df) df) (page_of num_str (resolve_columns df) sel), cache)"
  by (simp add: script_run_def load_data_cached_def Let_def)

lemma script_run_Inr:
  assumes "script_run num_str sel fs cache = (Inr (dw, d), cache')"
  shows "\<exists>df. load_data_cached fs cache DATA_PATH = Inr (df, cache') \<and> cache' DATA_PATH = Some df
     \<and> derive_metrics (resolve_columns df) df = Inr dw \<and> page_of num_str (resolve_columns df) sel dw = Inr (dw, d)"
proof -
  obtain x where l: "load_data_cached fs cache DATA_PATH = Inr x"
    using assms by (cases "load_data_cached fs cache DATA_PATH") (simp_all add: script_run_def)
  obtain df c where x: "x = (df, c)" by (cases x)
  from assms l x have c: "c = cache'"
    and e: "err_bind (derive_metrics (resolve_columns df) df) (page_of num_str (resolve_columns df) sel) = Inr (dw, d)"
    by (simp_all add: script_run_def Let_def)
  from load_data_cached_Inr [OF l [unfolded x]] c have "cache' DATA_PATH = Some df" by simp
  moreover from e obtain dw' where "derive_metrics (resolve_columns df) df = Inr dw'"
    and "page_of num_str (resolve_columns df) sel dw' = Inr (dw, d)"
    by (auto simp: err_bind_eq_Inr)
  moreover from this(2) have "dw' = dw" by (auto simp: page_of_def err_bind_eq_Inr)
  ultimately show ?thesis using l x c by auto
qed

lemma script_runs_cached:
  assumes "cache DATA_PATH = Some df" "derive_metrics (resolve_columns df) df = Inr dw"
  shows "script_runs num_str rs cache
    = (map (\<lambda>(sel, fs). page_of num_str (resolve_columns df) sel dw) rs, cache)"
proof (induction rs)
  case Nil
  then show ?case by simp
next
  case (Cons p rs)
  then show ?case
    by (cases p) (simp add: script_run_cached [where cache = cache and df = df, OF assms(1)] assms(2))
qed

lemma script_run_df_av:
  "script_run (\<lambda>x. '''') TODOS [DATA_PATH \<mapsto> df_av] Map.empty
   = (Inr (\<lparr>nrows = 1, cols = [(''Avance'', [Num 50]), (growth_name, [NA]), (percap_name, [NA])]\<rparr>,
           \<lparr>nrows = 1, cols = [(''Avance'', [Num 50]), (growth_name, [NA]), (percap_name, [NA])]\<rparr>),
      [DATA_PATH \<mapsto> df_av])"
  by (simp add: script_run_def load_data_cached_def load_data_def read_excel_def df_av_def
      strip_headers_def py_strip_def py_isspace_def page_of_def data_view_TODOS
      derive_metrics_def add_growth_def add_percap_def rescale_avance_def should_rescale_def
      rescale_sample_def mean_gt_def frame_eval find_col_eval growth_name_def percap_name_def)

lemma resolve_df_av_tipo: "find_col df_av tipo_patterns = None"
  by (simp add: df_av_def find_col_eval)

lemma script_run_cache:
  "snd (script_run num_str sel fs c) = c
   \<or> (c DATA_PATH = None \<and> (\<exists>raw. fs DATA_PATH = Some raw
        \<and> snd (script_run num_str sel fs c) = c(DATA_PATH \<mapsto> strip_headers raw)))"
  by (auto simp: script_run_def load_data_cached_def load_data_def read_excel_def Let_def
      split: option.splits sum.splits)

section \<open>Properties of the whole script\<close>





text \<open>
  C17. A session: after one successful run, every later run of the session, whatever
  its selection and whatever the file system holds, recomputes the same derived table
  from the same cached table, shows the view of its own selection on it, and leaves the
  cache unchanged.
\<close>

theorem runs_after_success:
  assumes "script_run num_str sel fs cache = (Inr (dw, d), cache')"
  shows "\<exists>df. cache' DATA_PATH = Some df \<and> derive_metrics (resolve_columns df) df = Inr dw
    \<and> script_runs num_str rs cache' = (map (\<lambda>(sel, fs). page_of num_str (resolve_columns df) sel dw) rs, cache')"
proof -
  from script_run_Inr [OF assms] obtain df where c: "cache' DATA_PATH = Some df"
    and m: "derive_metrics (resolve_columns df) df = Inr dw" by blast
  with script_runs_cached [where cache = cache' and df = df, OF c m] show ?thesis by blast
qed

theorem runs_after_success_witness:
  "script_runs (\<lambda>x. '''') [(''GL'', Map.empty), (TODOS, [DATA_PATH \<mapsto> df_pim])] [DATA_PATH \<mapsto> df_av]
   = ([Inr (\<lparr>nrows = 1, cols = [(''Avance'', [Num 50]), (growth_name, [NA]), (percap_name, [NA])]\<rparr>,
            \<lparr>nrows = 1, cols = [(''Avance'', [Num 50]), (growth_name, [NA]), (percap_name, [NA])]\<rparr>),
       Inr (\<lparr>nrows = 1, cols = [(''Avance'', [Num 50]), (growth_name, [NA]), (percap_name, [NA])]\<rparr>,
            \<lparr>nrows = 1, cols = [(''Avance'', [Num 50]), (growth_name, [NA]), (percap_name, [NA])]\<rparr>)],
      [DATA_PATH \<mapsto> df_av])"
proof -
  from runs_after_success [OF script_run_df_av, of "[(''GL'', Map.empty), (TODOS, [DATA_PATH \<mapsto> df_pim])]"]
  obtain df where "[DATA_PATH \<mapsto> df_av] DATA_PATH = Some df"
    and r: "script_runs (\<lambda>x. '''') [(''GL'', Map.empty), (TODOS, [DATA_PATH \<mapsto> df_pim])] [DATA_PATH \<mapsto> df_av]
      = (map (\<lambda>(sel, fs). page_of (\<lambda>x. '''') (resolve_columns df) sel
           \<lparr>nrows = 1, cols = [(''Avance'', [Num 50]), (growth_name, [NA]), (percap_name, [NA])]\<rparr>)
          [(''GL'', Map.empty), (TODOS, [DATA_PATH \<mapsto> df_pim])], [DATA_PATH \<mapsto> df_av])"
    by blast
  then have "df = df_av" by simp
  with r show ?thesis by (simp add: page_of_def data_view_def resolve_df_av_tipo)
qed

text \<open>
  C20. The cache holds the table as loaded, with stripped headers, not the derived one:
  the first successful run stores the stripped file and derives its table from it. The
  rescaled execution column never reaches the cache (the specification's section 8
  describes the cache as returning the already-rescaled table).
\<close>

theorem cache_holds_loaded_table:
  assumes "cache DATA_PATH = None" "script_run num_str sel fs cache = (Inr (dw, d), cache')"
  shows "\<exists>raw. fs DATA_PATH = Some raw \<and> cache' DATA_PATH = Some (strip_headers raw)
    \<and> derive_metrics (resolve_columns (strip_headers raw)) (strip_headers raw) = Inr dw"
proof -
  from script_run_Inr [OF assms(2)] obtain df where l: "load_data_cached fs cache DATA_PATH = Inr (df, cache')"
    and c: "cache' DATA_PATH = Some df" and m: "derive_metrics (resolve_columns df) df = Inr dw" by blast
  from l assms(1) have "load_data fs DATA_PATH = Inr df"
    by (auto simp: load_data_cached_def err_bind_eq_Inr)
  then obtain raw where "fs DATA_PATH = Some raw" "df = strip_headers raw" by (auto simp: load_data_Inr_iff)
  with c m show ?thesis by blast
qed

theorem cache_holds_loaded_table_witness:
  "[DATA_PATH \<mapsto> df_av] DATA_PATH = Some (strip_headers df_av)
   \<and> get_column df_av ''Avance'' = Inr [Num (1/2)]"
proof -
  from cache_holds_loaded_table [OF _ script_run_df_av] have
    "[DATA_PATH \<mapsto> df_av] DATA_PATH = Some (strip_headers df_av)" by simp
  then show ?thesis by (simp add: df_av_def get_column_def)
qed

text \<open>
  C18. Invariant of every session, by rule induction on \<open>session\<close>: the cache holds at
  most the entry for \<open>DATA_PATH\<close>, and that entry is the stripped table of a file
  version one of the session's refreshes read, never a derived or rescaled table.
\<close>

theorem session_cache_inv:
  assumes "session num_str c fss"
  shows "dom c \<subseteq> {DATA_PATH}
    \<and> (\<forall>df. c DATA_PATH = Some df \<longrightarrow> (\<exists>fs\<in>set fss. \<exists>raw. fs DATA_PATH = Some raw \<and> df = strip_headers raw))"
  using assms
proof (induction rule: session.induct)
  case start
  then show ?case by simp
next
  case (rerun c fss sel fs)
  from script_run_cache [of num_str sel fs c] show ?case
  proof
    assume "snd (script_run num_str sel fs c) = c"
    with rerun.IH show ?thesis by auto
  next
    assume "c DATA_PATH = None \<and> (\<exists>raw. fs DATA_PATH = Some raw
        \<and> snd (script_run num_str sel fs c) = c(DATA_PATH \<mapsto> strip_headers raw))"
    with rerun.IH show ?thesis by (auto simp: dom_def subset_iff split: if_splits)
  qed
qed

theorem session_cache_inv_witness:
  "session (\<lambda>x. '''') [DATA_PATH \<mapsto> df_av] [[DATA_PATH \<mapsto> df_av]]
   \<and> dom [DATA_PATH \<mapsto> df_av] \<subseteq> {DATA_PATH}"
proof -
  have "session (\<lambda>x. '''') (snd (script_run (\<lambda>x. '''') TODOS [DATA_PATH \<mapsto> df_av] Map.empty))
      [[DATA_PATH \<mapsto> df_av]]"
    by (rule session.rerun [OF session.start])
  then have s: "session (\<lambda>x. '''') [DATA_PATH \<mapsto> df_av] [[DATA_PATH \<mapsto> df_av]]"
    by (simp add: script_run_df_av)
  from session_cache_inv [OF s] s show ?thesis by blast
qed

text \<open>
  C19. The first refresh that finds a readable file fills the cache, even when a later
  step of that run raises: \<open>@st.cache_data\<close> stores the load's result as soon as
  \<open>load_data\<close> returns, so the next refresh does not read the file again.
\<close>

theorem cache_filled:
  "fs DATA_PATH = Some raw \<Longrightarrow> snd (script_run num_str sel fs c) DATA_PATH \<noteq> None"
  by (cases "c DATA_PATH")
     (simp_all add: script_run_def load_data_cached_def load_data_def read_excel_def Let_def)

theorem cache_filled_witness:
  "fst (script_run (\<lambda>x. '''') TODOS [DATA_PATH \<mapsto> df_bad] Map.empty) = Inl TypeError
   \<and> snd (script_run (\<lambda>x. '''') TODOS [DATA_PATH \<mapsto> df_bad] Map.empty) DATA_PATH \<noteq> None"
proof -
  have "fst (script_run (\<lambda>x. '''') TODOS [DATA_PATH \<mapsto> df_bad] Map.empty) = Inl TypeError"
    by (simp add: script_run_def load_data_cached_def load_data_def read_excel_def df_bad_def
        strip_headers_def py_strip_def py_isspace_def derive_metrics_def add_growth_def
        growth_column_def frame_eval find_col_eval)
  moreover have "snd (script_run (\<lambda>x. '''') TODOS [DATA_PATH \<mapsto> df_bad] Map.empty) DATA_PATH \<noteq> None"
    by (rule cache_filled) simp
  ultimately show ?thesis ..
qed

text \<open>
  C21. On every successful run, every chart of the page references only columns of the
  table it plots (axes, facets, colour, size and tooltips of the bar chart, the PIA/PIM
  comparison and the scatter): the resolved names come from the cached table, deriving
  the metrics only adds columns, the type filter keeps them all, and the entity name
  the first tab chooses is a column of the view.
\<close>

theorem run_page_fields:
  assumes run: "script_run num_str sel fs c = (Inr (dw, data), c')"
    and pg: "page_tabs srt num_str (resolve_columns df) n pick data = Inr pg"
    and df: "c' DATA_PATH = Some df"
  shows "page_fields_ok pg"
proof -
  from script_run_Inr [OF run] df obtain r where r: "r = resolve_columns df"
    and d: "derive_metrics r df = Inr dw" and p: "page_of num_str r sel dw = Inr (dw, data)"
    by auto
  from p have "col_names data = col_names dw"
    by (auto simp: page_of_def err_bind_eq_Inr dest: data_view_cols)
  with derive_metrics_cols [OF d] have "set (col_names df) \<subseteq> set (col_names data)" by simp
  from page_fields [OF r this pg [folded r]] show ?thesis .
qed

theorem run_page_fields_witness:
  "\<exists>dw data c' pg. script_run (\<lambda>x. '''') TODOS [DATA_PATH \<mapsto> df_chart] Map.empty = (Inr (dw, data), c')
     \<and> page_tabs (\<lambda>key xs. sort_key key xs) (\<lambda>x. '''') (resolve_columns df_chart) 5 [] data = Inr pg
     \<and> c' DATA_PATH = Some df_chart \<and> page_fields_ok pg"
proof -
  have run: "script_run (\<lambda>x. '''') TODOS [DATA_PATH \<mapsto> df_chart] Map.empty
    = (Inr (dw_chart, dw_chart), [DATA_PATH \<mapsto> df_chart])"
    by (simp add: script_run_def Let_def load_df_chart derive_df_chart page_of_def data_view_TODOS)
  obtain pg where pg: "page_tabs (\<lambda>key xs. sort_key key xs) (\<lambda>x. '''') (resolve_columns df_chart) 5 [] dw_chart
    = Inr pg"
    unfolding page_tabs_def rank_chart_dw_chart Let_def
    by (simp add: cmp_tab_df_chart scatter_df_chart explore_dw_chart)
  have df: "[DATA_PATH \<mapsto> df_chart] DATA_PATH = Some df_chart" by simp
  show ?thesis
    by (intro exI conjI) (rule run, rule pg, rule df, rule run_page_fields [OF run pg df])
qed



end
